(* ===== verification/Prelude.thy ===== *)
theory Prelude
  imports Main "HOL-Library.AList" "HOL-Library.Sublist"
begin

text \<open>
  Shared vocabulary of the development: Go maps as association lists with distinct
  keys, the Go standard library's \<open>strings.HasPrefix\<close>, the fatal outcome that models
  a Go \<open>panic\<close>, and the lemma collections that the component theories feed and use.
\<close>

named_theorems codec_simps "evaluation rules of the token text encoding"
named_theorems http_simps "evaluation rules of the HTTP request model"

text \<open>
  A Go \<open>map[K]V\<close> is an association list whose keys are distinct; assignment
  \<open>m[k] = v\<close> is \<^const>\<open>AList.update\<close> and indexing \<open>m[k]\<close> is \<^const>\<open>map_of\<close>.
  The order of the list stands for one iteration order of \<open>for k, v := range m\<close>.
\<close>

type_synonym ('k, 'v) go_map = "('k \<times> 'v) list"

definition go_map_wf :: "('k, 'v) go_map \<Rightarrow> bool" where
  "go_map_wf m \<longleftrightarrow> distinct (map fst m)"

text \<open>A Go \<open>panic\<close> aborts the request; its message is kept.\<close>

datatype fatal = Panic string

type_synonym 'a outcome = "fatal + 'a"

text \<open>\<open>strings.HasPrefix(s, p)\<close> of the Go standard library.\<close>

definition has_prefix :: "string \<Rightarrow> string \<Rightarrow> bool" where
  "has_prefix s p \<longleftrightarrow> length p \<le> length s \<and> take (length p) s = p"

subsection \<open>Prefixes\<close>

lemma has_prefix_iff_prefix: "has_prefix s p \<longleftrightarrow> prefix p s"
proof
  assume "has_prefix s p"
  then have "s = p @ drop (length p) s"
    by (metis append_take_drop_id has_prefix_def)
  then show "prefix p s" by (rule prefixI)
next
  assume "prefix p s"
  then show "has_prefix s p"
    by (auto simp: has_prefix_def prefix_def)
qed

lemma has_prefix_append [simp]: "has_prefix (p @ s) p"
  by (simp add: has_prefix_def)

lemma has_prefix_Cons [simp]:
  "has_prefix (c # s) (d # p) \<longleftrightarrow> c = d \<and> has_prefix s p"
  by (auto simp: has_prefix_iff_prefix)

lemma has_prefix_Nil [simp]:
  "has_prefix s []" "has_prefix [] (d # p) \<longleftrightarrow> False"
  by (simp_all add: has_prefix_def)

subsection \<open>Go maps\<close>

lemma go_map_wf_Nil [simp]: "go_map_wf []"
  by (simp add: go_map_wf_def)

lemma go_map_wf_update [simp]: "go_map_wf m \<Longrightarrow> go_map_wf (AList.update k v m)"
  by (simp add: go_map_wf_def distinct_update)

lemma map_of_update_same [simp]: "map_of (AList.update k v m) k = Some v"
  by (simp add: update_conv')

lemma map_of_update_other [simp]: "k' \<noteq> k \<Longrightarrow> map_of (AList.update k v m) k' = map_of m k'"
  by (simp add: update_conv')

lemma set_update_keys: "fst ` set (AList.update k v m) = insert k (fst ` set m)"
  by (simp add: dom_update)

text \<open>Repeated assignment \<open>for k, v := range kvs { m[k] = v }\<close>.\<close>

definition assign_all :: "('k, 'v) go_map \<Rightarrow> ('k \<times> 'v) list \<Rightarrow> ('k, 'v) go_map" where
  "assign_all m kvs = foldl (\<lambda>acc (k, v). AList.update k v acc) m kvs"

lemma assign_all_simps [simp]:
  "assign_all m [] = m"
  "assign_all m ((k, v) # kvs) = assign_all (AList.update k v m) kvs"
  by (simp_all add: assign_all_def)

lemma assign_all_wf [simp]: "go_map_wf m \<Longrightarrow> go_map_wf (assign_all m kvs)"
  by (induction kvs arbitrary: m) auto

lemma map_of_assign_all: "map_of (assign_all m kvs) = map_of m ++ map_of (rev kvs)"
proof (induction kvs arbitrary: m)
  case Nil
  then show ?case by simp
next
  case (Cons kv kvs)
  obtain k v where "kv = (k, v)" by fastforce
  with Cons show ?case by (simp add: update_conv' map_add_def fun_eq_iff split: option.splits)
qed

lemma update_append_fresh:
  "k \<notin> fst ` set m \<Longrightarrow> AList.update k v m = m @ [(k, v)]"
  by (induction m) auto

lemma assign_all_distinct:
  "distinct (map fst (m @ kvs)) \<Longrightarrow> assign_all m kvs = m @ kvs"
proof (induction kvs arbitrary: m)
  case Nil
  then show ?case by simp
next
  case (Cons kv kvs)
  obtain k v where kv: "kv = (k, v)" by fastforce
  with Cons.prems have "k \<notin> fst ` set m"
    by (auto simp: image_iff)
  then have "AList.update k v m = m @ [(k, v)]"
    by (rule update_append_fresh)
  with Cons kv show ?case by simp
qed

end
