(* ===== verification/Codec.thy ===== *)
theory Codec
  imports Prelude
begin

text \<open>
  The text layer of a signed token (spec section 3 and 4.1; the code calls the
  \<open>jwt-go\<close> library, which is not part of the repository). A JSON object encoded
  in base64url is modelled as an injective encoding of a claim map into text that
  never contains the segment separator \<open>.\<close>: every key and value is a field,
  escaped and terminated by \<open>;\<close>. Claim values are the tagged union of the
  spec's design notes (strings, integer instants, and the booleans JSON also
  carries). The theory proves the round trips: unescaping an escaped text, reading
  a printed integer, decoding an encoded claim map, splitting a dotted token.
\<close>

datatype claim_val = CStr string | CNum int | CBool bool

type_synonym claims = "(string, claim_val) go_map"

subsection \<open>Escaping\<close>

definition esc_char :: "char \<Rightarrow> string" where
  "esc_char c =
     (if c = CHR ''.'' then ''~d''
      else if c = CHR '';'' then ''~s''
      else if c = CHR ''~'' then ''~t''
      else [c])"

definition escape :: "string \<Rightarrow> string" where
  "escape s = concat (map esc_char s)"

definition unesc_code :: "char \<Rightarrow> char option" where
  "unesc_code d =
     (if d = CHR ''d'' then Some CHR ''.''
      else if d = CHR ''s'' then Some CHR '';''
      else if d = CHR ''t'' then Some CHR ''~''
      else None)"

text \<open>Reads one field up to its terminator; a bare separator is malformed.\<close>

fun read_field :: "string \<Rightarrow> (string \<times> string) option" where
  "read_field [] = None"
| "read_field (c # cs) =
     (if c = CHR '';'' then Some ([], cs)
      else if c = CHR ''~'' then
        (case cs of
          [] \<Rightarrow> None
        | d # ds \<Rightarrow>
            (case unesc_code d of
              None \<Rightarrow> None
            | Some e \<Rightarrow> map_option (\<lambda>(f, r). (e # f, r)) (read_field ds)))
      else if c = CHR ''.'' then None
      else map_option (\<lambda>(f, r). (c # f, r)) (read_field cs))"

text \<open>Unescapes a whole segment (the signature segment has no terminator).\<close>

fun unescape :: "string \<Rightarrow> string option" where
  "unescape [] = Some []"
| "unescape (c # cs) =
     (if c = CHR ''~'' then
        (case cs of
          [] \<Rightarrow> None
        | d # ds \<Rightarrow>
            (case unesc_code d of
              None \<Rightarrow> None
            | Some e \<Rightarrow> map_option (Cons e) (unescape ds)))
      else if c = CHR ''.'' \<or> c = CHR '';'' then None
      else map_option (Cons c) (unescape cs))"

lemma read_field_shorter: "read_field s = Some (f, r) \<Longrightarrow> length r < length s"
proof (induction s arbitrary: f rule: read_field.induct)
  case 1
  then show ?case by simp
next
  case (2 c cs)
  show ?case
  proof (cases "c = CHR '';'' \<or> c = CHR ''~'' \<or> c = CHR ''.''")
    case True
    with "2" show ?thesis
      by (auto split: if_splits list.splits option.splits) fastforce
  next
    case False
    with "2.prems" obtain f' where "read_field cs = Some (f', r)"
      by auto
    with False "2.IH"(2) show ?thesis by fastforce
  qed
qed

text \<open>Reads the fields of a segment until the text is used up.\<close>

function read_fields :: "string \<Rightarrow> string list option" where
  "read_fields [] = Some []"
| "read_fields (c # cs) =
     (case read_field (c # cs) of
       None \<Rightarrow> None
     | Some (f, r) \<Rightarrow> map_option (Cons f) (read_fields r))"
  by pat_completeness auto
termination
  by (relation "measure length") (auto simp del: read_field.simps dest: read_field_shorter)

definition write_fields :: "string list \<Rightarrow> string" where
  "write_fields fs = concat (map (\<lambda>f. escape f @ '';'') fs)"

subsection \<open>Decimal integers\<close>

definition digit_char :: "nat \<Rightarrow> char" where
  "digit_char n = char_of (48 + n)"

definition char_digit :: "char \<Rightarrow> nat option" where
  "char_digit c = (let k = of_char c in if 48 \<le> k \<and> k < 58 then Some (k - 48) else None)"

fun show_nat :: "nat \<Rightarrow> string" where
  "show_nat n = (if n < 10 then [digit_char n] else show_nat (n div 10) @ [digit_char (n mod 10)])"

declare show_nat.simps [simp del]

fun read_digits :: "nat \<Rightarrow> string \<Rightarrow> nat option" where
  "read_digits a [] = Some a"
| "read_digits a (c # cs) =
     (case char_digit c of None \<Rightarrow> None | Some d \<Rightarrow> read_digits (10 * a + d) cs)"

definition read_nat :: "string \<Rightarrow> nat option" where
  "read_nat s = (if s = [] then None else read_digits 0 s)"

definition show_int :: "int \<Rightarrow> string" where
  "show_int i = (if i < 0 then CHR ''-'' # show_nat (nat (- i)) else show_nat (nat i))"

definition read_int :: "string \<Rightarrow> int option" where
  "read_int s =
     (case s of
       [] \<Rightarrow> None
     | c # t \<Rightarrow>
         if c = CHR ''-'' then map_option (\<lambda>n. - int n) (read_nat t)
         else map_option int (read_nat s))"

subsection \<open>Claim maps\<close>

fun val_fields :: "claim_val \<Rightarrow> string \<times> string" where
  "val_fields (CStr s) = (''s'', s)"
| "val_fields (CNum i) = (''n'', show_int i)"
| "val_fields (CBool b) = (''b'', if b then ''1'' else ''0'')"

definition read_val :: "string \<Rightarrow> string \<Rightarrow> claim_val option" where
  "read_val tag p =
     (if tag = ''s'' then Some (CStr p)
      else if tag = ''n'' then map_option CNum (read_int p)
      else if tag = ''b'' \<and> p = ''1'' then Some (CBool True)
      else if tag = ''b'' \<and> p = ''0'' then Some (CBool False)
      else None)"

fun entry_fields :: "string \<times> claim_val \<Rightarrow> string list" where
  "entry_fields (k, v) = [k, fst (val_fields v), snd (val_fields v)]"

fun read_entries :: "string list \<Rightarrow> (string \<times> claim_val) list option" where
  "read_entries [] = Some []"
| "read_entries (k # t # p # rest) =
     (case read_val t p of
       None \<Rightarrow> None
     | Some v \<Rightarrow> map_option (Cons (k, v)) (read_entries rest))"
| "read_entries _ = None"

text \<open>
  Encoding a claim map (\<open>json.Marshal\<close> then \<open>EncodeSegment\<close>) and decoding it into
  a fresh map (\<open>DecodeSegment\<close> then \<open>json.Unmarshal\<close>: a repeated key keeps its last
  value).
\<close>

definition encode_obj :: "claims \<Rightarrow> string" where
  "encode_obj c = write_fields (concat (map entry_fields c))"

definition decode_obj :: "string \<Rightarrow> claims option" where
  "decode_obj s =
     (case read_fields s of
       None \<Rightarrow> None
     | Some fs \<Rightarrow> map_option (assign_all []) (read_entries fs))"

text \<open>\<open>strings.Split(s, ".")\<close>.\<close>

fun split_dot :: "string \<Rightarrow> string list" where
  "split_dot [] = [[]]"
| "split_dot (c # cs) =
     (if c = CHR ''.'' then [] # split_dot cs
      else (case split_dot cs of w # ws \<Rightarrow> (c # w) # ws | [] \<Rightarrow> [[c]]))"

subsection \<open>Round trips of the text layer\<close>

lemma escape_simps [codec_simps]:
  "escape [] = []"
  "escape (c # s) = esc_char c @ escape s"
  "escape (s @ t) = escape s @ escape t"
  by (simp_all add: escape_def)

lemma esc_char_no_sep: "CHR ''.'' \<notin> set (esc_char c)" "CHR '';'' \<notin> set (esc_char c)"
  by (simp_all add: esc_char_def)

lemma escape_no_sep [simp]: "CHR ''.'' \<notin> set (escape s)" "CHR '';'' \<notin> set (escape s)"
  by (induction s) (simp_all add: escape_simps esc_char_no_sep)

lemma read_field_escape [simp, codec_simps]:
  "read_field (escape f @ CHR '';'' # r) = Some (f, r)"
  by (induction f) (auto simp: escape_simps esc_char_def unesc_code_def)

lemma unescape_escape [simp, codec_simps]: "unescape (escape s) = Some s"
  by (induction s) (auto simp: escape_simps esc_char_def unesc_code_def)

lemma read_fields_step:
  "read_field s = Some (f, r) \<Longrightarrow> read_fields s = map_option (Cons f) (read_fields r)"
  by (cases s) auto

lemma write_fields_simps [simp]:
  "write_fields [] = []"
  "write_fields (f # fs) = escape f @ CHR '';'' # write_fields fs"
  "write_fields (fs @ gs) = write_fields fs @ write_fields gs"
  by (simp_all add: write_fields_def)

lemma read_fields_write_fields [simp, codec_simps]: "read_fields (write_fields fs) = Some fs"
proof (induction fs)
  case Nil
  then show ?case by simp
next
  case (Cons f fs)
  have "read_field (escape f @ CHR '';'' # write_fields fs) = Some (f, write_fields fs)"
    by simp
  then have "read_fields (escape f @ CHR '';'' # write_fields fs)
      = map_option (Cons f) (read_fields (write_fields fs))"
    by (rule read_fields_step)
  with Cons.IH show ?case by simp
qed

lemma write_fields_no_dot [simp]: "CHR ''.'' \<notin> set (write_fields fs)"
  by (induction fs) auto

lemma char_digit_digit_char [simp]: "n < 10 \<Longrightarrow> char_digit (digit_char n) = Some n"
  by (simp add: char_digit_def digit_char_def)

lemma digit_char_not_minus [simp]: "n < 10 \<Longrightarrow> digit_char n \<noteq> CHR ''-''"
  using char_digit_digit_char [of n] by (auto simp: char_digit_def)

lemma show_nat_unfold:
  "show_nat n = (if n < 10 then [digit_char n] else show_nat (n div 10) @ [digit_char (n mod 10)])"
  by (rule show_nat.simps)

lemma show_nat_hd: "\<exists>d t. show_nat n = digit_char d # t \<and> d < 10"
proof (induction n rule: show_nat.induct)
  case (1 n)
  show ?case
  proof (cases "n < 10")
    case True
    then show ?thesis by (auto simp: show_nat_unfold [of n])
  next
    case False
    with "1" obtain d t where "show_nat (n div 10) = digit_char d # t" "d < 10"
      by blast
    with False show ?thesis by (auto simp: show_nat_unfold [of n])
  qed
qed

lemma read_digits_append:
  "read_digits a (xs @ ys) = Option.bind (read_digits a xs) (\<lambda>b. read_digits b ys)"
  by (induction a xs rule: read_digits.induct) (auto split: option.splits)

lemma read_digits_show_nat:
  "read_digits a (show_nat n) = Some (a * 10 ^ length (show_nat n) + n)"
proof (induction n arbitrary: a rule: show_nat.induct)
  case (1 n)
  show ?case
  proof (cases "n < 10")
    case True
    then show ?thesis by (simp add: show_nat_unfold [of n])
  next
    case False
    let ?L = "length (show_nat (n div 10))"
    have "read_digits a (show_nat n)
        = read_digits (a * 10 ^ ?L + n div 10) [digit_char (n mod 10)]"
      using False "1" by (simp add: show_nat_unfold [of n] read_digits_append)
    also have "\<dots> = Some (10 * (a * 10 ^ ?L + n div 10) + n mod 10)"
      by simp
    also have "10 * (a * 10 ^ ?L + n div 10) + n mod 10 = a * 10 ^ Suc ?L + n"
      by (simp add: algebra_simps)
    finally show ?thesis
      using False by (simp add: show_nat_unfold [of n])
  qed
qed

lemma read_nat_show_nat [simp, codec_simps]: "read_nat (show_nat n) = Some n"
proof -
  obtain d t where "show_nat n = digit_char d # t" by (metis show_nat_hd)
  then have "show_nat n \<noteq> []" by simp
  then show ?thesis by (simp add: read_nat_def read_digits_show_nat)
qed

lemma read_int_show_int [simp, codec_simps]: "read_int (show_int i) = Some i"
proof (cases "i < 0")
  case True
  then show ?thesis by (simp add: show_int_def read_int_def)
next
  case False
  obtain d t where hd: "show_nat (nat i) = digit_char d # t" "d < 10"
    by (metis show_nat_hd)
  then have "read_int (show_nat (nat i)) = map_option int (read_nat (show_nat (nat i)))"
    by (simp add: read_int_def)
  with False show ?thesis by (simp add: show_int_def)
qed

lemma read_val_fields [simp, codec_simps]:
  "read_val (fst (val_fields v)) (snd (val_fields v)) = Some v"
  by (cases v) (simp_all add: read_val_def)

lemma read_entries_fields [simp, codec_simps]:
  "read_entries (concat (map entry_fields c)) = Some c"
  by (induction c) auto

text \<open>Decoding an encoded claim map gives the map back.\<close>

lemma decode_encode_obj [simp, codec_simps]:
  "go_map_wf c \<Longrightarrow> decode_obj (encode_obj c) = Some c"
  by (simp add: decode_obj_def encode_obj_def assign_all_distinct go_map_wf_def)

lemma encode_obj_no_dot [simp]: "CHR ''.'' \<notin> set (encode_obj c)"
  by (simp add: encode_obj_def)

lemma split_dot_no_dot: "CHR ''.'' \<notin> set a \<Longrightarrow> split_dot a = [a]"
  by (induction a) auto

lemma split_dot_append:
  "CHR ''.'' \<notin> set a \<Longrightarrow> split_dot (a @ CHR ''.'' # r) = a # split_dot r"
proof (induction a)
  case Nil
  then show ?case by simp
next
  case (Cons c a)
  then show ?case by (cases "split_dot r") auto
qed

lemma split_dot_three [simp, codec_simps]:
  assumes "CHR ''.'' \<notin> set a" "CHR ''.'' \<notin> set b" "CHR ''.'' \<notin> set c"
  shows "split_dot (a @ CHR ''.'' # b @ CHR ''.'' # c) = [a, b, c]"
  using assms by (simp add: split_dot_append split_dot_no_dot)

lemma decode_obj_wf: "decode_obj s = Some c \<Longrightarrow> go_map_wf c"
  by (auto simp: decode_obj_def split: option.splits)

end

