(* ===== verification/Jwt.thy ===== *)
theory Jwt
  imports Codec
begin

text \<open>
  The signed-token codec (spec section 4.1) as the code uses it through
  \<open>github.com/dgrijalva/jwt-go\<close> (version 2, where \<open>Token.Claims\<close> is a map):
  \<open>jwt.New\<close>, \<open>Token.SignedString\<close> and \<open>jwt.Parse\<close> with a key function. The
  library is not in the repository, so this theory follows the spec and the
  library's documented behaviour. The keyed hash is a parameter \<open>mac\<close> of the
  environment (no cryptographic property is assumed of it; theorems that need key
  separation take it as a hypothesis), and the clock \<open>now\<close> is the injectable clock of
  spec section 5. \<open>Parse\<close> looks the signing method up from the token's own
  \<open>alg\<close> header and accepts any method whose verification succeeds with the key: with a
  byte-string key that is exactly the three HMAC methods.
\<close>

datatype sha = SHA256 | SHA384 | SHA512

datatype signing_method = HMAC sha | RSA sha | ECDSA sha | RSAPSS sha | NoneMethod

type_synonym mac_fn = "sha \<Rightarrow> string \<Rightarrow> string \<Rightarrow> string"

record jwt_env =
  now :: int
  mac :: mac_fn

datatype verr = Expired | NotValidYet | SignatureInvalid

datatype jwt_error = Malformed | Unverifiable | Invalid "verr list"

fun sha_bits :: "sha \<Rightarrow> string" where
  "sha_bits SHA256 = ''256''"
| "sha_bits SHA384 = ''384''"
| "sha_bits SHA512 = ''512''"

fun alg_name :: "signing_method \<Rightarrow> string" where
  "alg_name (HMAC h) = ''HS'' @ sha_bits h"
| "alg_name (RSA h) = ''RS'' @ sha_bits h"
| "alg_name (ECDSA h) = ''ES'' @ sha_bits h"
| "alg_name (RSAPSS h) = ''PS'' @ sha_bits h"
| "alg_name NoneMethod = ''none''"

text \<open>The registry behind \<open>jwt.GetSigningMethod\<close>.\<close>

definition registered_methods :: "signing_method list" where
  "registered_methods =
     concat (map (\<lambda>h. [HMAC h, RSA h, ECDSA h, RSAPSS h]) [SHA256, SHA384, SHA512])
     @ [NoneMethod]"

definition get_signing_method :: "string \<Rightarrow> signing_method option" where
  "get_signing_method a = find (\<lambda>m. alg_name m = a) registered_methods"

text \<open>
  \<open>SigningMethod.Sign\<close> and \<open>Verify\<close> with a \<open>[]byte\<close> key: only HMAC accepts
  it; RSA, ECDSA and RSA-PSS need key objects, and \<open>none\<close> needs the library's
  special marker key, so they fail.
\<close>

fun method_sign :: "mac_fn \<Rightarrow> signing_method \<Rightarrow> string \<Rightarrow> string \<Rightarrow> string option" where
  "method_sign f (HMAC h) key s = Some (escape (f h key s))"
| "method_sign f _ key s = None"

fun method_verify :: "mac_fn \<Rightarrow> signing_method \<Rightarrow> string \<Rightarrow> string \<Rightarrow> string \<Rightarrow> bool" where
  "method_verify f (HMAC h) key s sig = (unescape sig = Some (f h key s))"
| "method_verify f _ key s sig = False"

text \<open>\<open>jwt.New(method)\<close> sets this header; the claims start empty.\<close>

definition jwt_header :: "signing_method \<Rightarrow> claims" where
  "jwt_header m = [(''typ'', CStr ''JWT''), (''alg'', CStr (alg_name m))]"

definition signing_string :: "signing_method \<Rightarrow> claims \<Rightarrow> string" where
  "signing_string m c = encode_obj (jwt_header m) @ CHR ''.'' # encode_obj c"

text \<open>\<open>Token.SignedString(key)\<close>: \<open>None\<close> is the returned error.\<close>

definition signed_string :: "mac_fn \<Rightarrow> signing_method \<Rightarrow> string \<Rightarrow> claims \<Rightarrow> string option" where
  "signed_string f m key c =
     map_option (\<lambda>sig. signing_string m c @ CHR ''.'' # sig)
       (method_sign f m key (signing_string m c))"

definition claim_num :: "claims \<Rightarrow> string \<Rightarrow> int option" where
  "claim_num c k = (case map_of c k of Some (CNum n) \<Rightarrow> Some n | _ \<Rightarrow> None)"

text \<open>The \<open>exp\<close> and \<open>nbf\<close> checks of \<open>Parse\<close>; a missing claim is not checked.\<close>

definition time_errors :: "int \<Rightarrow> claims \<Rightarrow> verr list" where
  "time_errors t c =
     (case claim_num c ''exp'' of Some e \<Rightarrow> if t > e then [Expired] else [] | None \<Rightarrow> [])
     @ (case claim_num c ''nbf'' of Some n \<Rightarrow> if t < n then [NotValidYet] else [] | None \<Rightarrow> [])"

text \<open>
  \<open>jwt.Parse(token, keyFunc)\<close>. The argument \<open>key\<close> is what the key function does
  when it is called (after the header and claims have been decoded and the method
  found): \<open>Inr k\<close> returns the key \<open>k\<close>, \<open>Inl x\<close> aborts, as a panic inside the
  key function does. The result \<open>Inr (Inr c)\<close> is a valid token with claims \<open>c\<close>.
\<close>

definition jwt_parse :: "jwt_env \<Rightarrow> 'x + string \<Rightarrow> string \<Rightarrow> 'x + (jwt_error + claims)" where
  "jwt_parse env key tok =
     (case split_dot tok of
       [h, p, sig] \<Rightarrow>
         (case decode_obj h of
           None \<Rightarrow> Inr (Inl Malformed)
         | Some hdr \<Rightarrow>
             (case decode_obj p of
               None \<Rightarrow> Inr (Inl Malformed)
             | Some c \<Rightarrow>
                 (case map_of hdr ''alg'' of
                   Some (CStr a) \<Rightarrow>
                     (case get_signing_method a of
                       None \<Rightarrow> Inr (Inl Unverifiable)
                     | Some m \<Rightarrow>
                         (case key of
                           Inl x \<Rightarrow> Inl x
                         | Inr k \<Rightarrow>
                             (let errs = time_errors (now env) c
                                @ (if method_verify (mac env) m k (h @ CHR ''.'' # p) sig
                                   then [] else [SignatureInvalid])
                              in if errs = [] then Inr (Inr c) else Inr (Inl (Invalid errs)))))
                 | _ \<Rightarrow> Inr (Inl Unverifiable))))
     | _ \<Rightarrow> Inr (Inl Malformed))"

text \<open>The inverse of \<open>strings.Split(s, ".")\<close>.\<close>

fun join_dot :: "string list \<Rightarrow> string" where
  "join_dot [] = []"
| "join_dot [w] = w"
| "join_dot (w # ws) = w @ CHR ''.'' # join_dot ws"

subsection \<open>Signing\<close>

lemma get_signing_method_alg_name [simp]: "get_signing_method (alg_name m) = Some m"
  by (cases m; cases "case m of HMAC h \<Rightarrow> h | RSA h \<Rightarrow> h | ECDSA h \<Rightarrow> h | RSAPSS h \<Rightarrow> h | _ \<Rightarrow> SHA256")
     (simp_all add: get_signing_method_def registered_methods_def)

declare alg_name.simps [simp del]

lemma jwt_header_wf [simp]: "go_map_wf (jwt_header m)"
  by (simp add: jwt_header_def go_map_wf_def)

lemma jwt_header_alg [simp]: "map_of (jwt_header m) ''alg'' = Some (CStr (alg_name m))"
  by (simp add: jwt_header_def)

lemma signed_string_HMAC:
  "signed_string f (HMAC h) k c
     = Some (signing_string (HMAC h) c @ CHR ''.'' # escape (f h k (signing_string (HMAC h) c)))"
  by (simp add: signed_string_def)

lemma signed_string_Some:
  "signed_string f m k c = Some t \<longleftrightarrow>
     (\<exists>h. m = HMAC h \<and> t = signing_string m c @ CHR ''.'' # escape (f h k (signing_string m c)))"
  by (cases m) (auto simp: signed_string_def)

lemma split_dot_signed:
  "split_dot (signing_string m c @ CHR ''.'' # escape s)
     = [encode_obj (jwt_header m), encode_obj c, escape s]"
  by (simp add: signing_string_def)

lemma join_dot_split_dot: "join_dot (split_dot s) = s"
proof (induction s)
  case Nil
  then show ?case by simp
next
  case (Cons c s)
  then show ?case
    by (cases "split_dot s" rule: join_dot.cases) (auto split: list.splits)
qed

subsection \<open>Verification\<close>

text \<open>What a valid result of \<open>Parse\<close> consists of, step by step.\<close>

lemma jwt_parse_valid:
  "jwt_parse env key tok = Inr (Inr c) \<longleftrightarrow>
     (\<exists>h p sig hdr a m k. split_dot tok = [h, p, sig] \<and> decode_obj h = Some hdr
        \<and> decode_obj p = Some c \<and> map_of hdr ''alg'' = Some (CStr a)
        \<and> get_signing_method a = Some m \<and> key = Inr k \<and> time_errors (now env) c = []
        \<and> method_verify (mac env) m k (h @ CHR ''.'' # p) sig)"
  unfolding jwt_parse_def Let_def
  by (auto split: list.splits option.splits claim_val.splits sum.splits if_splits)

lemma jwt_parse_wf: "jwt_parse env key tok = Inr (Inr c) \<Longrightarrow> go_map_wf c"
  unfolding jwt_parse_valid by (auto intro: decode_obj_wf)

text \<open>\<open>Parse\<close> on a token produced by \<open>SignedString\<close>, one step: what remains is the key function, the clock checks and the signature check.\<close>

lemma jwt_parse_signed:
  assumes "go_map_wf c"
  shows "jwt_parse env key (signing_string m c @ CHR ''.'' # escape s) =
    (case key of
      Inl x \<Rightarrow> Inl x
    | Inr k \<Rightarrow>
        (let errs = time_errors (now env) c
           @ (if method_verify (mac env) m k (signing_string m c) (escape s) then [] else [SignatureInvalid])
         in if errs = [] then Inr (Inr c) else Inr (Inl (Invalid errs))))"
  using assms by (simp add: jwt_parse_def split_dot_signed signing_string_def split: sum.splits)

lemma method_verify_escape [simp]:
  "method_verify f (HMAC h) k s (escape x) \<longleftrightarrow> x = f h k s"
  by auto

subsection \<open>Properties of the codec\<close>

text \<open>
  Round trip: a token signed with a key decodes, with the same key and at a time its
  \<open>exp\<close>/\<open>nbf\<close> claims allow, to exactly the claims signed.
\<close>

lemma jwt_roundtrip:
  assumes "go_map_wf c" and "time_errors (now env) c = []"
    and "signed_string (mac env) m k c = Some t"
  shows "jwt_parse env (Inr k) t = Inr (Inr c)"
proof -
  from assms(3) obtain h where m: "m = HMAC h"
    and t: "t = signing_string m c @ CHR ''.'' # escape (mac env h k (signing_string m c))"
    by (auto simp: signed_string_Some)
  show ?thesis
    using assms(1,2) by (simp add: t m jwt_parse_signed)
qed

text \<open>
  Wrong key: a token signed with key \<open>k\<close> is rejected under a key \<open>k'\<close> whose MAC
  of the same signing input differs, whatever the clock says.
\<close>

lemma jwt_wrong_key:
  assumes "go_map_wf c"
    and "mac env h k' (signing_string (HMAC h) c) \<noteq> mac env h k (signing_string (HMAC h) c)"
    and "signed_string (mac env) (HMAC h) k c = Some t"
  shows "\<exists>e. jwt_parse env (Inr k') t = Inr (Inl e)"
proof -
  from assms(3) have t: "t = signing_string (HMAC h) c @ CHR ''.''
      # escape (mac env h k (signing_string (HMAC h) c))"
    by (simp add: signed_string_HMAC)
  show ?thesis
    using assms(1,2) by (simp add: t jwt_parse_signed Let_def)
qed

end
