(* ===== verification/Http.thy ===== *)
theory Http
  imports Prelude
begin

text \<open>
  The parts of Go's \<open>net/http\<close> and \<open>net/textproto\<close> that the middleware reads
  and writes: the request (its URL path and string, its header map, the cookies of
  its \<open>Cookie\<close> header in order, its parsed form), the response a handler produces,
  \<open>textproto.CanonicalMIMEHeaderKey\<close>, \<open>Header.Set\<close>, \<open>Request.Cookie\<close> and
  \<open>Values.Get\<close>. The library is not part of the repository; these definitions follow
  its documented behaviour. A downstream handler is a function from the request it is
  given to its outcome; a panic anywhere is \<open>Inl\<close>.
\<close>

type_synonym header = "(string, string list) go_map"

type_synonym form_values = "(string, string list) go_map"

record request =
  url_path :: string
  url_string :: string
  header :: header
  cookies :: "(string \<times> string) list"
  form :: form_values

record http_cookie =
  c_name :: string
  c_value :: string
  c_max_age :: int
  c_http_only :: bool
  c_path :: string

datatype response =
    Served request
  | HttpError nat string
  | Redirect "http_cookie list" string nat
  | Body string
  | NotFound

type_synonym handler = "request \<Rightarrow> response outcome"

definition status_text :: "nat \<Rightarrow> string" where
  "status_text code =
     (if code = 403 then ''Forbidden''
      else if code = 404 then ''Not Found''
      else if code = 500 then ''Internal Server Error''
      else if code = 302 then ''Found''
      else [])"

subsection \<open>Header names\<close>

definition ascii_lower :: "char \<Rightarrow> bool" where
  "ascii_lower c \<longleftrightarrow> 97 \<le> (of_char c :: nat) \<and> (of_char c :: nat) \<le> 122"

definition ascii_upper :: "char \<Rightarrow> bool" where
  "ascii_upper c \<longleftrightarrow> 65 \<le> (of_char c :: nat) \<and> (of_char c :: nat) \<le> 90"

definition ascii_digit :: "char \<Rightarrow> bool" where
  "ascii_digit c \<longleftrightarrow> 48 \<le> (of_char c :: nat) \<and> (of_char c :: nat) \<le> 57"

definition upper_char :: "char \<Rightarrow> char" where
  "upper_char c = char_of (of_char c - (32::nat))"

definition lower_char :: "char \<Rightarrow> char" where
  "lower_char c = char_of (of_char c + (32::nat))"

text \<open>\<open>validHeaderFieldByte\<close>: the token characters of RFC 7230.\<close>

definition valid_header_byte :: "char \<Rightarrow> bool" where
  "valid_header_byte c \<longleftrightarrow> ascii_lower c \<or> ascii_upper c \<or> ascii_digit c \<or> c \<in> set ''!#$%&'*+-.^_`|~''"

text \<open>
  The loop of \<open>canonicalMIMEHeaderKey\<close>: upper-case the first letter and every
  letter after a hyphen, lower-case the rest.
\<close>

fun canon_chars :: "bool \<Rightarrow> string \<Rightarrow> string" where
  "canon_chars up [] = []"
| "canon_chars up (c # cs) =
     (let c' = (if up \<and> ascii_lower c then upper_char c
                else if \<not> up \<and> ascii_upper c then lower_char c else c)
      in c' # canon_chars (c' = CHR ''-'') cs)"

text \<open>A key with a byte that is not a token character is returned unchanged.\<close>

definition canonical_header_key :: "string \<Rightarrow> string" where
  "canonical_header_key s = (if list_all valid_header_byte s then canon_chars True s else s)"

text \<open>\<open>Header.Set(key, value)\<close>: replaces all values of the canonical key.\<close>

definition header_set :: "header \<Rightarrow> string \<Rightarrow> string \<Rightarrow> header" where
  "header_set h k v = AList.update (canonical_header_key k) [v] h"

text \<open>\<open>Request.Cookie(name)\<close>: the first cookie of that name, or \<open>ErrNoCookie\<close>.\<close>

definition request_cookie :: "request \<Rightarrow> string \<Rightarrow> string option" where
  "request_cookie r name = map_of (cookies r) name"

text \<open>\<open>Values.Get(key)\<close>: the first value, or the empty string.\<close>

definition form_get :: "form_values \<Rightarrow> string \<Rightarrow> string" where
  "form_get v k = (case map_of v k of Some (x # _) \<Rightarrow> x | _ \<Rightarrow> [])"

subsection \<open>Header-name lemmas\<close>

lemma upper_char_props:
  assumes "ascii_lower c"
  shows "\<not> ascii_lower (upper_char c) \<and> ascii_upper (upper_char c)"
proof -
  have b: "97 \<le> (of_char c :: nat)" "(of_char c :: nat) \<le> 122"
    using assms by (simp_all add: ascii_lower_def)
  then have "(of_char c - 32 :: nat) mod 256 = of_char c - 32" by simp
  with b show ?thesis by (simp add: ascii_lower_def ascii_upper_def upper_char_def) arith
qed

lemma lower_char_props:
  assumes "ascii_upper c"
  shows "\<not> ascii_upper (lower_char c) \<and> ascii_lower (lower_char c)"
proof -
  have b: "65 \<le> (of_char c :: nat)" "(of_char c :: nat) \<le> 90"
    using assms by (simp_all add: ascii_upper_def)
  then have "(of_char c + 32 :: nat) mod 256 = of_char c + 32" by simp
  with b show ?thesis by (simp add: ascii_lower_def ascii_upper_def lower_char_def)
qed

lemma lower_not_upper: "ascii_lower c \<Longrightarrow> \<not> ascii_upper c"
  by (simp add: ascii_lower_def ascii_upper_def)

lemma canon_chars_idem: "canon_chars b (canon_chars b s) = canon_chars b s"
proof (induction s arbitrary: b)
  case Nil
  then show ?case by simp
next
  case (Cons c s)
  then show ?case
    using upper_char_props [of c] lower_char_props [of c] by (auto simp: Let_def)
qed

lemma canon_chars_valid: "list_all valid_header_byte s \<Longrightarrow> list_all valid_header_byte (canon_chars b s)"
  by (induction s arbitrary: b)
     (auto simp: Let_def valid_header_byte_def dest: upper_char_props lower_char_props)

lemma canonical_header_key_saml:
  "canonical_header_key (''X-Saml-'' @ n)
     = ''X-Saml-'' @ (if list_all valid_header_byte n then canon_chars True n else n)"
  by (simp add: canonical_header_key_def valid_header_byte_def ascii_lower_def ascii_upper_def
      ascii_digit_def Let_def)

lemma header_set_wf [simp]: "go_map_wf h \<Longrightarrow> go_map_wf (header_set h k v)"
  by (simp add: header_set_def)

lemma map_of_header_set:
  "map_of (header_set h k v) k' = (if k' = canonical_header_key k then Some [v] else map_of h k')"
  by (simp add: header_set_def)

lemma canonical_header_key_idem [simp]:
  "canonical_header_key (canonical_header_key s) = canonical_header_key s"
  by (simp add: canonical_header_key_def canon_chars_idem canon_chars_valid)

end

