(* ===== verification/Middleware.thy ===== *)
theory Middleware
  imports Jwt Http
begin

text \<open>
  The SAML service-provider middleware of \<open>src/middleware.go\<close>, one definition per
  function and helper block, in the order of the file. The service provider's
  protocol engine (\<open>ParseResponse\<close>, \<open>MakeRedirectAuthenticationRequest\<close>,
  \<open>Metadata\<close>) is out of scope (spec section 1) and enters as fields of the
  \<open>service_provider\<close> record, so every theorem holds for every engine. The
  caller-supplied \<open>IsAuthorizedFunc\<close> and \<open>AuthorizeFunc\<close> are optional function
  fields of the \<open>middleware\<close> record; \<open>nil\<close> selects the default. The PEM block
  \<open>pem.Decode([]byte(Key))\<close> is \<open>None\<close> when the key holds no block, and reading
  \<open>secretBlock.Bytes\<close> then panics.
\<close>

record assertion_attribute =
  friendly_name :: string
  attr_name :: string
  attr_value :: string

type_synonym assertion_attributes = "assertion_attribute list"

datatype parse_response_error =
    InvalidResponseError string int string
  | OtherResponseError string

record service_provider =
  sp_key :: "string option"
  metadata_path :: string
  acs_path :: string
  metadata_xml :: string
  parse_response :: "request \<Rightarrow> string \<Rightarrow> parse_response_error + assertion_attributes"
  make_redirect_authentication_request :: "string \<Rightarrow> string + string"

record middleware =
  service_provider :: service_provider
  is_authorized_func :: "(request \<Rightarrow> (bool \<times> request) outcome) option"
  authorize_func :: "(request \<Rightarrow> assertion_attributes \<Rightarrow> response outcome) option"

definition cookie_max_age :: int where
  "cookie_max_age = 3600"

definition cookie_name :: string where
  "cookie_name = ''token''"

text \<open>\<open>secretBlock.Bytes\<close>: a nil block is dereferenced.\<close>

definition secret_bytes :: "service_provider \<Rightarrow> string outcome" where
  "secret_bytes sp =
     (case sp_key sp of
       None \<Rightarrow> Inl (Panic ''runtime error: invalid memory address or nil pointer dereference'')
     | Some b \<Rightarrow> Inr b)"

text \<open>
  \<open>jwt.New(jwt.GetSigningMethod("HS256"))\<close>, the claims, then
  \<open>SignedString(secretBlock.Bytes)\<close> with \<open>if err != nil { panic(err) }\<close>.
\<close>

definition sign_hs256 :: "jwt_env \<Rightarrow> service_provider \<Rightarrow> claims \<Rightarrow> string outcome" where
  "sign_hs256 env sp c =
     (case secret_bytes sp of
       Inl p \<Rightarrow> Inl p
     | Inr k \<Rightarrow>
         (case signed_string (mac env) (HMAC SHA256) k c of
           None \<Rightarrow> Inl (Panic ''key is invalid'')
         | Some t \<Rightarrow> Inr t))"

subsection \<open>DefaultIsAuthorized, lines 173--201\<close>

text \<open>The loop of lines 189--193 over the inbound header names.\<close>

definition has_saml_header :: "header \<Rightarrow> bool" where
  "has_saml_header h \<longleftrightarrow> list_ex (\<lambda>(k, _). has_prefix k ''X-Saml'') h"

text \<open>
  The loop of lines 195--199: for each claim whose value is a string,
  \<open>r.Header.Set(fmt.Sprintf("X-Saml-%s", claimName), c)\<close>. The list order is the
  order in which \<open>range\<close> visits the claim map.
\<close>

fun set_saml_headers :: "claims \<Rightarrow> header \<Rightarrow> header" where
  "set_saml_headers [] h = h"
| "set_saml_headers ((n, v) # cs) h =
     set_saml_headers cs
       (case v of CStr c \<Rightarrow> header_set h (''X-Saml-'' @ n) c | _ \<Rightarrow> h)"

definition default_is_authorized :: "jwt_env \<Rightarrow> middleware \<Rightarrow> request \<Rightarrow> (bool \<times> request) outcome" where
  "default_is_authorized env m r =
     (case request_cookie r cookie_name of
       None \<Rightarrow> Inr (False, r)
     | Some v \<Rightarrow>
         (case jwt_parse env (secret_bytes (service_provider m)) v of
           Inl p \<Rightarrow> Inl p
         | Inr (Inl _) \<Rightarrow> Inr (False, r)
         | Inr (Inr c) \<Rightarrow>
             if has_saml_header (header r)
             then Inl (Panic ''X-Saml-* headers should not exist when this function is called'')
             else Inr (True, r\<lparr>header := set_saml_headers c (header r)\<rparr>)))"

subsection \<open>RequireAccountMiddleware, lines 81--119\<close>

definition is_authorized :: "jwt_env \<Rightarrow> middleware \<Rightarrow> request \<Rightarrow> (bool \<times> request) outcome" where
  "is_authorized env m r =
     (case is_authorized_func m of
       None \<Rightarrow> default_is_authorized env m r
     | Some f \<Rightarrow> f r)"

text \<open>\<open>relayState.Claims["uri"] = r.URL.String()\<close>.\<close>

definition relay_state_claims :: "request \<Rightarrow> claims" where
  "relay_state_claims r = [(''uri'', CStr (url_string r))]"

definition require_account_middleware :: "jwt_env \<Rightarrow> middleware \<Rightarrow> handler \<Rightarrow> handler" where
  "require_account_middleware env m h r =
     (case is_authorized env m r of
       Inl p \<Rightarrow> Inl p
     | Inr (True, r') \<Rightarrow> h r'
     | Inr (False, r') \<Rightarrow>
         (case sign_hs256 env (service_provider m) (relay_state_claims r') of
           Inl p \<Rightarrow> Inl p
         | Inr rs \<Rightarrow>
             (case make_redirect_authentication_request (service_provider m) rs of
               Inl err \<Rightarrow> Inr (HttpError 500 err)
             | Inr url \<Rightarrow>
                 if url_path r' = acs_path (service_provider m)
                 then Inl (Panic ''don't wrap ServiceProviderMiddleware with RequireAccountMiddleware'')
                 else Inr (Redirect [] url 302))))"

subsection \<open>DefaultAuthorizeFunc, lines 125--159\<close>

text \<open>
  Lines 128--138: the redirect target. \<open>Inr (Inl resp)\<close> is the early 403 return,
  \<open>Inr (Inr uri)\<close> the target; the type assertion \<open>.(string)\<close> on a missing or
  non-string \<open>uri\<close> claim panics.
\<close>

definition relay_state_uri :: "jwt_env \<Rightarrow> service_provider \<Rightarrow> request \<Rightarrow> (response + string) outcome" where
  "relay_state_uri env sp r =
     (let rs = form_get (form r) ''RelayState'' in
      if rs = [] then Inr (Inr ''/'')
      else
        (case jwt_parse env (secret_bytes sp) rs of
          Inl p \<Rightarrow> Inl p
        | Inr (Inl _) \<Rightarrow> Inr (Inl (HttpError 403 (status_text 403)))
        | Inr (Inr c) \<Rightarrow>
            (case map_of c ''uri'' of
              Some (CStr u) \<Rightarrow> Inr (Inr u)
            | _ \<Rightarrow> Inl (Panic ''interface conversion: interface {} is not string''))))"

text \<open>Lines 140--144: one claim per attribute, then \<open>exp\<close>.\<close>

definition session_claims :: "jwt_env \<Rightarrow> assertion_attributes \<Rightarrow> claims" where
  "session_claims env attrs =
     AList.update ''exp'' (CNum (now env + cookie_max_age))
       (assign_all [] (map (\<lambda>a. (friendly_name a, CStr (attr_value a))) attrs))"

definition session_cookie :: "string \<Rightarrow> http_cookie" where
  "session_cookie tok =
     \<lparr>c_name = cookie_name, c_value = tok, c_max_age = cookie_max_age,
      c_http_only = False, c_path = ''/''\<rparr>"

definition default_authorize_func ::
  "jwt_env \<Rightarrow> middleware \<Rightarrow> request \<Rightarrow> assertion_attributes \<Rightarrow> response outcome" where
  "default_authorize_func env m r attrs =
     (case relay_state_uri env (service_provider m) r of
       Inl p \<Rightarrow> Inl p
     | Inr (Inl resp) \<Rightarrow> Inr resp
     | Inr (Inr uri) \<Rightarrow>
         (case sign_hs256 env (service_provider m) (session_claims env attrs) of
           Inl p \<Rightarrow> Inl p
         | Inr tok \<Rightarrow> Inr (Redirect [session_cookie tok] uri 302)))"

subsection \<open>ServeHTTP, lines 42--75\<close>

text \<open>
  \<open>ServeHTTP\<close> dispatches on the path: metadata, then the assertion consumer
  service (ACS), else 404. A response the verifier rejects gets a bare 403; the
  \<open>InvalidResponseError\<close> details go to the operator log only (\<open>serve_http_log\<close> below).
  The request ID passed to \<open>ParseResponse\<close> is the empty string of line 55.
\<close>

definition serve_http :: "jwt_env \<Rightarrow> middleware \<Rightarrow> handler" where
  "serve_http env m r =
     (let sp = service_provider m in
      if url_path r = metadata_path sp then Inr (Body (metadata_xml sp))
      else if url_path r = acs_path sp then
        (case parse_response sp r [] of
          Inl err \<Rightarrow> Inr (HttpError 403 (status_text 403))
        | Inr attrs \<Rightarrow>
            (case authorize_func m of
              None \<Rightarrow> default_authorize_func env m r attrs
            | Some f \<Rightarrow> f r attrs))
      else Inr NotFound)"

text \<open>
  The operator log of \<open>ServeHTTP\<close> (lines 57--60): the lines one request
  writes with \<open>log.Printf\<close>. A log entry keeps the three fields the format
  string prints (\<open>Response\<close>, \<open>Now\<close>, \<open>PrivateErr\<close>); the rendering of
  \<open>time.Time\<close> by \<open>%s\<close> is left to the library. The type assertion of line 58
  keeps only \<open>InvalidResponseError\<close>; other verifier errors write nothing.
\<close>

datatype log_entry = InvalidResponseLog string int string

definition serve_http_log :: "middleware \<Rightarrow> request \<Rightarrow> log_entry list" where
  "serve_http_log m r =
     (let sp = service_provider m in
      if url_path r = metadata_path sp then []
      else if url_path r = acs_path sp then
        (case parse_response sp r [] of
          Inl (InvalidResponseError resp at priv) \<Rightarrow> [InvalidResponseLog resp at priv]
        | _ \<Rightarrow> [])
      else [])"

subsection \<open>RequireAttribute, lines 213--228\<close>

definition require_attribute :: "string \<Rightarrow> string \<Rightarrow> handler \<Rightarrow> handler" where
  "require_attribute name value h r =
     (case map_of (header r) (canonical_header_key (''X-Saml-'' @ name)) of
       Some vs \<Rightarrow> if list_ex (\<lambda>v. v = value) vs then h r else Inr (HttpError 403 (status_text 403))
     | None \<Rightarrow> Inr (HttpError 403 (status_text 403)))"

subsection \<open>Helper lemmas\<close>

lemma secret_bytes_Some [simp]: "sp_key sp = Some k \<Longrightarrow> secret_bytes sp = Inr k"
  by (simp add: secret_bytes_def)

lemma secret_bytes_None [simp]: "sp_key sp = None \<Longrightarrow> \<exists>msg. secret_bytes sp = Inl (Panic msg)"
  by (simp add: secret_bytes_def)

lemma sign_hs256_Some:
  "sp_key sp = Some k \<Longrightarrow> sign_hs256 env sp c
     = Inr (signing_string (HMAC SHA256) c @ CHR ''.''
            # escape (mac env SHA256 k (signing_string (HMAC SHA256) c)))"
  by (simp add: sign_hs256_def signed_string_HMAC)

lemma sign_hs256_None:
  "sp_key sp = None \<Longrightarrow> \<exists>msg. sign_hs256 env sp c = Inl (Panic msg)"
  by (simp add: sign_hs256_def secret_bytes_def)

lemma relay_state_claims_wf [simp]: "go_map_wf (relay_state_claims r)"
  by (simp add: relay_state_claims_def go_map_wf_def)

lemma session_claims_wf [simp]: "go_map_wf (session_claims env attrs)"
  by (simp add: session_claims_def)

lemma time_errors_relay_state [simp]: "time_errors t (relay_state_claims r) = []"
  by (simp add: time_errors_def claim_num_def relay_state_claims_def)

text \<open>The bridge's header name for a claim name.\<close>

lemma set_saml_headers_other:
  "\<forall>n s. (n, CStr s) \<in> set c \<longrightarrow> canonical_header_key (''X-Saml-'' @ n) \<noteq> k
   \<Longrightarrow> map_of (set_saml_headers c h) k = map_of h k"
proof (induction c arbitrary: h)
  case Nil
  then show ?case by simp
next
  case (Cons nv c)
  obtain n v where nv: "nv = (n, v)" by fastforce
  let ?h = "case v of CStr s \<Rightarrow> header_set h (''X-Saml-'' @ n) s | _ \<Rightarrow> h"
  from Cons.prems have "\<forall>n s. (n, CStr s) \<in> set c \<longrightarrow> canonical_header_key (''X-Saml-'' @ n) \<noteq> k"
    by simp
  then have "map_of (set_saml_headers c ?h) k = map_of ?h k"
    by (rule Cons.IH)
  moreover have "map_of ?h k = map_of h k"
    using Cons.prems nv by (auto simp: map_of_header_set split: claim_val.splits)
  ultimately show ?case
    by (simp add: nv)
qed

lemma set_saml_headers_lookup:
  assumes "distinct (map fst c)"
    and "inj_on (\<lambda>n. canonical_header_key (''X-Saml-'' @ n)) (fst ` set c)"
    and "(n, CStr s) \<in> set c"
  shows "map_of (set_saml_headers c h) (canonical_header_key (''X-Saml-'' @ n)) = Some [s]"
  using assms
proof (induction c arbitrary: h)
  case Nil
  then show ?case by simp
next
  case (Cons nv c)
  obtain n' v where nv: "nv = (n', v)" by fastforce
  show ?case
  proof (cases "n' = n")
    case True
    with Cons.prems nv have v: "v = CStr s" and fresh: "n \<notin> fst ` set c"
      by (auto simp: image_iff)
    have "\<forall>m t. (m, CStr t) \<in> set c \<longrightarrow> canonical_header_key (''X-Saml-'' @ m) \<noteq> canonical_header_key (''X-Saml-'' @ n)"
      using Cons.prems(2) fresh nv True by (fastforce simp: inj_on_def)
    then show ?thesis
      using nv True v by (simp add: set_saml_headers_other map_of_header_set)
  next
    case False
    with Cons.prems nv have "(n, CStr s) \<in> set c" by auto
    moreover have "inj_on (\<lambda>n. canonical_header_key (''X-Saml-'' @ n)) (fst ` set c)"
      using Cons.prems(2) by (auto intro: inj_on_subset)
    ultimately show ?thesis
      using Cons nv by simp
  qed
qed

lemma set_saml_headers_origin:
  "map_of (set_saml_headers c h) k = Some vs \<Longrightarrow>
     map_of h k = Some vs \<or> (\<exists>n s. (n, CStr s) \<in> set c \<and> k = canonical_header_key (''X-Saml-'' @ n) \<and> vs = [s])"
proof (induction c arbitrary: h)
  case Nil
  then show ?case by simp
next
  case (Cons nv c)
  obtain n v where nv: "nv = (n, v)" by fastforce
  with Cons show ?case
    by (fastforce simp: map_of_header_set split: claim_val.splits if_splits)
qed

lemma set_saml_headers_wf [simp]: "go_map_wf h \<Longrightarrow> go_map_wf (set_saml_headers c h)"
  by (induction c arbitrary: h) (auto split: claim_val.splits)

lemma no_saml_header_lookup:
  "\<not> has_saml_header h \<Longrightarrow> map_of h k = Some vs \<Longrightarrow> \<not> has_prefix k ''X-Saml''"
  by (auto simp: has_saml_header_def list_ex_iff dest: map_of_SomeD)

lemma canonical_saml_prefix: "has_prefix (canonical_header_key (''X-Saml-'' @ n)) ''X-Saml''"
  unfolding canonical_header_key_saml by (simp add: has_prefix_def)

lemma saml_header_value_origin:
  assumes "\<not> has_saml_header h"
    and "map_of (set_saml_headers c h) (canonical_header_key (''X-Saml-'' @ n)) = Some vs"
  shows "\<exists>n' s. (n', CStr s) \<in> set c
    \<and> canonical_header_key (''X-Saml-'' @ n') = canonical_header_key (''X-Saml-'' @ n) \<and> vs = [s]"
  using set_saml_headers_origin [OF assms(2)] no_saml_header_lookup [OF assms(1)] canonical_saml_prefix
  by metis

lemma sign_hs256_Inr:
  "sign_hs256 env sp c = Inr tok \<longleftrightarrow>
     (\<exists>k. sp_key sp = Some k \<and> tok = signing_string (HMAC SHA256) c @ CHR ''.''
            # escape (mac env SHA256 k (signing_string (HMAC SHA256) c)))"
  by (cases "sp_key sp") (auto simp: sign_hs256_def secret_bytes_def signed_string_HMAC)

text \<open>Verifying, at any time, a token that \<open>sign_hs256\<close> produced with the same keyed hash.\<close>

lemma jwt_parse_hs256:
  assumes "sign_hs256 env0 sp c = Inr tok" and "go_map_wf c" and "mac env = mac env0"
  shows "jwt_parse env (secret_bytes sp) tok
    = (if time_errors (now env) c = [] then Inr (Inr c) else Inr (Inl (Invalid (time_errors (now env) c))))"
  using assms by (auto simp: sign_hs256_Inr jwt_parse_signed Let_def)

lemma default_is_authorized_token:
  assumes "request_cookie r cookie_name = Some tok"
    and "sign_hs256 env0 (service_provider m) c = Inr tok" and "go_map_wf c" and "mac env = mac env0"
    and "time_errors (now env) c = []" and "\<not> has_saml_header (header r)"
  shows "default_is_authorized env m r = Inr (True, r\<lparr>header := set_saml_headers c (header r)\<rparr>)"
  using assms jwt_parse_hs256 [OF assms(2,3,4)] by (simp add: default_is_authorized_def)

lemma session_attr_claims_str:
  "map_of (assign_all [] (map (\<lambda>a. (friendly_name a, CStr (attr_value a))) attrs)) n = Some v
   \<Longrightarrow> \<exists>s. v = CStr s"
  by (auto simp: map_of_assign_all dest!: map_of_SomeD)

lemma time_errors_session:
  "time_errors t (session_claims env attrs) = (if now env + cookie_max_age < t then [Expired] else [])"
proof -
  have "claim_num (session_claims env attrs) ''nbf'' = None"
    using session_attr_claims_str [of attrs "''nbf''"]
    by (cases "map_of (assign_all [] (map (\<lambda>a. (friendly_name a, CStr (attr_value a))) attrs)) ''nbf''")
       (auto simp: claim_num_def session_claims_def)
  moreover have "claim_num (session_claims env attrs) ''exp'' = Some (now env + cookie_max_age)"
    by (simp add: claim_num_def session_claims_def)
  ultimately show ?thesis
    by (simp add: time_errors_def)
qed

lemma token_nonempty: "sign_hs256 env sp c = Inr tok \<Longrightarrow> tok \<noteq> []"
  by (auto simp: sign_hs256_Inr signing_string_def)

lemma default_is_authorized_True:
  assumes "default_is_authorized env m r = Inr (True, r')"
  obtains v c where "request_cookie r cookie_name = Some v"
    and "jwt_parse env (secret_bytes (service_provider m)) v = Inr (Inr c)"
    and "\<not> has_saml_header (header r)" and "r' = r\<lparr>header := set_saml_headers c (header r)\<rparr>"
  using assms by (auto simp: default_is_authorized_def split: option.splits sum.splits if_splits)

lemma relay_state_uri_early: "relay_state_uri env sp r = Inr (Inl resp) \<Longrightarrow> resp = HttpError 403 (status_text 403)"
  by (auto simp: relay_state_uri_def Let_def split: if_splits sum.splits option.splits claim_val.splits)

lemma default_authorize_func_Redirect:
  assumes "default_authorize_func env m r attrs = Inr (Redirect cks u code)"
  obtains tok where "sign_hs256 env (service_provider m) (session_claims env attrs) = Inr tok"
    and "cks = [session_cookie tok]" and "relay_state_uri env (service_provider m) r = Inr (Inr u)"
  using assms relay_state_uri_early
  by (auto simp: default_authorize_func_def split: sum.splits)

lemma map_of_attr_pairs:
  "map_of (map (\<lambda>a. (friendly_name a, CStr (attr_value a))) xs) n
     = map_option (\<lambda>a. CStr (attr_value a)) (find (\<lambda>a. friendly_name a = n) xs)"
  by (induction xs) auto

lemma map_of_session_claims_None:
  "n \<noteq> ''exp'' \<Longrightarrow> \<forall>a \<in> set attrs. friendly_name a \<noteq> n \<Longrightarrow> map_of (session_claims env attrs) n = None"
  by (simp add: session_claims_def map_of_assign_all map_of_attr_pairs find_None_iff rev_map)

subsection \<open>An example configuration for the witnesses\<close>

text \<open>
  A service provider with key \<open>key\<close>, the usual paths, a verifier that accepts every
  response with one \<open>uid\<close> attribute, and an identity provider that puts the relay
  state in its URL; the keyed hash of the witnesses prefixes the key.
\<close>

definition demo_sp :: service_provider where
  "demo_sp =
     \<lparr>sp_key = Some ''key'', metadata_path = ''/saml/metadata'', acs_path = ''/saml/acs'',
      metadata_xml = ''<EntityDescriptor/>'',
      parse_response = (\<lambda>r rid. Inr [\<lparr>friendly_name = ''uid'', attr_name = ''urn:oid:0.9.2342.19200300.100.1.1'',
                                     attr_value = ''alice@example.com''\<rparr>]),
      make_redirect_authentication_request = (\<lambda>rs. Inr (''https://idp.example.com/sso?RelayState='' @ rs))\<rparr>"

definition demo_mw :: middleware where
  "demo_mw = \<lparr>service_provider = demo_sp, is_authorized_func = None, authorize_func = None\<rparr>"

definition demo_env :: "int \<Rightarrow> jwt_env" where
  "demo_env t = \<lparr>now = t, mac = (\<lambda>h k s. k @ s)\<rparr>"

definition demo_request :: "string \<Rightarrow> header \<Rightarrow> (string \<times> string) list \<Rightarrow> form_values \<Rightarrow> request" where
  "demo_request path h cs f = \<lparr>url_path = path, url_string = path, header = h, cookies = cs, form = f\<rparr>"

definition demo_token :: "claims \<Rightarrow> string" where
  "demo_token c = signing_string (HMAC SHA256) c @ CHR ''.'' # escape (''key'' @ signing_string (HMAC SHA256) c)"

lemmas demo_defs = demo_sp_def demo_mw_def demo_env_def demo_request_def

lemma demo_sign [simp]: "sign_hs256 (demo_env t) (service_provider demo_mw) c = Inr (demo_token c)"
  by (simp add: sign_hs256_Inr demo_defs demo_token_def)

end
