(* ===== verification/Session_Token.thy ===== *)
theory Session_Token
  imports Middleware
begin

text \<open>
  The session token as the middleware issues and checks it: signing with
  \<open>sign_hs256\<close> (lines 93--98 and 140--148 of \<open>src/middleware.go\<close>) and verification
  by \<open>default_is_authorized\<close> (lines 174--184). The claims are the spec's testable
  properties of the signed token codec (section 8): the round trip, the wrong key, the
  expired token and tamper evidence, and the finding that the algorithm is not fixed.
\<close>

subsection \<open>Signing and verifying the middleware's tokens\<close>

text \<open>
  C2. Round trip (spec section 8): a claim map that the middleware signs
  (\<open>SignedString(secretBlock.Bytes)\<close> with HS256) verifies, through the same key
  function, at any time its \<open>exp\<close>/\<open>nbf\<close> claims allow, to exactly the claims
  signed.
\<close>

theorem sign_hs256_roundtrip:
  assumes "sign_hs256 env0 sp c = Inr tok" and "go_map_wf c"
    and "mac env = mac env0" and "time_errors (now env) c = []"
  shows "jwt_parse env (secret_bytes sp) tok = Inr (Inr c)"
proof -
  from assms(1) obtain k where k: "sp_key sp = Some k"
    and ss: "signed_string (mac env0) (HMAC SHA256) k c = Some tok"
    by (auto simp: sign_hs256_def secret_bytes_def split: option.splits)
  from jwt_roundtrip [OF assms(2,4)] ss k assms(3) show ?thesis
    by simp
qed

theorem sign_hs256_roundtrip_witness:
  "jwt_parse (demo_env 100) (secret_bytes (service_provider demo_mw)) (demo_token [(''uid'', CStr ''alice'')])
     = Inr (Inr [(''uid'', CStr ''alice'')])"
proof -
  have wf: "go_map_wf [(''uid'', CStr ''alice'')]" by (simp add: go_map_wf_def)
  have "mac (demo_env 100) = mac (demo_env 0)" by (simp add: demo_env_def)
  moreover have "time_errors (now (demo_env 100)) [(''uid'', CStr ''alice'')] = []"
    by (simp add: time_errors_def claim_num_def)
  ultimately show ?thesis
    by (rule sign_hs256_roundtrip [OF demo_sign wf])
qed

text \<open>
  C3. Wrong key (spec section 8): a session cookie signed by a service provider with
  another key is not authorized, when the two keys give different MACs of the
  token's signing input.
\<close>

theorem default_is_authorized_wrong_key:
  assumes "sign_hs256 env0 sp' c = Inr tok" and "sp_key sp' = Some k'"
    and "sp_key (service_provider m) = Some k" and "mac env = mac env0"
    and "mac env SHA256 k (signing_string (HMAC SHA256) c) \<noteq> mac env SHA256 k' (signing_string (HMAC SHA256) c)"
    and "go_map_wf c" and "request_cookie r cookie_name = Some tok"
  shows "default_is_authorized env m r = Inr (False, r)"
proof -
  from assms(1,2,4) have "signed_string (mac env) (HMAC SHA256) k' c = Some tok"
    by (auto simp: sign_hs256_Inr signed_string_HMAC)
  from jwt_wrong_key [OF assms(6,5) this] obtain e where
    "jwt_parse env (Inr k :: fatal + string) tok = Inr (Inl e)" by blast
  with assms(3,7) show ?thesis
    by (simp add: default_is_authorized_def)
qed

theorem default_is_authorized_wrong_key_witness:
  "default_is_authorized (demo_env 0) demo_mw
     (demo_request ''/'' [] [(''token'', signing_string (HMAC SHA256) [(''uid'', CStr ''alice'')] @ CHR ''.''
        # escape (''other'' @ signing_string (HMAC SHA256) [(''uid'', CStr ''alice'')]))] [])
   = Inr (False, demo_request ''/'' [] [(''token'', signing_string (HMAC SHA256) [(''uid'', CStr ''alice'')] @ CHR ''.''
        # escape (''other'' @ signing_string (HMAC SHA256) [(''uid'', CStr ''alice'')]))] [])"
proof -
  let ?c = "[(''uid'', CStr ''alice'')]"
  let ?sp = "demo_sp\<lparr>sp_key := Some ''other''\<rparr>"
  let ?tok = "signing_string (HMAC SHA256) ?c @ CHR ''.'' # escape (''other'' @ signing_string (HMAC SHA256) ?c)"
  have sg: "sign_hs256 (demo_env 0) ?sp ?c = Inr ?tok"
    by (simp add: sign_hs256_Inr demo_env_def)
  have k': "sp_key ?sp = Some ''other''" by simp
  have k: "sp_key (service_provider demo_mw) = Some ''key''" by (simp add: demo_defs)
  have ne: "mac (demo_env 0) SHA256 ''key'' (signing_string (HMAC SHA256) ?c)
      \<noteq> mac (demo_env 0) SHA256 ''other'' (signing_string (HMAC SHA256) ?c)"
    by (simp add: demo_env_def)
  have wf: "go_map_wf ?c" by (simp add: go_map_wf_def)
  have ck: "request_cookie (demo_request ''/'' [] [(''token'', ?tok)] []) cookie_name = Some ?tok"
    by (simp add: request_cookie_def cookie_name_def demo_request_def)
  show ?thesis
    by (rule default_is_authorized_wrong_key [OF sg k' k refl ne wf ck])
qed

text \<open>
  C4. Expiry (spec sections 4.1 and 8): a session cookie whose \<open>exp\<close> claim lies in
  the past is never authorized, whatever its signature.
\<close>

theorem default_is_authorized_expired:
  assumes "request_cookie r cookie_name = Some v" and "split_dot v = [h, p, sig]"
    and "decode_obj p = Some c" and "claim_num c ''exp'' = Some e" and "e < now env"
  shows "\<forall>r'. default_is_authorized env m r \<noteq> Inr (True, r')"
proof
  fix r'
  show "default_is_authorized env m r \<noteq> Inr (True, r')"
  proof
    assume "default_is_authorized env m r = Inr (True, r')"
    with assms(1) obtain c' where parse: "jwt_parse env (secret_bytes (service_provider m)) v = Inr (Inr c')"
      by (auto simp: default_is_authorized_def split: sum.splits if_splits)
    with assms(2,3) have "time_errors (now env) c = []"
      unfolding jwt_parse_valid by auto
    with assms(4,5) show False
      by (simp add: time_errors_def)
  qed
qed

theorem default_is_authorized_expired_witness:
  "\<forall>r'. default_is_authorized (demo_env 20) demo_mw
          (demo_request ''/'' [] [(''token'', demo_token [(''exp'', CNum 10)])] []) \<noteq> Inr (True, r')"
proof -
  let ?c = "[(''exp'', CNum 10)]"
  have ck: "request_cookie (demo_request ''/'' [] [(''token'', demo_token ?c)] []) cookie_name = Some (demo_token ?c)"
    by (simp add: request_cookie_def cookie_name_def demo_request_def)
  have sp: "split_dot (demo_token ?c)
      = [encode_obj (jwt_header (HMAC SHA256)), encode_obj ?c, escape (''key'' @ signing_string (HMAC SHA256) ?c)]"
    by (simp add: demo_token_def split_dot_signed)
  have dc: "decode_obj (encode_obj ?c) = Some ?c" by (simp add: go_map_wf_def)
  have ex: "claim_num ?c ''exp'' = Some 10" by (simp add: claim_num_def)
  have lt: "10 < now (demo_env 20)" by (simp add: demo_env_def)
  show ?thesis
    by (rule default_is_authorized_expired [OF ck sp dc ex lt])
qed

text \<open>
  C5. Tamper evidence of the session cookie: when the default authorizer accepts a
  request, its \<open>token\<close> cookie is three segments and the third is the HMAC, under the
  configured key, of exactly the first two. The hash is the one the token's own
  \<open>alg\<close> header names: the key function does not check \<open>token.Method\<close>, so HS384 and
  HS512 are accepted as well as HS256.
\<close>

theorem default_is_authorized_cookie_is_mac:
  assumes "default_is_authorized env m r = Inr (True, r')"
  shows "\<exists>k v h p sig sh hdr. sp_key (service_provider m) = Some k
    \<and> request_cookie r cookie_name = Some v \<and> v = h @ CHR ''.'' # p @ CHR ''.'' # sig
    \<and> unescape sig = Some (mac env sh k (h @ CHR ''.'' # p))
    \<and> decode_obj h = Some hdr \<and> map_of hdr ''alg'' = Some (CStr (alg_name (HMAC sh)))"
proof -
  from assms obtain v c where v: "request_cookie r cookie_name = Some v"
    and parse: "jwt_parse env (secret_bytes (service_provider m)) v = Inr (Inr c)"
    by (auto simp: default_is_authorized_def split: option.splits sum.splits if_splits)
  from parse obtain h p sig hdr a sm k where
    sp: "split_dot v = [h, p, sig]" and hd: "decode_obj h = Some hdr"
    and alg: "map_of hdr ''alg'' = Some (CStr a)"
    and gm: "get_signing_method a = Some sm" and k: "secret_bytes (service_provider m) = Inr k"
    and ver: "method_verify (mac env) sm k (h @ CHR ''.'' # p) sig"
    unfolding jwt_parse_valid by blast
  from ver obtain sh where sm: "sm = HMAC sh"
    and sig: "unescape sig = Some (mac env sh k (h @ CHR ''.'' # p))"
    by (cases sm) auto
  from gm have "alg_name sm = a"
    by (auto simp: get_signing_method_def dest: find_Some_iff [THEN iffD1])
  moreover have "v = h @ CHR ''.'' # p @ CHR ''.'' # sig"
    using join_dot_split_dot [of v] sp by simp
  moreover from k have "sp_key (service_provider m) = Some k"
    by (auto simp: secret_bytes_def split: option.splits)
  ultimately show ?thesis
    using v hd alg sm sig by blast
qed

theorem default_is_authorized_cookie_is_mac_witness:
  "\<exists>k v h p sig sh hdr. sp_key (service_provider demo_mw) = Some k
    \<and> request_cookie (demo_request ''/'' [] [(''token'', demo_token [(''uid'', CStr ''alice'')])] []) cookie_name = Some v
    \<and> v = h @ CHR ''.'' # p @ CHR ''.'' # sig
    \<and> unescape sig = Some (mac (demo_env 0) sh k (h @ CHR ''.'' # p))
    \<and> decode_obj h = Some hdr \<and> map_of hdr ''alg'' = Some (CStr (alg_name (HMAC sh)))"
proof -
  let ?c = "[(''uid'', CStr ''alice'')]"
  let ?r = "demo_request ''/'' [] [(''token'', demo_token ?c)] []"
  have wf: "go_map_wf ?c" by (simp add: go_map_wf_def)
  have ok: "default_is_authorized (demo_env 0) demo_mw ?r = Inr (True, ?r\<lparr>header := set_saml_headers ?c (header ?r)\<rparr>)"
    by (rule default_is_authorized_token [OF _ demo_sign wf])
       (simp_all add: demo_defs request_cookie_def cookie_name_def time_errors_def claim_num_def
         has_saml_header_def)
  show ?thesis
    by (rule default_is_authorized_cookie_is_mac [OF ok])
qed

text \<open>
  C18. The accepted signing algorithm is not fixed: a session cookie produced with any
  signing method that takes the byte key (HS256, HS384 or HS512) and the configured
  key is authorized; spec section 4.1 requires the server to fix the algorithm.
\<close>

theorem default_is_authorized_any_hmac:
  assumes "sp_key (service_provider m) = Some k"
    and "signed_string (mac env) meth k c = Some tok" and "go_map_wf c"
    and "time_errors (now env) c = []" and "request_cookie r cookie_name = Some tok"
    and "\<not> has_saml_header (header r)"
  shows "default_is_authorized env m r = Inr (True, r\<lparr>header := set_saml_headers c (header r)\<rparr>)"
proof -
  have "jwt_parse env (Inr k :: fatal + string) tok = Inr (Inr c)"
    by (rule jwt_roundtrip [OF assms(3,4,2)])
  with assms(1,5,6) show ?thesis
    by (simp add: default_is_authorized_def)
qed

theorem default_is_authorized_any_hmac_witness:
  "default_is_authorized (demo_env 0) demo_mw
     (demo_request ''/'' [] [(''token'', signing_string (HMAC SHA512) [(''uid'', CStr ''alice'')] @ CHR ''.''
        # escape (''key'' @ signing_string (HMAC SHA512) [(''uid'', CStr ''alice'')]))] [])
   = Inr (True, (demo_request ''/'' [] [(''token'', signing_string (HMAC SHA512) [(''uid'', CStr ''alice'')] @ CHR ''.''
        # escape (''key'' @ signing_string (HMAC SHA512) [(''uid'', CStr ''alice'')]))] [])
        \<lparr>header := set_saml_headers [(''uid'', CStr ''alice'')] []\<rparr>)"
proof -
  let ?c = "[(''uid'', CStr ''alice'')]"
  let ?tok = "signing_string (HMAC SHA512) ?c @ CHR ''.'' # escape (''key'' @ signing_string (HMAC SHA512) ?c)"
  have ss: "signed_string (mac (demo_env 0)) (HMAC SHA512) ''key'' ?c = Some ?tok"
    by (simp add: signed_string_HMAC demo_env_def)
  have "default_is_authorized (demo_env 0) demo_mw (demo_request ''/'' [] [(''token'', ?tok)] [])
      = Inr (True, (demo_request ''/'' [] [(''token'', ?tok)] [])
          \<lparr>header := set_saml_headers ?c (header (demo_request ''/'' [] [(''token'', ?tok)] []))\<rparr>)"
    by (rule default_is_authorized_any_hmac [OF _ ss])
       (simp_all add: demo_defs go_map_wf_def time_errors_def claim_num_def
         request_cookie_def cookie_name_def has_saml_header_def)
  then show ?thesis by (simp add: demo_request_def)
qed

end
