(* ===== verification/Header_Bridge.thy ===== *)
theory Header_Bridge
  imports Middleware
begin

text \<open>
  The attribute header bridge of \<open>default_is_authorized\<close> (lines 186--199 of
  \<open>src/middleware.go\<close>): the inbound \<open>X-Saml\<close> check and the copy of the token's
  string claims into \<open>X-Saml-*\<close> headers through \<open>Header.Set\<close>, and how the
  result depends on the order in which the loop visits the claim map.
\<close>

subsection \<open>The inbound check and the trusted namespace\<close>

text \<open>
  C6. Header namespace violation (spec sections 4.2 step 3 and 8): a request that
  already carries a header starting with \<open>X-Saml\<close> is never authorized, and when its
  session cookie is otherwise valid the request is aborted by a panic.
\<close>

theorem default_is_authorized_rejects_injected:
  assumes "(k, vs) \<in> set (header r)" and "has_prefix k ''X-Saml''"
  shows "(\<forall>r'. default_is_authorized env m r \<noteq> Inr (True, r'))
    \<and> (\<forall>v c. request_cookie r cookie_name = Some v
          \<longrightarrow> jwt_parse env (secret_bytes (service_provider m)) v = Inr (Inr c)
          \<longrightarrow> (\<exists>msg. default_is_authorized env m r = Inl (Panic msg)))"
proof -
  from assms have "has_saml_header (header r)"
    by (auto simp: has_saml_header_def list_ex_iff)
  then show ?thesis
    by (auto simp: default_is_authorized_def split: option.splits sum.splits)
qed

theorem default_is_authorized_rejects_injected_witness:
  "\<forall>r'. default_is_authorized (demo_env 0) demo_mw
          (demo_request ''/'' [(''X-Saml-Uid'', [''mallory''])] [(''token'', demo_token [(''uid'', CStr ''alice'')])] [])
        \<noteq> Inr (True, r')"
proof -
  let ?r = "demo_request ''/'' [(''X-Saml-Uid'', [''mallory''])] [(''token'', demo_token [(''uid'', CStr ''alice'')])] []"
  have "(''X-Saml-Uid'', [''mallory'']) \<in> set (header ?r)"
    by (simp add: demo_request_def)
  moreover have "has_prefix ''X-Saml-Uid'' ''X-Saml''"
    by (simp add: has_prefix_def)
  ultimately show ?thesis
    using default_is_authorized_rejects_injected [of "''X-Saml-Uid''" "[''mallory'']" ?r "demo_env 0" demo_mw]
    by blast
qed

text \<open>
  C7. Trusted namespace (spec sections 3 and 4.2): when the default authorizer accepts
  a request, the request had a session cookie that verifies under the configured key;
  every \<open>X-Saml\<close> header of the resulting request holds exactly one string claim of
  that verified token under the claim's canonical header name; every other header is
  unchanged, and so is the rest of the request.
\<close>

theorem default_is_authorized_trusted_namespace:
  assumes "default_is_authorized env m r = Inr (True, r')"
  shows "\<exists>v c. request_cookie r cookie_name = Some v
    \<and> jwt_parse env (secret_bytes (service_provider m)) v = Inr (Inr c)
    \<and> (\<forall>k vs. map_of (header r') k = Some vs \<longrightarrow> has_prefix k ''X-Saml''
          \<longrightarrow> (\<exists>n s. (n, CStr s) \<in> set c \<and> k = canonical_header_key (''X-Saml-'' @ n) \<and> vs = [s]))
    \<and> (\<forall>k. \<not> has_prefix k ''X-Saml'' \<longrightarrow> map_of (header r') k = map_of (header r) k)
    \<and> r' = r\<lparr>header := header r'\<rparr>"
proof -
  from assms obtain v c where v: "request_cookie r cookie_name = Some v"
    and c: "jwt_parse env (secret_bytes (service_provider m)) v = Inr (Inr c)"
    and clean: "\<not> has_saml_header (header r)"
    and r': "r' = r\<lparr>header := set_saml_headers c (header r)\<rparr>"
    by (rule default_is_authorized_True)
  have ns: "\<exists>n s. (n, CStr s) \<in> set c \<and> k = canonical_header_key (''X-Saml-'' @ n) \<and> vs = [s]"
    if "map_of (header r') k = Some vs" and "has_prefix k ''X-Saml''" for k vs
    using set_saml_headers_origin [of c "header r" k vs] no_saml_header_lookup [OF clean] that r'
    by auto
  have other: "map_of (header r') k = map_of (header r) k" if "\<not> has_prefix k ''X-Saml''" for k
  proof -
    have "\<forall>n s. (n, CStr s) \<in> set c \<longrightarrow> canonical_header_key (''X-Saml-'' @ n) \<noteq> k"
      using that canonical_saml_prefix by metis
    from set_saml_headers_other [OF this, of "header r"] r' show ?thesis
      by simp
  qed
  show ?thesis
    using v c ns other r' by auto
qed

theorem default_is_authorized_trusted_namespace_witness:
  "\<exists>r'. default_is_authorized (demo_env 0) demo_mw
          (demo_request ''/'' [] [(''token'', demo_token [(''uid'', CStr ''alice'')])] []) = Inr (True, r')
     \<and> (\<forall>k vs. map_of (header r') k = Some vs \<longrightarrow> has_prefix k ''X-Saml''
          \<longrightarrow> k = ''X-Saml-Uid'' \<and> vs = [''alice''])"
proof -
  let ?c = "[(''uid'', CStr ''alice'')]"
  let ?r = "demo_request ''/'' [] [(''token'', demo_token ?c)] []"
  have wf: "go_map_wf ?c" by (simp add: go_map_wf_def)
  have ok: "default_is_authorized (demo_env 0) demo_mw ?r = Inr (True, ?r\<lparr>header := set_saml_headers ?c (header ?r)\<rparr>)"
    by (rule default_is_authorized_token [OF _ demo_sign wf])
       (simp_all add: demo_defs request_cookie_def cookie_name_def time_errors_def claim_num_def
         has_saml_header_def)
  have key: "canonical_header_key (''X-Saml-'' @ ''uid'') = ''X-Saml-Uid''"
    by code_simp
  from default_is_authorized_trusted_namespace [OF ok] obtain v c where
    v: "request_cookie ?r cookie_name = Some v"
    and c: "jwt_parse (demo_env 0) (secret_bytes (service_provider demo_mw)) v = Inr (Inr c)"
    and ns: "\<forall>k vs. map_of (header (?r\<lparr>header := set_saml_headers ?c (header ?r)\<rparr>)) k = Some vs
        \<longrightarrow> has_prefix k ''X-Saml''
        \<longrightarrow> (\<exists>n s. (n, CStr s) \<in> set c \<and> k = canonical_header_key (''X-Saml-'' @ n) \<and> vs = [s])"
    by blast
  from v have "v = demo_token ?c"
    by (simp add: demo_request_def request_cookie_def cookie_name_def)
  with c jwt_parse_hs256 [OF demo_sign wf, of "demo_env 0"] have "c = ?c"
    by (simp add: demo_env_def time_errors_def claim_num_def)
  have "k = ''X-Saml-Uid'' \<and> vs = [''alice'']"
    if "map_of (header (?r\<lparr>header := set_saml_headers ?c (header ?r)\<rparr>)) k = Some vs"
      and "has_prefix k ''X-Saml''" for k vs
  proof -
    from ns that \<open>c = ?c\<close> obtain n s where "(n, CStr s) \<in> set ?c"
      and "k = canonical_header_key (''X-Saml-'' @ n)" and "vs = [s]"
      by blast
    with key show ?thesis by simp
  qed
  with ok show ?thesis by blast
qed

text \<open>
  C8. Claim-to-header bridge (spec sections 4.2 step 4 and 8): a request with a
  verified session cookie and no inbound \<open>X-Saml\<close> header is authorized, and every
  string claim \<open>n: s\<close> of the token is the single value of header
  \<open>X-Saml-<n>\<close> (canonical name), provided no two claim names have the same canonical
  header name.
\<close>

theorem default_is_authorized_sets_claims:
  assumes "request_cookie r cookie_name = Some v"
    and "jwt_parse env (secret_bytes (service_provider m)) v = Inr (Inr c)"
    and "\<not> has_saml_header (header r)"
    and "inj_on (\<lambda>n. canonical_header_key (''X-Saml-'' @ n)) (fst ` set c)"
    and "(n, CStr s) \<in> set c"
  shows "\<exists>r'. default_is_authorized env m r = Inr (True, r')
    \<and> map_of (header r') (canonical_header_key (''X-Saml-'' @ n)) = Some [s]"
proof -
  have "distinct (map fst c)"
    using jwt_parse_wf [OF assms(2)] by (simp add: go_map_wf_def)
  from set_saml_headers_lookup [OF this assms(4,5)] assms(1-3) show ?thesis
    by (simp add: default_is_authorized_def)
qed

theorem default_is_authorized_sets_claims_witness:
  "\<exists>r'. default_is_authorized (demo_env 0) demo_mw
          (demo_request ''/'' [] [(''token'', demo_token [(''uid'', CStr ''alice@example.com'')])] []) = Inr (True, r')
     \<and> map_of (header r') ''X-Saml-Uid'' = Some [''alice@example.com'']"
proof -
  let ?c = "[(''uid'', CStr ''alice@example.com'')]"
  let ?r = "demo_request ''/'' [] [(''token'', demo_token ?c)] []"
  have wf: "go_map_wf ?c" by (simp add: go_map_wf_def)
  have ck: "request_cookie ?r cookie_name = Some (demo_token ?c)"
    by (simp add: request_cookie_def cookie_name_def demo_request_def)
  have pr: "jwt_parse (demo_env 0) (secret_bytes (service_provider demo_mw)) (demo_token ?c) = Inr (Inr ?c)"
    using jwt_parse_hs256 [OF demo_sign wf, of "demo_env 0"]
    by (simp add: demo_env_def time_errors_def claim_num_def)
  have cl: "\<not> has_saml_header (header ?r)"
    by (simp add: has_saml_header_def demo_request_def)
  have inj: "inj_on (\<lambda>n. canonical_header_key (''X-Saml-'' @ n)) (fst ` set ?c)"
    by simp
  have key: "canonical_header_key (''X-Saml-'' @ ''uid'') = ''X-Saml-Uid''"
    by code_simp
  from default_is_authorized_sets_claims [OF ck pr cl inj, of "''uid''" "''alice@example.com''"] key
  show ?thesis by simp
qed

subsection \<open>The bridge loop\<close>

text \<open>
  C20. Which value a header gets (spec section 4.2 step 4): after the loop over the
  claim map, the header under a key holds the value of the last string claim, in the
  order in which \<open>range\<close> visits the map, whose canonical \<open>X-Saml-\<close> name is that
  key, and keeps its inbound value when no claim has that name. Claim names that
  differ only in letter case therefore compete for one header, and since Go
  randomises the iteration order the surviving value is not a function of the
  verified claims.
\<close>

theorem set_saml_headers_last_wins:
  "map_of (set_saml_headers c h) k =
     (case [s. (n, CStr s) \<leftarrow> c, canonical_header_key (''X-Saml-'' @ n) = k] of
        [] \<Rightarrow> map_of h k
      | ss \<Rightarrow> Some [last ss])"
proof (induction c arbitrary: h)
  case (Cons nv cs)
  obtain n v where nv: "nv = (n, v)" by fastforce
  obtain L where L: "[s. (n, CStr s) \<leftarrow> cs, canonical_header_key (''X-Saml-'' @ n) = k] = L"
    by simp
  show ?case
  proof (cases v)
    case (CStr s)
    have IH: "map_of (set_saml_headers cs (header_set h (''X-Saml-'' @ n) s)) k
        = (case L of [] \<Rightarrow> map_of (header_set h (''X-Saml-'' @ n) s) k | ss \<Rightarrow> Some [last ss])"
      by (rule Cons.IH [of "header_set h (''X-Saml-'' @ n) s", unfolded L])
    have cons: "[s. (n, CStr s) \<leftarrow> nv # cs, canonical_header_key (''X-Saml-'' @ n) = k]
        = (if canonical_header_key (''X-Saml-'' @ n) = k then [s] else []) @ L"
      using L unfolding nv CStr by simp
    show ?thesis
      unfolding cons using IH unfolding nv CStr
      by (cases L) (simp_all add: map_of_header_set)
  qed (use Cons nv in simp_all)
qed simp

text \<open>
  C21. Without such collisions the bridge does not depend on the iteration order: for
  two orders of the same claim map whose names have pairwise different canonical
  header names, the resulting headers agree.
\<close>

theorem set_saml_headers_order_independent:
  assumes "distinct (map fst c)" and "distinct (map fst c')" and "set c' = set c"
    and "inj_on (\<lambda>n. canonical_header_key (''X-Saml-'' @ n)) (fst ` set c)"
  shows "map_of (set_saml_headers c' h) = map_of (set_saml_headers c h)"
proof
  fix k
  let ?K = "\<lambda>n. canonical_header_key (''X-Saml-'' @ n)"
  have inj': "inj_on ?K (fst ` set c')" using assms(3,4) by simp
  show "map_of (set_saml_headers c' h) k = map_of (set_saml_headers c h) k"
  proof (cases "\<exists>n s. (n, CStr s) \<in> set c \<and> ?K n = k")
    case True
    then obtain n s where mem: "(n, CStr s) \<in> set c" and k: "?K n = k" by blast
    from mem assms(3) have mem': "(n, CStr s) \<in> set c'" by simp
    show ?thesis
      using set_saml_headers_lookup [OF assms(1,4) mem] set_saml_headers_lookup [OF assms(2) inj' mem'] k
      by simp
  next
    case False
    then have "\<forall>n s. (n, CStr s) \<in> set c \<longrightarrow> ?K n \<noteq> k" by blast
    moreover from this assms(3) have "\<forall>n s. (n, CStr s) \<in> set c' \<longrightarrow> ?K n \<noteq> k" by simp
    ultimately show ?thesis
      by (simp add: set_saml_headers_other)
  qed
qed

theorem set_saml_headers_order_independent_witness:
  "map_of (set_saml_headers [(''mail'', CStr ''a@example.com''), (''uid'', CStr ''alice'')] [])
     = map_of (set_saml_headers [(''uid'', CStr ''alice''), (''mail'', CStr ''a@example.com'')] [])"
proof (rule set_saml_headers_order_independent)
  show "inj_on (\<lambda>n. canonical_header_key (''X-Saml-'' @ n)) (fst ` set [(''uid'', CStr ''alice''), (''mail'', CStr ''a@example.com'')])"
    by code_simp
qed auto

text \<open>
  C22. Every header the bridge adds has a canonical name starting with \<open>X-Saml-\<close>, the
  form in which \<open>RequireAttribute\<close> and other handlers look it up.
\<close>

theorem set_saml_headers_canonical:
  assumes "map_of (set_saml_headers c h) k = Some vs" and "map_of h k \<noteq> Some vs"
  shows "canonical_header_key k = k \<and> has_prefix k ''X-Saml-''"
proof -
  from set_saml_headers_origin [OF assms(1)] assms(2) obtain n where
    k: "k = canonical_header_key (''X-Saml-'' @ n)" by blast
  have "has_prefix k ''X-Saml-''"
    unfolding k canonical_header_key_saml by (simp add: has_prefix_def)
  moreover have "canonical_header_key k = k"
    unfolding k by (rule canonical_header_key_idem)
  ultimately show ?thesis by blast
qed

theorem set_saml_headers_canonical_witness:
  "canonical_header_key ''X-Saml-Uid'' = ''X-Saml-Uid'' \<and> has_prefix ''X-Saml-Uid'' ''X-Saml-''"
proof -
  have "map_of (set_saml_headers [(''uid'', CStr ''alice'')] []) ''X-Saml-Uid'' = Some [''alice'']"
    by code_simp
  moreover have "map_of ([] :: header) ''X-Saml-Uid'' \<noteq> Some [''alice'']" by simp
  ultimately show ?thesis
    by (rule set_saml_headers_canonical)
qed

end
