(* ===== verification/Login_Redirect.thy ===== *)
theory Login_Redirect
  imports Middleware
begin

text \<open>
  The login redirect of \<open>require_account_middleware\<close> (lines 81--119 of
  \<open>src/middleware.go\<close>): the relay state, the identity provider's URL, the loop
  guard on the ACS path and the panics of a missing key.
\<close>

subsection \<open>Properties of RequireAccountMiddleware\<close>

text \<open>
  C9. Login redirect (spec sections 4.3 and 8): an unauthorized request off the ACS
  path is answered with whatever the identity provider's request builder returns for
  a relay state \<open>rs\<close> (a 302 to its URL, or a 500 with its error); and a later
  callback carrying \<open>rs\<close> as \<open>RelayState\<close> recovers the original request URI, at any
  time, since the relay state has no expiry.
\<close>

theorem require_account_redirect:
  assumes "is_authorized env m r = Inr (False, r')"
    and "sp_key (service_provider m) = Some k"
    and "url_path r' \<noteq> acs_path (service_provider m)" and "mac env' = mac env"
  shows "\<exists>rs. require_account_middleware env m h r
      = (case make_redirect_authentication_request (service_provider m) rs of
          Inl err \<Rightarrow> Inr (HttpError 500 err)
        | Inr url \<Rightarrow> Inr (Redirect [] url 302))
    \<and> (\<forall>r2. form_get (form r2) ''RelayState'' = rs
          \<longrightarrow> relay_state_uri env' (service_provider m) r2 = Inr (Inr (url_string r')))"
proof -
  obtain rs where sg: "sign_hs256 env (service_provider m) (relay_state_claims r') = Inr rs"
    using sign_hs256_Some [OF assms(2)] by blast
  have parse: "jwt_parse env' (secret_bytes (service_provider m)) rs = Inr (Inr (relay_state_claims r'))"
    using jwt_parse_hs256 [OF sg relay_state_claims_wf assms(4)] by simp
  have "relay_state_uri env' (service_provider m) r2 = Inr (Inr (url_string r'))"
    if "form_get (form r2) ''RelayState'' = rs" for r2
    using that parse token_nonempty [OF sg] by (simp add: relay_state_uri_def relay_state_claims_def)
  moreover have "require_account_middleware env m h r
      = (case make_redirect_authentication_request (service_provider m) rs of
          Inl err \<Rightarrow> Inr (HttpError 500 err)
        | Inr url \<Rightarrow> Inr (Redirect [] url 302))"
    using assms(1,3) sg by (simp add: require_account_middleware_def split: sum.splits)
  ultimately show ?thesis by blast
qed

theorem require_account_redirect_witness:
  "require_account_middleware (demo_env 0) demo_mw (\<lambda>r. Inr (Served r)) (demo_request ''/protected?x=1'' [] [] [])
     = Inr (Redirect [] (''https://idp.example.com/sso?RelayState=''
          @ demo_token (relay_state_claims (demo_request ''/protected?x=1'' [] [] []))) 302)
   \<and> relay_state_uri (demo_env 999999) demo_sp
       (demo_request ''/saml/acs'' [] []
          [(''RelayState'', [demo_token (relay_state_claims (demo_request ''/protected?x=1'' [] [] []))])])
     = Inr (Inr ''/protected?x=1'')"
proof -
  let ?q = "demo_request ''/protected?x=1'' [] [] []"
  have unauth: "is_authorized (demo_env 0) demo_mw ?q = Inr (False, ?q)"
    by (simp add: is_authorized_def default_is_authorized_def request_cookie_def demo_defs)
  have k: "sp_key (service_provider demo_mw) = Some ''key''" by (simp add: demo_defs)
  have path: "url_path ?q \<noteq> acs_path (service_provider demo_mw)" by (simp add: demo_defs)
  have "mac (demo_env 999999) = mac (demo_env 0)" by (simp add: demo_env_def)
  from require_account_redirect [OF unauth k path this, of "\<lambda>r. Inr (Served r)"]
  obtain rs where red: "require_account_middleware (demo_env 0) demo_mw (\<lambda>r. Inr (Served r)) ?q
      = (case make_redirect_authentication_request (service_provider demo_mw) rs of
          Inl err \<Rightarrow> Inr (HttpError 500 err) | Inr url \<Rightarrow> Inr (Redirect [] url 302))"
    and back2: "\<forall>r2. form_get (form r2) ''RelayState'' = rs
          \<longrightarrow> relay_state_uri (demo_env 999999) (service_provider demo_mw) r2 = Inr (Inr (url_string ?q))"
    by blast
  have mk: "\<And>x. make_redirect_authentication_request (service_provider demo_mw) x
      = Inr (''https://idp.example.com/sso?RelayState='' @ x)"
    by (simp add: demo_defs)
  have direct: "require_account_middleware (demo_env 0) demo_mw (\<lambda>r. Inr (Served r)) ?q
      = Inr (Redirect [] (''https://idp.example.com/sso?RelayState='' @ demo_token (relay_state_claims ?q)) 302)"
    using demo_sign [of 0 "relay_state_claims ?q"]
    by (simp only: require_account_middleware_def unauth mk) (simp add: path)
  from red direct mk have rs: "rs = demo_token (relay_state_claims ?q)"
    by simp
  let ?r2 = "demo_request ''/saml/acs'' [] [] [(''RelayState'', [demo_token (relay_state_claims ?q)])]"
  have "form_get (form ?r2) ''RelayState'' = rs"
    using rs by (simp add: form_get_def demo_request_def)
  with back2 have "relay_state_uri (demo_env 999999) (service_provider demo_mw) ?r2 = Inr (Inr (url_string ?q))"
    by blast
  moreover have "service_provider demo_mw = demo_sp" and "url_string ?q = ''/protected?x=1''"
    by (simp_all add: demo_mw_def demo_request_def)
  ultimately show ?thesis
    using direct by simp
qed

text \<open>
  C10. Loop guard (spec sections 4.3 step 3 and 8): an unauthorized request on the ACS
  path itself, with an identity provider that builds a redirect, ends in the dedicated
  panic instead of a redirect, whichever authorizer is configured.
\<close>

theorem require_account_loop_guard:
  assumes "is_authorized env m r = Inr (False, r')"
    and "url_path r' = acs_path (service_provider m)"
    and "sp_key (service_provider m) = Some k"
    and "\<forall>rs. \<exists>url. make_redirect_authentication_request (service_provider m) rs = Inr url"
  shows "require_account_middleware env m h r
    = Inl (Panic ''don't wrap ServiceProviderMiddleware with RequireAccountMiddleware'')"
proof -
  obtain rs where sg: "sign_hs256 env (service_provider m) (relay_state_claims r') = Inr rs"
    using sign_hs256_Some [OF assms(3)] by blast
  from assms(4) obtain url where "make_redirect_authentication_request (service_provider m) rs = Inr url"
    by blast
  with assms(1,2) sg show ?thesis
    by (simp add: require_account_middleware_def)
qed

theorem require_account_loop_guard_witness:
  "require_account_middleware (demo_env 0) demo_mw (\<lambda>r. Inr (Served r)) (demo_request ''/saml/acs'' [] [] [])
    = Inl (Panic ''don't wrap ServiceProviderMiddleware with RequireAccountMiddleware'')"
proof (rule require_account_loop_guard)
  show "is_authorized (demo_env 0) demo_mw (demo_request ''/saml/acs'' [] [] [])
      = Inr (False, demo_request ''/saml/acs'' [] [] [])"
    by (simp add: is_authorized_def default_is_authorized_def request_cookie_def demo_defs)
  show "url_path (demo_request ''/saml/acs'' [] [] []) = acs_path (service_provider demo_mw)"
    by (simp add: demo_defs)
  show "sp_key (service_provider demo_mw) = Some ''key''"
    by (simp add: demo_defs)
  show "\<forall>rs. \<exists>url. make_redirect_authentication_request (service_provider demo_mw) rs = Inr url"
    by (simp add: demo_defs)
qed

text \<open>
  C11. A request builder that fails gives a 500 carrying its error text, and the loop
  guard is not reached: this holds on the ACS path too, where spec section 4.3 asks
  for the fatal misconfiguration condition.
\<close>

theorem require_account_redirect_error:
  assumes "is_authorized env m r = Inr (False, r')"
    and "sp_key (service_provider m) = Some k"
    and "\<forall>rs. make_redirect_authentication_request (service_provider m) rs = Inl err"
  shows "require_account_middleware env m h r = Inr (HttpError 500 err)"
proof -
  obtain rs where "sign_hs256 env (service_provider m) (relay_state_claims r') = Inr rs"
    using sign_hs256_Some [OF assms(2)] by blast
  with assms show ?thesis
    by (simp add: require_account_middleware_def)
qed

theorem require_account_redirect_error_witness:
  "require_account_middleware (demo_env 0)
     (demo_mw\<lparr>service_provider := demo_sp\<lparr>make_redirect_authentication_request := (\<lambda>rs. Inl ''no SSO binding'')\<rparr>\<rparr>)
     (\<lambda>r. Inr (Served r)) (demo_request ''/saml/acs'' [] [] [])
   = Inr (HttpError 500 ''no SSO binding'')"
proof (rule require_account_redirect_error)
  show "is_authorized (demo_env 0)
      (demo_mw\<lparr>service_provider := demo_sp\<lparr>make_redirect_authentication_request := (\<lambda>rs. Inl ''no SSO binding'')\<rparr>\<rparr>)
      (demo_request ''/saml/acs'' [] [] []) = Inr (False, demo_request ''/saml/acs'' [] [] [])"
    by (simp add: is_authorized_def default_is_authorized_def request_cookie_def demo_defs)
qed (simp_all add: demo_defs)

text \<open>
  C23. Signing failure (spec section 7): with a key that holds no PEM block, every
  path that signs a token ends in a panic and no token is issued: the login redirect
  for an unauthorized request and the callback without relay state.
\<close>

theorem missing_key_panics:
  assumes "sp_key (service_provider m) = None"
  shows "(is_authorized env m r = Inr (False, r') \<longrightarrow> (\<exists>msg. require_account_middleware env m h r = Inl (Panic msg)))
    \<and> (form_get (form r) ''RelayState'' = [] \<longrightarrow> (\<exists>msg. default_authorize_func env m r attrs = Inl (Panic msg)))"
proof (intro conjI impI)
  assume "is_authorized env m r = Inr (False, r')"
  moreover obtain msg where "sign_hs256 env (service_provider m) (relay_state_claims r') = Inl (Panic msg)"
    using sign_hs256_None [OF assms] by blast
  ultimately show "\<exists>msg. require_account_middleware env m h r = Inl (Panic msg)"
    by (simp add: require_account_middleware_def)
next
  assume "form_get (form r) ''RelayState'' = []"
  moreover obtain msg where "sign_hs256 env (service_provider m) (session_claims env attrs) = Inl (Panic msg)"
    using sign_hs256_None [OF assms] by blast
  ultimately show "\<exists>msg. default_authorize_func env m r attrs = Inl (Panic msg)"
    by (simp add: default_authorize_func_def relay_state_uri_def)
qed

theorem missing_key_panics_witness:
  "\<exists>msg. default_authorize_func (demo_env 0) (demo_mw\<lparr>service_provider := demo_sp\<lparr>sp_key := None\<rparr>\<rparr>)
          (demo_request ''/saml/acs'' [] [] []) [] = Inl (Panic msg)"
proof -
  have "sp_key (service_provider (demo_mw\<lparr>service_provider := demo_sp\<lparr>sp_key := None\<rparr>\<rparr>)) = None"
    by simp
  from missing_key_panics [OF this, of "demo_env 0" "demo_request ''/saml/acs'' [] [] []"]
  show ?thesis
    by (simp add: form_get_def demo_request_def)
qed

end
