(* ===== verification/Callback.thy ===== *)
theory Callback
  imports Middleware
begin

text \<open>
  The assertion callback: \<open>serve_http\<close> at the ACS path (lines 51--72 of
  \<open>src/middleware.go\<close>) and \<open>default_authorize_func\<close> (lines 125--159), with the
  relay-state recovery, the session claims and the session cookie, and the operator
  log \<open>serve_http_log\<close> that \<open>ServeHTTP\<close> writes for a rejected assertion.
\<close>

subsection \<open>Properties of ServeHTTP and DefaultAuthorizeFunc\<close>

lemma serve_http_acs:
  "url_path r \<noteq> metadata_path (service_provider m) \<Longrightarrow> url_path r = acs_path (service_provider m)
   \<Longrightarrow> parse_response (service_provider m) r [] = Inr attrs \<Longrightarrow> authorize_func m = None
   \<Longrightarrow> serve_http env m r = default_authorize_func env m r attrs"
  by (simp add: serve_http_def)

text \<open>
  C12. Forged relay state (spec sections 4.4 step 2 and 8): at the ACS path, with an
  assertion the verifier accepts, a non-empty \<open>RelayState\<close> that fails verification
  under the configured key yields 403, not a redirect to the site root.
\<close>

theorem serve_http_bad_relay_state:
  assumes "url_path r \<noteq> metadata_path (service_provider m)"
    and "url_path r = acs_path (service_provider m)"
    and "parse_response (service_provider m) r [] = Inr attrs" and "authorize_func m = None"
    and "sp_key (service_provider m) = Some k" and "form_get (form r) ''RelayState'' \<noteq> []"
    and "\<exists>e. jwt_parse env (Inr k :: fatal + string) (form_get (form r) ''RelayState'') = Inr (Inl e)"
  shows "serve_http env m r = Inr (HttpError 403 (status_text 403))"
  using assms by (auto simp: serve_http_acs default_authorize_func_def relay_state_uri_def)

theorem serve_http_bad_relay_state_witness:
  "serve_http (demo_env 0) demo_mw
     (demo_request ''/saml/acs'' [] []
        [(''RelayState'', [signing_string (HMAC SHA256) [(''uri'', CStr ''/'')] @ CHR ''.''
                           # escape (''forged'' @ signing_string (HMAC SHA256) [(''uri'', CStr ''/'')])])])
   = Inr (HttpError 403 ''Forbidden'')"
proof -
  let ?c = "[(''uri'', CStr ''/'')]"
  let ?rs = "signing_string (HMAC SHA256) ?c @ CHR ''.'' # escape (''forged'' @ signing_string (HMAC SHA256) ?c)"
  let ?r = "demo_request ''/saml/acs'' [] [] [(''RelayState'', [?rs])]"
  have fg: "form_get (form ?r) ''RelayState'' = ?rs"
    by (simp add: form_get_def demo_request_def)
  have wf: "go_map_wf ?c" by (simp add: go_map_wf_def)
  have bad: "\<exists>e. jwt_parse (demo_env 0) (Inr ''key'' :: fatal + string) ?rs = Inr (Inl e)"
    using wf by (simp add: jwt_parse_signed demo_env_def Let_def)
  have "serve_http (demo_env 0) demo_mw ?r = Inr (HttpError 403 (status_text 403))"
    by (rule serve_http_bad_relay_state)
       (use fg bad in \<open>simp_all add: demo_defs signing_string_def\<close>)
  then show ?thesis by (simp add: status_text_def)
qed

text \<open>
  C13. Session establishment (spec sections 4.4 steps 2--4): at the ACS path, with an
  assertion the verifier accepts and no \<open>RelayState\<close>, the response sets the
  \<open>token\<close> cookie (path \<open>/\<close>, max-age one hour, not HTTP-only) and redirects to the
  site root; the cookie's token verifies under the configured key to one claim per
  attribute plus \<open>exp\<close> = now + one hour.
\<close>

theorem serve_http_callback_session:
  assumes "url_path r \<noteq> metadata_path (service_provider m)"
    and "url_path r = acs_path (service_provider m)"
    and "parse_response (service_provider m) r [] = Inr attrs" and "authorize_func m = None"
    and "sp_key (service_provider m) = Some k" and "form_get (form r) ''RelayState'' = []"
  shows "\<exists>tok. serve_http env m r
      = Inr (Redirect [\<lparr>c_name = ''token'', c_value = tok, c_max_age = 3600,
                        c_http_only = False, c_path = ''/''\<rparr>] ''/'' 302)
    \<and> jwt_parse env (Inr k :: fatal + string) tok = Inr (Inr (session_claims env attrs))
    \<and> claim_num (session_claims env attrs) ''exp'' = Some (now env + 3600)"
proof -
  obtain tok where sg: "sign_hs256 env (service_provider m) (session_claims env attrs) = Inr tok"
    using sign_hs256_Some [OF assms(5)] by blast
  have "jwt_parse env (secret_bytes (service_provider m)) tok = Inr (Inr (session_claims env attrs))"
    using jwt_parse_hs256 [OF sg session_claims_wf refl] by (simp add: time_errors_session cookie_max_age_def)
  moreover have "serve_http env m r = Inr (Redirect [session_cookie tok] ''/'' 302)"
    using assms sg by (simp add: serve_http_acs default_authorize_func_def relay_state_uri_def)
  ultimately show ?thesis
    using assms(5)
    by (simp add: session_cookie_def cookie_name_def cookie_max_age_def claim_num_def session_claims_def)
qed

theorem serve_http_callback_session_witness:
  "\<exists>tok. serve_http (demo_env 1000) demo_mw (demo_request ''/saml/acs'' [] [] [])
      = Inr (Redirect [\<lparr>c_name = ''token'', c_value = tok, c_max_age = 3600,
                        c_http_only = False, c_path = ''/''\<rparr>] ''/'' 302)
    \<and> jwt_parse (demo_env 1000) (Inr ''key'' :: fatal + string) tok
        = Inr (Inr [(''uid'', CStr ''alice@example.com''), (''exp'', CNum 4600)])"
proof -
  let ?attrs = "[\<lparr>friendly_name = ''uid'', attr_name = ''urn:oid:0.9.2342.19200300.100.1.1'',
                 attr_value = ''alice@example.com''\<rparr>]"
  have "session_claims (demo_env 1000) ?attrs = [(''uid'', CStr ''alice@example.com''), (''exp'', CNum 4600)]"
    by (simp add: session_claims_def demo_env_def cookie_max_age_def)
  moreover have "\<exists>tok. serve_http (demo_env 1000) demo_mw (demo_request ''/saml/acs'' [] [] [])
      = Inr (Redirect [\<lparr>c_name = ''token'', c_value = tok, c_max_age = 3600,
                        c_http_only = False, c_path = ''/''\<rparr>] ''/'' 302)
    \<and> jwt_parse (demo_env 1000) (Inr ''key'' :: fatal + string) tok = Inr (Inr (session_claims (demo_env 1000) ?attrs))
    \<and> claim_num (session_claims (demo_env 1000) ?attrs) ''exp'' = Some (now (demo_env 1000) + 3600)"
    by (rule serve_http_callback_session) (simp_all add: demo_defs form_get_def)
  ultimately show ?thesis by auto
qed

text \<open>
  C14. Generic rejection (spec sections 4.4 step 1 and 7): at the ACS path, an assertion
  the verifier rejects yields a bare 403, and the response is the same whatever error
  the verifier reports, so it carries no detail of the verification.
\<close>

theorem serve_http_verifier_failure:
  assumes "url_path r \<noteq> metadata_path (service_provider m)"
    and "url_path r = acs_path (service_provider m)"
    and "parse_response (service_provider m) r [] = Inl err"
  shows "serve_http env m r = Inr (HttpError 403 ''Forbidden'')
    \<and> serve_http env m r
        = serve_http env (m\<lparr>service_provider := (service_provider m)\<lparr>parse_response := (\<lambda>q rid. Inl err')\<rparr>\<rparr>) r"
  using assms by (simp add: serve_http_def status_text_def)

theorem serve_http_verifier_failure_witness:
  "serve_http (demo_env 0)
     (demo_mw\<lparr>service_provider := demo_sp\<lparr>parse_response := (\<lambda>q rid. Inl (InvalidResponseError ''<Response/>'' 0 ''bad signature''))\<rparr>\<rparr>)
     (demo_request ''/saml/acs'' [] [] []) = Inr (HttpError 403 ''Forbidden'')"
proof -
  let ?m = "demo_mw\<lparr>service_provider := demo_sp\<lparr>parse_response := (\<lambda>q rid. Inl (InvalidResponseError ''<Response/>'' 0 ''bad signature''))\<rparr>\<rparr>"
  have "serve_http (demo_env 0) ?m (demo_request ''/saml/acs'' [] [] []) = Inr (HttpError 403 ''Forbidden'')
      \<and> serve_http (demo_env 0) ?m (demo_request ''/saml/acs'' [] [] [])
        = serve_http (demo_env 0) (?m\<lparr>service_provider := (service_provider ?m)\<lparr>parse_response := (\<lambda>q rid. Inl (OtherResponseError []))\<rparr>\<rparr>)
            (demo_request ''/saml/acs'' [] [] [])"
    by (rule serve_http_verifier_failure) (simp_all add: demo_defs)
  then show ?thesis by blast
qed

text \<open>
  C17. Session claims (spec section 3, SessionToken): the session token has, under
  \<open>exp\<close>, the expiry instant, and under every other name the value of the \<emph>\<open>last\<close>
  attribute with that friendly name; a multi-valued attribute keeps one value, and an
  attribute named \<open>exp\<close> is dropped.
\<close>

theorem session_claims_lookup:
  "map_of (session_claims env attrs) n
     = (if n = ''exp'' then Some (CNum (now env + cookie_max_age))
        else map_option (\<lambda>a. CStr (attr_value a)) (find (\<lambda>a. friendly_name a = n) (rev attrs)))"
  by (simp add: session_claims_def map_of_assign_all map_of_attr_pairs rev_map)

text \<open>
  C19. A valid token of the wrong kind as relay state: a session token of this service
  provider, still unexpired and without a \<open>uri\<close> attribute, submitted as
  \<open>RelayState\<close> makes DefaultAuthorizeFunc panic on the \<open>.(string)\<close> type assertion
  instead of answering 403 as spec section 4.4 asks for a tampered relay state.
\<close>

theorem relay_state_session_token_panics:
  assumes "sign_hs256 env0 (service_provider m) (session_claims env0 attrs) = Inr tok"
    and "form_get (form r) ''RelayState'' = tok" and "mac env = mac env0"
    and "now env \<le> now env0 + cookie_max_age" and "\<forall>a \<in> set attrs. friendly_name a \<noteq> ''uri''"
  shows "default_authorize_func env m r attrs'
    = Inl (Panic ''interface conversion: interface {} is not string'')"
proof -
  have "jwt_parse env (secret_bytes (service_provider m)) tok = Inr (Inr (session_claims env0 attrs))"
    using jwt_parse_hs256 [OF assms(1) session_claims_wf assms(3)] assms(4)
    by (simp add: time_errors_session)
  moreover have "map_of (session_claims env0 attrs) ''uri'' = None"
    using assms(5) by (simp add: map_of_session_claims_None)
  ultimately show ?thesis
    using assms(2) token_nonempty [OF assms(1)]
    by (simp add: default_authorize_func_def relay_state_uri_def)
qed

theorem relay_state_session_token_panics_witness:
  "default_authorize_func (demo_env 1500) demo_mw
     (demo_request ''/saml/acs'' [] []
        [(''RelayState'', [demo_token (session_claims (demo_env 1000)
            [\<lparr>friendly_name = ''uid'', attr_name = ''uid'', attr_value = ''alice''\<rparr>])])])
     [\<lparr>friendly_name = ''uid'', attr_name = ''uid'', attr_value = ''alice''\<rparr>]
   = Inl (Panic ''interface conversion: interface {} is not string'')"
proof (rule relay_state_session_token_panics)
  show "sign_hs256 (demo_env 1000) (service_provider demo_mw)
      (session_claims (demo_env 1000) [\<lparr>friendly_name = ''uid'', attr_name = ''uid'', attr_value = ''alice''\<rparr>])
    = Inr (demo_token (session_claims (demo_env 1000)
        [\<lparr>friendly_name = ''uid'', attr_name = ''uid'', attr_value = ''alice''\<rparr>]))"
    by (rule demo_sign)
qed (simp_all add: demo_defs form_get_def cookie_max_age_def)

text \<open>
  C31. The log never accompanies a served request (spec section 7): a request either
  writes nothing to the operator log, or the verifier rejected it with an
  \<open>InvalidResponseError\<close>, the log holds that error's single entry and the caller
  receives the generic 403 with the standard status text. A verifier error of any
  other type leaves no trace in the log.
\<close>

theorem serve_http_log_only_on_rejection:
  "serve_http_log m r = []
   \<or> (serve_http env m r = Inr (HttpError 403 ''Forbidden'')
      \<and> (\<exists>resp at priv. serve_http_log m r = [InvalidResponseLog resp at priv]
          \<and> parse_response (service_provider m) r [] = Inl (InvalidResponseError resp at priv)))"
  by (auto simp: serve_http_log_def serve_http_def status_text_def Let_def
      split: sum.splits parse_response_error.splits)

end
