(* ===== verification/Flow.thy ===== *)
theory Flow
  imports Middleware
begin

text \<open>
  The login flow of spec section 2 as a state machine: one browser talking to the
  middleware in its default configuration (\<open>IsAuthorizedFunc\<close> and
  \<open>AuthorizeFunc\<close> nil) over a sequence of events. A protected URL is served through
  \<open>RequireAccountMiddleware\<close> wrapping an application that answers with the request
  it is given; the identity provider's POST reaches \<open>ServeHTTP\<close> at the ACS path;
  time passes; and, when the configuration allows it, the browser presents a relay
  state it has carried through the identity provider as its \<open>token\<close> cookie. The
  server keeps no state between requests (spec section 5): everything the flow
  remembers is the browser's cookie, the relay states it has carried and the
  responses it has received.
\<close>

record flow_cfg =
  f_sp :: service_provider
  f_mac :: mac_fn
  f_replay :: bool

record browser =
  clock :: int
  jar :: "string option"
  carried :: "string list"
  responses :: "(int \<times> response outcome) list"

datatype flow_event =
    Visit string string header
  | Callback string string
  | Wait nat
  | Replay string

definition flow_mw :: "flow_cfg \<Rightarrow> middleware" where
  "flow_mw cfg = \<lparr>service_provider = f_sp cfg, is_authorized_func = None, authorize_func = None\<rparr>"

definition env_at :: "flow_cfg \<Rightarrow> int \<Rightarrow> jwt_env" where
  "env_at cfg t = \<lparr>now = t, mac = f_mac cfg\<rparr>"

definition app_echo :: handler where
  "app_echo r = Inr (Served r)"

definition browser_init :: "int \<Rightarrow> browser" where
  "browser_init t = \<lparr>clock = t, jar = None, carried = [], responses = []\<rparr>"

definition jar_cookies :: "string option \<Rightarrow> (string \<times> string) list" where
  "jar_cookies j = (case j of None \<Rightarrow> [] | Some v \<Rightarrow> [(cookie_name, v)])"

text \<open>A request for the URL \<open>u\<close> with path \<open>p\<close> and inbound headers \<open>h\<close>.\<close>

definition visit_request :: "browser \<Rightarrow> string \<Rightarrow> string \<Rightarrow> header \<Rightarrow> request" where
  "visit_request s p u h =
     \<lparr>url_path = p, url_string = u, header = h, cookies = jar_cookies (jar s), form = []\<rparr>"

text \<open>The identity provider's form POST of a response \<open>saml\<close> with relay state \<open>rs\<close>.\<close>

definition callback_request :: "flow_cfg \<Rightarrow> browser \<Rightarrow> string \<Rightarrow> string \<Rightarrow> request" where
  "callback_request cfg s saml rs =
     \<lparr>url_path = acs_path (f_sp cfg), url_string = acs_path (f_sp cfg), header = [],
      cookies = jar_cookies (jar s), form = [(''SAMLResponse'', [saml]), (''RelayState'', [rs])]\<rparr>"

text \<open>The browser applies each \<open>Set-Cookie\<close> of a response in order.\<close>

fun store_cookies :: "http_cookie list \<Rightarrow> string option \<Rightarrow> string option" where
  "store_cookies [] j = j"
| "store_cookies (c # cs) j = store_cookies cs (if c_name c = cookie_name then Some (c_value c) else j)"

definition receive :: "browser \<Rightarrow> response outcome \<Rightarrow> browser" where
  "receive s out =
     s\<lparr>jar := (case out of Inr (Redirect cks _ _) \<Rightarrow> store_cookies cks (jar s) | _ \<Rightarrow> jar s),
       responses := responses s @ [(clock s, out)]\<rparr>"

text \<open>
  The relay state that an authentication redirect hands to the identity provider
  (lines 93--100), which the identity provider returns through the browser.
\<close>

definition relay_carried :: "flow_cfg \<Rightarrow> browser \<Rightarrow> request \<Rightarrow> response outcome \<Rightarrow> string list" where
  "relay_carried cfg s r out =
     (case out of
       Inr (Redirect [] _ _) \<Rightarrow>
         (case sign_hs256 (env_at cfg (clock s)) (f_sp cfg) (relay_state_claims r) of
           Inr rs \<Rightarrow> [rs]
         | Inl _ \<Rightarrow> [])
     | _ \<Rightarrow> [])"

fun flow_step :: "flow_cfg \<Rightarrow> browser \<Rightarrow> flow_event \<Rightarrow> browser" where
  "flow_step cfg s (Visit p u h) =
     (let r = visit_request s p u h;
          out = require_account_middleware (env_at cfg (clock s)) (flow_mw cfg) app_echo r
      in (receive s out)\<lparr>carried := carried s @ relay_carried cfg s r out\<rparr>)"
| "flow_step cfg s (Callback saml rs) =
     receive s (serve_http (env_at cfg (clock s)) (flow_mw cfg) (callback_request cfg s saml rs))"
| "flow_step cfg s (Wait n) = s\<lparr>clock := clock s + int n\<rparr>"
| "flow_step cfg s (Replay v) = s\<lparr>jar := Some v\<rparr>"

text \<open>Only a relay state the browser carried can be replayed, and only when allowed.\<close>

fun enabled :: "flow_cfg \<Rightarrow> browser \<Rightarrow> flow_event \<Rightarrow> bool" where
  "enabled cfg s (Replay v) = (f_replay cfg \<and> v \<in> set (carried s))"
| "enabled cfg s _ = True"

inductive reach :: "flow_cfg \<Rightarrow> browser \<Rightarrow> browser \<Rightarrow> bool" for cfg s0 where
  reach_refl: "reach cfg s0 s0"
| reach_step: "reach cfg s0 s \<Longrightarrow> enabled cfg s e \<Longrightarrow> reach cfg s0 (flow_step cfg s e)"

text \<open>
  A complete login: the browser asks for \<open>u\<close>, spends \<open>d1\<close> seconds at the identity
  provider, which posts the response \<open>saml\<close> with the relay state \<open>rs\<close>, follows the
  redirect, and asks for \<open>u\<close> again \<open>d2\<close> seconds later.
\<close>

definition login_events :: "string \<Rightarrow> string \<Rightarrow> nat \<Rightarrow> string \<Rightarrow> string \<Rightarrow> nat \<Rightarrow> flow_event list" where
  "login_events p u d1 saml rs d2 = [Visit p u [], Wait d1, Callback saml rs, Wait d2, Visit p u []]"

subsection \<open>The invariant of honest runs\<close>

text \<open>A session token the callback issued at or before \<open>t\<close> for an accepted response.\<close>

definition session_token :: "flow_cfg \<Rightarrow> int \<Rightarrow> string \<Rightarrow> bool" where
  "session_token cfg t v \<longleftrightarrow> (\<exists>t0 attrs rq. t0 \<le> t \<and> parse_response (f_sp cfg) rq [] = Inr attrs
      \<and> sign_hs256 (env_at cfg t0) (f_sp cfg) (session_claims (env_at cfg t0) attrs) = Inr v)"

text \<open>
  A request whose \<open>X-Saml\<close> headers are exactly the string claims of a session the
  callback issued for an accepted response at most one hour before \<open>t\<close>, on top of
  inbound headers without the prefix.
\<close>

definition trusted_request :: "flow_cfg \<Rightarrow> int \<Rightarrow> request \<Rightarrow> bool" where
  "trusted_request cfg t r' \<longleftrightarrow> (\<exists>t0 attrs rq h. t0 \<le> t \<and> t \<le> t0 + cookie_max_age
      \<and> parse_response (f_sp cfg) rq [] = Inr attrs \<and> \<not> has_saml_header h
      \<and> header r' = set_saml_headers (session_claims (env_at cfg t0) attrs) h)"

definition flow_inv :: "flow_cfg \<Rightarrow> browser \<Rightarrow> bool" where
  "flow_inv cfg s \<longleftrightarrow>
     (\<forall>v. jar s = Some v \<longrightarrow> session_token cfg (clock s) v \<or> (f_replay cfg \<and> v \<in> set (carried s)))
     \<and> (\<forall>t r'. (t, Inr (Served r')) \<in> set (responses s)
          \<longrightarrow> t \<le> clock s \<and> (trusted_request cfg t r' \<or> f_replay cfg))"

text \<open>
  The contract the flow needs of the authorizer (spec section 3,
  \<open>TrustedAttributeSet\<close>): it accepts a request only with a session cookie that
  verifies, only when no inbound header carries the \<open>X-Saml\<close> prefix, and then sets
  exactly the cookie's string claims as headers.
\<close>

definition authorizer_sound :: "jwt_env \<Rightarrow> middleware \<Rightarrow> bool" where
  "authorizer_sound env m \<longleftrightarrow> (\<forall>r r'. default_is_authorized env m r = Inr (True, r') \<longrightarrow>
     (\<exists>v c. request_cookie r cookie_name = Some v
        \<and> jwt_parse env (secret_bytes (service_provider m)) v = Inr (Inr c)
        \<and> \<not> has_saml_header (header r) \<and> r' = r\<lparr>header := set_saml_headers c (header r)\<rparr>))"

subsection \<open>What each handler can answer in the flow\<close>

lemma session_cookie_sel:
  "c_name (session_cookie tok) = cookie_name" "c_value (session_cookie tok) = tok"
  by (simp_all add: session_cookie_def)

lemma require_account_echo_Redirect:
  "require_account_middleware env m app_echo r = Inr (Redirect cks u c) \<Longrightarrow> cks = []"
  by (auto simp: require_account_middleware_def app_echo_def split: sum.splits bool.splits if_splits)

lemma require_account_echo_Served:
  "require_account_middleware env m app_echo r = Inr (Served r') \<Longrightarrow> is_authorized env m r = Inr (True, r')"
  by (auto simp: require_account_middleware_def app_echo_def split: sum.splits bool.splits if_splits)

lemma default_authorize_func_not_Served: "default_authorize_func env m r attrs \<noteq> Inr (Served r')"
  by (auto simp: default_authorize_func_def dest: relay_state_uri_early split: sum.splits)

lemma serve_http_default_Redirect:
  assumes "authorize_func m = None" and "serve_http env m r = Inr (Redirect cks u c)"
  shows "\<exists>attrs tok. parse_response (service_provider m) r [] = Inr attrs
    \<and> sign_hs256 env (service_provider m) (session_claims env attrs) = Inr tok \<and> cks = [session_cookie tok]"
proof -
  from assms obtain attrs where pr: "parse_response (service_provider m) r [] = Inr attrs"
    and da: "default_authorize_func env m r attrs = Inr (Redirect cks u c)"
    by (auto simp: serve_http_def Let_def split: if_splits sum.splits)
  from da show ?thesis
    by (rule default_authorize_func_Redirect) (use pr in blast)
qed

lemma serve_http_default_not_Served:
  "authorize_func m = None \<Longrightarrow> serve_http env m r \<noteq> Inr (Served r')"
  using default_authorize_func_not_Served
  by (auto simp: serve_http_def Let_def split: if_splits sum.splits)

text \<open>A session token presented at time \<open>t\<close> verifies to its claims, and only within the hour.\<close>

lemma session_token_accepted:
  assumes "sign_hs256 (env_at cfg t0) sp (session_claims (env_at cfg t0) attrs) = Inr v"
    and "jwt_parse (env_at cfg t) (secret_bytes sp) v = Inr (Inr c)"
  shows "c = session_claims (env_at cfg t0) attrs \<and> t \<le> t0 + cookie_max_age"
proof -
  have "mac (env_at cfg t) = mac (env_at cfg t0)" by (simp add: env_at_def)
  from jwt_parse_hs256 [OF assms(1) session_claims_wf this] assms(2) show ?thesis
    by (auto simp: time_errors_session env_at_def split: if_splits)
qed

lemma request_cookie_visit [simp]:
  "request_cookie (visit_request s p u h) cookie_name = jar s"
  by (simp add: request_cookie_def visit_request_def jar_cookies_def split: option.splits)

lemma flow_mw_simps [simp]:
  "service_provider (flow_mw cfg) = f_sp cfg" "is_authorized_func (flow_mw cfg) = None"
  "authorize_func (flow_mw cfg) = None"
  by (simp_all add: flow_mw_def)

subsection \<open>Preservation of the invariant\<close>

lemma session_token_mono: "session_token cfg t v \<Longrightarrow> t \<le> t' \<Longrightarrow> session_token cfg t' v"
  unfolding session_token_def by (meson order_trans)

lemma flow_inv_init: "flow_inv cfg (browser_init t)"
  by (simp add: flow_inv_def browser_init_def)

lemma flow_inv_visit:
  assumes inv: "flow_inv cfg s" and sound: "authorizer_sound (env_at cfg (clock s)) (flow_mw cfg)"
  shows "flow_inv cfg (flow_step cfg s (Visit p u h))"
proof -
  let ?r = "visit_request s p u h"
  let ?env = "env_at cfg (clock s)"
  let ?out = "require_account_middleware ?env (flow_mw cfg) app_echo ?r"
  have jar: "jar (flow_step cfg s (Visit p u h)) = jar s"
    using require_account_echo_Redirect [of ?env "flow_mw cfg" ?r]
    by (cases ?out rule: sum.exhaust) (auto simp: receive_def Let_def split: response.splits)
  have served: "trusted_request cfg (clock s) r' \<or> f_replay cfg" if "?out = Inr (Served r')" for r'
  proof -
    from require_account_echo_Served [OF that]
    have "default_is_authorized ?env (flow_mw cfg) ?r = Inr (True, r')"
      by (simp add: is_authorized_def)
    with sound obtain v c where ck: "request_cookie ?r cookie_name = Some v"
      and parse: "jwt_parse ?env (secret_bytes (f_sp cfg)) v = Inr (Inr c)"
      and cl: "\<not> has_saml_header (header ?r)" and rr: "r' = ?r\<lparr>header := set_saml_headers c (header ?r)\<rparr>"
      unfolding authorizer_sound_def flow_mw_simps(1) by blast
    from ck have v: "jar s = Some v" by simp
    from cl rr have clean: "\<not> has_saml_header h" and r': "header r' = set_saml_headers c h"
      by (simp_all add: visit_request_def)
    from inv v have "session_token cfg (clock s) v \<or> f_replay cfg"
      by (auto simp: flow_inv_def)
    then show ?thesis
    proof
      assume "session_token cfg (clock s) v"
      then obtain t0 attrs rq where t0: "t0 \<le> clock s" and pr: "parse_response (f_sp cfg) rq [] = Inr attrs"
        and sg: "sign_hs256 (env_at cfg t0) (f_sp cfg) (session_claims (env_at cfg t0) attrs) = Inr v"
        unfolding session_token_def by blast
      from session_token_accepted [OF sg parse] t0 pr clean r' show ?thesis
        unfolding trusted_request_def by blast
    qed simp
  qed
  from inv jar served show ?thesis
    by (auto simp: flow_inv_def receive_def Let_def)
qed

lemma flow_inv_callback:
  assumes inv: "flow_inv cfg s"
  shows "flow_inv cfg (flow_step cfg s (Callback saml rs))"
proof -
  let ?rq = "callback_request cfg s saml rs"
  let ?env = "env_at cfg (clock s)"
  let ?out = "serve_http ?env (flow_mw cfg) ?rq"
  have jar: "session_token cfg (clock s) v \<or> (f_replay cfg \<and> v \<in> set (carried s))"
    if v: "jar (receive s ?out) = Some v" for v
  proof (cases "\<exists>cks u c. ?out = Inr (Redirect cks u c)")
    case True
    then obtain cks u c where o: "?out = Inr (Redirect cks u c)" by blast
    from serve_http_default_Redirect [OF _ o] obtain attrs tok where
      pr: "parse_response (f_sp cfg) ?rq [] = Inr attrs"
      and sg: "sign_hs256 ?env (f_sp cfg) (session_claims ?env attrs) = Inr tok"
      and cks: "cks = [session_cookie tok]"
      by auto
    from v o cks have "v = tok"
      by (simp add: receive_def session_cookie_sel)
    with pr sg show ?thesis
      unfolding session_token_def using order_refl by blast
  next
    case False
    with v have "jar s = Some v"
      by (auto simp: receive_def split: sum.splits response.splits)
    with inv show ?thesis
      by (simp add: flow_inv_def)
  qed
  have "Inr (Served r') \<noteq> ?out" for r'
    by (metis flow_mw_simps(3) serve_http_default_not_Served)
  with inv jar show ?thesis
    by (auto simp: flow_inv_def receive_def)
qed

lemma flow_inv_wait:
  assumes "flow_inv cfg s"
  shows "flow_inv cfg (flow_step cfg s (Wait n))"
  using assms session_token_mono [of cfg "clock s" _ "clock s + int n"]
  by (fastforce simp: flow_inv_def)

subsection \<open>The steps of a login\<close>

lemma visit_request_sel [simp]:
  "url_path (visit_request s p u h) = p" "url_string (visit_request s p u h) = u"
  "header (visit_request s p u h) = h"
  by (simp_all add: visit_request_def)

lemma flow_step_visit_unauth:
  assumes "jar s = None" and "sign_hs256 (env_at cfg (clock s)) (f_sp cfg) [(''uri'', CStr u)] = Inr rs"
    and "make_redirect_authentication_request (f_sp cfg) rs = Inr url" and "p \<noteq> acs_path (f_sp cfg)"
  shows "flow_step cfg s (Visit p u h)
    = s\<lparr>carried := carried s @ [rs], responses := responses s @ [(clock s, Inr (Redirect [] url 302))]\<rparr>"
proof -
  have "default_is_authorized (env_at cfg (clock s)) (flow_mw cfg) (visit_request s p u h)
      = Inr (False, visit_request s p u h)"
    using assms(1) by (simp add: default_is_authorized_def)
  then show ?thesis
    using assms(2-4)
    by (simp add: require_account_middleware_def is_authorized_def receive_def relay_carried_def
        relay_state_claims_def Let_def)
qed

lemma flow_step_visit_authorized:
  assumes "default_is_authorized (env_at cfg (clock s)) (flow_mw cfg) (visit_request s p u h) = Inr (True, r')"
  shows "flow_step cfg s (Visit p u h) = s\<lparr>responses := responses s @ [(clock s, Inr (Served r'))]\<rparr>"
  using assms
  by (simp add: require_account_middleware_def is_authorized_def receive_def relay_carried_def
      app_echo_def Let_def)

text \<open>A relay state for \<open>u\<close> signed with the flow's keyed hash, at any earlier time.\<close>

lemma relay_token_accepted:
  assumes "sign_hs256 env0 sp [(''uri'', CStr u)] = Inr rs" and "mac env0 = f_mac cfg"
  shows "jwt_parse (env_at cfg t) (secret_bytes sp) rs = Inr (Inr [(''uri'', CStr u)])"
proof -
  have "go_map_wf [(''uri'', CStr u)]" by (simp add: go_map_wf_def)
  moreover have "mac (env_at cfg t) = mac env0" using assms(2) by (simp add: env_at_def)
  ultimately show ?thesis
    using jwt_parse_hs256 [OF assms(1)] by (simp add: time_errors_def claim_num_def)
qed

lemma flow_step_callback_accepted:
  assumes "sign_hs256 env0 (f_sp cfg) [(''uri'', CStr u)] = Inr rs" and "mac env0 = f_mac cfg"
    and "\<forall>r. form_get (form r) ''SAMLResponse'' = saml \<longrightarrow> parse_response (f_sp cfg) r [] = Inr attrs"
    and "acs_path (f_sp cfg) \<noteq> metadata_path (f_sp cfg)"
    and "sign_hs256 (env_at cfg (clock s)) (f_sp cfg) (session_claims (env_at cfg (clock s)) attrs) = Inr tok"
  shows "flow_step cfg s (Callback saml rs)
    = s\<lparr>jar := store_cookies [session_cookie tok] (jar s),
         responses := responses s @ [(clock s, Inr (Redirect [session_cookie tok] u 302))]\<rparr>"
proof -
  let ?rq = "callback_request cfg s saml rs"
  let ?env = "env_at cfg (clock s)"
  have pr: "parse_response (f_sp cfg) ?rq [] = Inr attrs"
    using assms(3) by (simp add: callback_request_def form_get_def)
  have "relay_state_uri ?env (f_sp cfg) ?rq = Inr (Inr u)"
    using relay_token_accepted [OF assms(1,2)] token_nonempty [OF assms(1)]
    by (simp add: relay_state_uri_def callback_request_def form_get_def)
  then have "serve_http ?env (flow_mw cfg) ?rq = Inr (Redirect [session_cookie tok] u 302)"
    using pr assms(4,5)
    by (simp add: serve_http_def default_authorize_func_def callback_request_def)
  then show ?thesis
    by (simp add: receive_def)
qed

lemma reach_run:
  assumes "reach cfg s0 s" and "\<forall>e \<in> set evs. \<forall>v. e \<noteq> Replay v"
  shows "reach cfg s0 (foldl (flow_step cfg) s evs)"
  using assms
proof (induction evs arbitrary: s)
  case (Cons e evs)
  have "enabled cfg s e" using Cons.prems(2) by (cases e) auto
  with Cons show ?case by (simp add: reach.reach_step)
qed simp

lemma flow_init_visit:
  assumes "sign_hs256 (env_at cfg t) (f_sp cfg) [(''uri'', CStr u)] = Inr rs"
    and "make_redirect_authentication_request (f_sp cfg) rs = Inr url" and "p \<noteq> acs_path (f_sp cfg)"
  shows "flow_step cfg (browser_init t) (Visit p u [])
    = \<lparr>clock = t, jar = None, carried = [rs], responses = [(t, Inr (Redirect [] url 302))]\<rparr>"
  using flow_step_visit_unauth [of "browser_init t" cfg u rs url p "[]"] assms
  by (simp add: browser_init_def)

text \<open>A visit with a cookie that verifies to the claims \<open>c\<close> is served with the claims as headers.\<close>

lemma flow_step_visit_token:
  assumes "jar s = Some v" and "sign_hs256 env0 (f_sp cfg) c = Inr v" and "go_map_wf c"
    and "mac env0 = f_mac cfg" and "time_errors (clock s) c = []" and "\<not> has_saml_header h"
  shows "flow_step cfg s (Visit p u h) = s\<lparr>responses := responses s @ [(clock s, Inr (Served
    \<lparr>url_path = p, url_string = u, header = set_saml_headers c h, cookies = [(cookie_name, v)], form = []\<rparr>))]\<rparr>"
proof -
  let ?r = "visit_request s p u h"
  have "default_is_authorized (env_at cfg (clock s)) (flow_mw cfg) ?r
      = Inr (True, ?r\<lparr>header := set_saml_headers c (header ?r)\<rparr>)"
    using default_is_authorized_token [of ?r v env0 "flow_mw cfg" c "env_at cfg (clock s)"] assms
    by (simp add: env_at_def)
  then show ?thesis
    by (simp add: flow_step_visit_authorized del: flow_step.simps)
       (simp add: visit_request_def jar_cookies_def assms(1))
qed

lemma flow_login_run:
  assumes key: "sp_key (f_sp cfg) = Some k"
    and idp: "\<forall>x. \<exists>url. make_redirect_authentication_request (f_sp cfg) x = Inr url"
    and pr: "\<forall>r. form_get (form r) ''SAMLResponse'' = saml \<longrightarrow> parse_response (f_sp cfg) r [] = Inr attrs"
    and paths: "p \<noteq> acs_path (f_sp cfg)" "acs_path (f_sp cfg) \<noteq> metadata_path (f_sp cfg)"
    and idle: "int idle \<le> cookie_max_age"
  shows "\<exists>rs url tok.
    sign_hs256 (env_at cfg t) (f_sp cfg) [(''uri'', CStr u)] = Inr rs
    \<and> sign_hs256 (env_at cfg (t + int delay)) (f_sp cfg) (session_claims (env_at cfg (t + int delay)) attrs) = Inr tok
    \<and> foldl (flow_step cfg) (browser_init t) (login_events p u delay saml rs idle)
      = \<lparr>clock = t + int delay + int idle, jar = Some tok, carried = [rs],
         responses = [(t, Inr (Redirect [] url 302)),
                      (t + int delay, Inr (Redirect [session_cookie tok] u 302)),
                      (t + int delay + int idle, Inr (Served
                         \<lparr>url_path = p, url_string = u,
                          header = set_saml_headers (session_claims (env_at cfg (t + int delay)) attrs) [],
                          cookies = [(cookie_name, tok)], form = []\<rparr>))]\<rparr>"
proof -
  obtain rs where rs: "sign_hs256 (env_at cfg t) (f_sp cfg) [(''uri'', CStr u)] = Inr rs"
    using sign_hs256_Some [OF key] by blast
  obtain url where url: "make_redirect_authentication_request (f_sp cfg) rs = Inr url"
    using idp by blast
  obtain tok where tok: "sign_hs256 (env_at cfg (t + int delay)) (f_sp cfg)
      (session_claims (env_at cfg (t + int delay)) attrs) = Inr tok"
    using sign_hs256_Some [OF key] by blast
  let ?R1 = "Inr (Redirect [] url 302) :: response outcome"
  let ?R2 = "Inr (Redirect [session_cookie tok] u 302) :: response outcome"
  let ?s1 = "\<lparr>clock = t, jar = None, carried = [rs], responses = [(t, ?R1)]\<rparr>"
  let ?s2 = "\<lparr>clock = t + int delay, jar = None, carried = [rs], responses = [(t, ?R1)]\<rparr>"
  let ?s3 = "\<lparr>clock = t + int delay, jar = Some tok, carried = [rs], responses = [(t, ?R1), (t + int delay, ?R2)]\<rparr>"
  let ?s4 = "\<lparr>clock = t + int delay + int idle, jar = Some tok, carried = [rs], responses = [(t, ?R1), (t + int delay, ?R2)]\<rparr>"
  let ?r' = "\<lparr>url_path = p, url_string = u,
      header = set_saml_headers (session_claims (env_at cfg (t + int delay)) attrs) [],
      cookies = [(cookie_name, tok)], form = []\<rparr>"
  have s1: "flow_step cfg (browser_init t) (Visit p u []) = ?s1"
    by (rule flow_init_visit [OF rs url paths(1)])
  have s3: "flow_step cfg ?s2 (Callback saml rs) = ?s3"
    using flow_step_callback_accepted [OF rs _ pr paths(2), of ?s2 tok] tok
    by (simp add: env_at_def session_cookie_sel)
  have s5: "flow_step cfg ?s4 (Visit p u []) = ?s4\<lparr>responses := responses ?s4 @ [(clock ?s4, Inr (Served ?r'))]\<rparr>"
    using idle by (intro flow_step_visit_token [OF _ tok])
      (simp_all add: env_at_def time_errors_session has_saml_header_def)
  have "foldl (flow_step cfg) (browser_init t) (login_events p u delay saml rs idle)
      = flow_step cfg ?s4 (Visit p u [])"
  proof -
    have s2: "flow_step cfg ?s1 (Wait delay) = ?s2" by simp
    have s4: "flow_step cfg ?s3 (Wait idle) = ?s4" by simp
    show ?thesis by (simp only: login_events_def foldl_Cons foldl_Nil s1 s2 s3 s4)
  qed
  with s5 rs tok show ?thesis
    by auto
qed

subsection \<open>An example configuration\<close>

definition demo_cfg :: flow_cfg where
  "demo_cfg = \<lparr>f_sp = demo_sp, f_mac = (\<lambda>h k s. k @ s), f_replay = False\<rparr>"

lemma demo_cfg_facts:
  "sp_key (f_sp demo_cfg) = Some ''key''"
  "\<forall>x. \<exists>url. make_redirect_authentication_request (f_sp demo_cfg) x = Inr url"
  "\<forall>r. form_get (form r) ''SAMLResponse'' = saml \<longrightarrow> parse_response (f_sp demo_cfg) r []
     = Inr [\<lparr>friendly_name = ''uid'', attr_name = ''urn:oid:0.9.2342.19200300.100.1.1'',
            attr_value = ''alice@example.com''\<rparr>]"
  "''/app'' \<noteq> acs_path (f_sp demo_cfg)" "acs_path (f_sp demo_cfg) \<noteq> metadata_path (f_sp demo_cfg)"
  by (simp_all add: demo_cfg_def demo_sp_def)

subsection \<open>Properties of the login flow\<close>

text \<open>
  C24. Trusted attributes (spec section 3, \<open>TrustedAttributeSet\<close>): in every run of a
  browser that never presents a relay state as its cookie, every request the
  application is given carries, under the \<open>X-Saml\<close> prefix, exactly the string claims
  of a session the callback issued for a response the verifier accepted, at most one
  hour before, on top of inbound headers without the prefix. Proved by rule induction
  on the runs, with the invariant \<open>flow_inv\<close>.
\<close>

theorem flow_served_trusted:
  assumes "reach cfg (browser_init t) s" and "\<not> f_replay cfg"
  shows "\<forall>t' r'. (t', Inr (Served r')) \<in> set (responses s) \<longrightarrow> trusted_request cfg t' r'"
proof -
  have sound: "authorizer_sound (env_at cfg t') (flow_mw cfg)" for t'
    unfolding authorizer_sound_def
    by (auto simp: default_is_authorized_def split: option.splits sum.splits if_splits)
  from assms(1) have "flow_inv cfg s"
  proof (induction rule: reach.induct)
    case reach_refl
    show ?case by (rule flow_inv_init)
  next
    case (reach_step s e)
    show ?case
    proof (cases e)
      case (Replay v)
      with reach_step.hyps(2) assms(2) show ?thesis by simp
    qed (simp_all del: flow_step.simps add: reach_step.IH sound flow_inv_visit flow_inv_callback flow_inv_wait)
  qed
  with assms(2) show ?thesis
    by (auto simp: flow_inv_def)
qed

theorem flow_served_trusted_witness:
  "\<exists>s. reach demo_cfg (browser_init 0) s \<and> \<not> f_replay demo_cfg
     \<and> (\<exists>r'. (660, Inr (Served r')) \<in> set (responses s))
     \<and> (\<forall>t' r'. (t', Inr (Served r')) \<in> set (responses s) \<longrightarrow> trusted_request demo_cfg t' r')"
proof -
  obtain rs url tok where run: "foldl (flow_step demo_cfg) (browser_init 0)
      (login_events ''/app'' ''/app'' 60 ''<Response/>'' rs 600)
    = \<lparr>clock = 0 + int 60 + int 600, jar = Some tok, carried = [rs],
       responses = [(0, Inr (Redirect [] url 302)),
                    (0 + int 60, Inr (Redirect [session_cookie tok] ''/app'' 302)),
                    (0 + int 60 + int 600, Inr (Served
                       \<lparr>url_path = ''/app'', url_string = ''/app'',
                        header = set_saml_headers (session_claims (env_at demo_cfg (0 + int 60))
                          [\<lparr>friendly_name = ''uid'', attr_name = ''urn:oid:0.9.2342.19200300.100.1.1'',
                             attr_value = ''alice@example.com''\<rparr>]) [],
                        cookies = [(cookie_name, tok)], form = []\<rparr>))]\<rparr>"
    using flow_login_run [where idle = 600 and t = 0 and delay = 60
        and u = "''/app''" and saml = "''<Response/>''", OF demo_cfg_facts(1,2,3,4,5)]
    by (auto simp: cookie_max_age_def)
  let ?s = "foldl (flow_step demo_cfg) (browser_init 0) (login_events ''/app'' ''/app'' 60 ''<Response/>'' rs 600)"
  have reach: "reach demo_cfg (browser_init 0) ?s"
    by (rule reach_run [OF reach_refl]) (simp add: login_events_def)
  have honest: "\<not> f_replay demo_cfg" by (simp add: demo_cfg_def)
  have "\<exists>r'. (660, Inr (Served r')) \<in> set (responses ?s)"
    using run by simp
  with reach honest flow_served_trusted [OF reach honest] show ?thesis
    by blast
qed

text \<open>
  C25. The login completes (spec section 2, control flow): for a service provider with
  a key, an identity provider that accepts every relay state, and a verifier that
  accepts the response \<open>saml\<close>, take the run in which a browser asks for \<open>u\<close> at path
  \<open>p\<close>, spends \<open>delay\<close> seconds at the identity provider, which posts \<open>saml\<close> to
  the callback with the relay state the first visit handed out, follows the redirect
  and asks again \<open>idle\<close> seconds later, within the hour. The run ends in exactly one
  state: the browser holds the session cookie, still carries that one relay state, and
  has received the redirect to the identity provider, the callback's redirect back to
  \<open>u\<close> with the session cookie, and the application's answer to \<open>u\<close>, served with
  the session's attributes as its \<open>X-Saml\<close> headers.
\<close>

theorem flow_login_completes:
  assumes "sp_key (f_sp cfg) = Some k"
    and "\<forall>x. \<exists>url. make_redirect_authentication_request (f_sp cfg) x = Inr url"
    and "\<forall>r. form_get (form r) ''SAMLResponse'' = saml \<longrightarrow> parse_response (f_sp cfg) r [] = Inr attrs"
    and "p \<noteq> acs_path (f_sp cfg)" and "acs_path (f_sp cfg) \<noteq> metadata_path (f_sp cfg)"
    and "int idle \<le> cookie_max_age"
    and handed: "carried (flow_step cfg (browser_init t) (Visit p u [])) = [rs]"
  shows "\<exists>url tok. foldl (flow_step cfg) (browser_init t) (login_events p u delay saml rs idle)
      = \<lparr>clock = t + int delay + int idle, jar = Some tok, carried = [rs],
         responses = [(t, Inr (Redirect [] url 302)),
                      (t + int delay, Inr (Redirect [session_cookie tok] u 302)),
                      (t + int delay + int idle, Inr (Served
                         \<lparr>url_path = p, url_string = u,
                          header = set_saml_headers (session_claims (env_at cfg (t + int delay)) attrs) [],
                          cookies = [(cookie_name, tok)], form = []\<rparr>))]\<rparr>"
proof -
  from flow_login_run [OF assms(1-6)] obtain rs' url tok where
    sg: "sign_hs256 (env_at cfg t) (f_sp cfg) [(''uri'', CStr u)] = Inr rs'"
    and run: "foldl (flow_step cfg) (browser_init t) (login_events p u delay saml rs' idle)
      = \<lparr>clock = t + int delay + int idle, jar = Some tok, carried = [rs'],
         responses = [(t, Inr (Redirect [] url 302)),
                      (t + int delay, Inr (Redirect [session_cookie tok] u 302)),
                      (t + int delay + int idle, Inr (Served
                         \<lparr>url_path = p, url_string = u,
                          header = set_saml_headers (session_claims (env_at cfg (t + int delay)) attrs) [],
                          cookies = [(cookie_name, tok)], form = []\<rparr>))]\<rparr>"
    by blast
  obtain url' where "make_redirect_authentication_request (f_sp cfg) rs' = Inr url'"
    using assms(2) by blast
  from flow_init_visit [OF sg this assms(4)] handed have "rs = rs'"
    by simp
  with run show ?thesis
    by blast
qed

theorem flow_login_completes_witness:
  "\<exists>url tok. foldl (flow_step demo_cfg) (browser_init 0)
       (login_events ''/app'' ''/app?tab=2'' 60 ''<Response/>'' (demo_token [(''uri'', CStr ''/app?tab=2'')]) 600)
      = \<lparr>clock = 660, jar = Some tok, carried = [demo_token [(''uri'', CStr ''/app?tab=2'')]],
         responses = [(0, Inr (Redirect [] url 302)),
                      (60, Inr (Redirect [session_cookie tok] ''/app?tab=2'' 302)),
                      (660, Inr (Served
                         \<lparr>url_path = ''/app'', url_string = ''/app?tab=2'',
                          header = set_saml_headers (session_claims (env_at demo_cfg 60)
                            [\<lparr>friendly_name = ''uid'', attr_name = ''urn:oid:0.9.2342.19200300.100.1.1'',
                               attr_value = ''alice@example.com''\<rparr>]) [],
                          cookies = [(cookie_name, tok)], form = []\<rparr>))]\<rparr>"
proof -
  let ?rs = "demo_token [(''uri'', CStr ''/app?tab=2'')]"
  have sg: "sign_hs256 (env_at demo_cfg 0) (f_sp demo_cfg) [(''uri'', CStr ''/app?tab=2'')] = Inr ?rs"
    using demo_sign [of 0] by (simp add: env_at_def demo_cfg_def demo_env_def demo_mw_def)
  have url: "make_redirect_authentication_request (f_sp demo_cfg) ?rs
      = Inr (''https://idp.example.com/sso?RelayState='' @ ?rs)"
    by (simp add: demo_cfg_def demo_sp_def)
  have handed: "carried (flow_step demo_cfg (browser_init 0) (Visit ''/app'' ''/app?tab=2'' [])) = [?rs]"
    using flow_init_visit [OF sg url demo_cfg_facts(4)] by simp
  show ?thesis
    using flow_login_completes [where idle = 600 and t = 0 and delay = 60,
        OF demo_cfg_facts(1,2,3,4,5) _ handed]
    by (simp add: cookie_max_age_def)
qed

text \<open>
  C26. Relay-state replay (spec sections 3 and 8): a browser that presents, as its
  \<open>token\<close> cookie, the relay state it carried to the identity provider is served at
  any later time, without any callback and whatever the verifier accepts, with the
  header \<open>X-Saml-uri\<close> set to the URI it first asked for: its only two exchanges are
  the redirect to the identity provider and the served request.
\<close>

theorem flow_relay_replay:
  assumes "f_replay cfg" and "sp_key (f_sp cfg) = Some k"
    and "\<forall>x. \<exists>url. make_redirect_authentication_request (f_sp cfg) x = Inr url"
    and "p \<noteq> acs_path (f_sp cfg)"
  shows "\<exists>s rs url. reach cfg (browser_init t) s
    \<and> responses s = [(t, Inr (Redirect [] url 302)),
        (t + int delay, Inr (Served \<lparr>url_path = p, url_string = u, header = header_set [] ''X-Saml-uri'' u,
                                    cookies = [(cookie_name, rs)], form = []\<rparr>))]"
proof -
  obtain rs where rs: "sign_hs256 (env_at cfg t) (f_sp cfg) [(''uri'', CStr u)] = Inr rs"
    using sign_hs256_Some [OF assms(2)] by blast
  obtain url where url: "make_redirect_authentication_request (f_sp cfg) rs = Inr url"
    using assms(3) by blast
  let ?R1 = "Inr (Redirect [] url 302) :: response outcome"
  let ?s1 = "\<lparr>clock = t, jar = None, carried = [rs], responses = [(t, ?R1)]\<rparr>"
  let ?s3 = "\<lparr>clock = t + int delay, jar = Some rs, carried = [rs], responses = [(t, ?R1)]\<rparr>"
  have r1: "reach cfg (browser_init t) ?s1"
    using reach.reach_step [OF reach.reach_refl, of cfg "browser_init t" "Visit p u []"]
      flow_init_visit [OF rs url assms(4)] by simp
  have "reach cfg (browser_init t) (flow_step cfg ?s1 (Replay rs))"
    by (rule reach.reach_step [OF r1]) (simp add: assms(1))
  then have "reach cfg (browser_init t) (flow_step cfg (flow_step cfg ?s1 (Replay rs)) (Wait delay))"
    by (rule reach.reach_step) simp
  then have r3: "reach cfg (browser_init t) ?s3" by simp
  have wf: "go_map_wf [(''uri'', CStr u)]" by (simp add: go_map_wf_def)
  have s4: "flow_step cfg ?s3 (Visit p u []) = ?s3\<lparr>responses := [(t, ?R1), (t + int delay, Inr (Served
      \<lparr>url_path = p, url_string = u, header = set_saml_headers [(''uri'', CStr u)] [],
       cookies = [(cookie_name, rs)], form = []\<rparr>))]\<rparr>"
    using flow_step_visit_token [of ?s3 rs "env_at cfg t" cfg "[(''uri'', CStr u)]" "[]" p u] rs wf
    by (simp add: env_at_def time_errors_def claim_num_def has_saml_header_def)
  have "reach cfg (browser_init t) (flow_step cfg ?s3 (Visit p u []))"
    by (rule reach.reach_step [OF r3]) simp
  with s4 show ?thesis
    by (intro exI [of _ "flow_step cfg ?s3 (Visit p u [])"] exI [of _ rs] exI [of _ url]) simp
qed

theorem flow_relay_replay_witness:
  "\<exists>s rs url. reach (demo_cfg\<lparr>f_replay := True\<rparr>) (browser_init 0) s
    \<and> responses s = [(0, Inr (Redirect [] url 302)),
        (86400, Inr (Served \<lparr>url_path = ''/app'', url_string = ''/app'',
                     header = header_set [] ''X-Saml-uri'' ''/app'',
                     cookies = [(cookie_name, rs)], form = []\<rparr>))]"
proof -
  have "f_replay (demo_cfg\<lparr>f_replay := True\<rparr>)" by simp
  moreover have "sp_key (f_sp (demo_cfg\<lparr>f_replay := True\<rparr>)) = Some ''key''"
    and "\<forall>x. \<exists>url. make_redirect_authentication_request (f_sp (demo_cfg\<lparr>f_replay := True\<rparr>)) x = Inr url"
    and "''/app'' \<noteq> acs_path (f_sp (demo_cfg\<lparr>f_replay := True\<rparr>))"
    by (simp_all add: demo_cfg_def demo_sp_def)
  ultimately show ?thesis
    using flow_relay_replay [where t = 0 and delay = 86400 and u = "''/app''"] by simp
qed

text \<open>
  C27. Relay-state reuse (spec section 3 says a relay state is consumed exactly
  once): after a login, the same relay state, posted again with another response the
  verifier accepts, at any later time, is accepted again and again redirects to the
  original URI with a fresh session cookie. Only one relay state was ever issued.
\<close>

theorem flow_relay_state_reusable:
  assumes "sp_key (f_sp cfg) = Some k"
    and "\<forall>x. \<exists>url. make_redirect_authentication_request (f_sp cfg) x = Inr url"
    and "\<forall>r. form_get (form r) ''SAMLResponse'' = saml \<longrightarrow> parse_response (f_sp cfg) r [] = Inr attrs"
    and "\<forall>r. form_get (form r) ''SAMLResponse'' = saml' \<longrightarrow> parse_response (f_sp cfg) r [] = Inr attrs'"
    and "p \<noteq> acs_path (f_sp cfg)" and "acs_path (f_sp cfg) \<noteq> metadata_path (f_sp cfg)"
  shows "\<exists>s rs url tok tok'.
    s = foldl (flow_step cfg) (browser_init t) [Visit p u [], Callback saml rs, Wait delay, Callback saml' rs]
    \<and> reach cfg (browser_init t) s \<and> carried s = [rs]
    \<and> responses s = [(t, Inr (Redirect [] url 302)), (t, Inr (Redirect [session_cookie tok] u 302)),
                     (t + int delay, Inr (Redirect [session_cookie tok'] u 302))]"
proof -
  obtain rs where rs: "sign_hs256 (env_at cfg t) (f_sp cfg) [(''uri'', CStr u)] = Inr rs"
    using sign_hs256_Some [OF assms(1)] by blast
  obtain url where url: "make_redirect_authentication_request (f_sp cfg) rs = Inr url"
    using assms(2) by blast
  obtain tok where tok: "sign_hs256 (env_at cfg t) (f_sp cfg) (session_claims (env_at cfg t) attrs) = Inr tok"
    using sign_hs256_Some [OF assms(1)] by blast
  obtain tok' where tok': "sign_hs256 (env_at cfg (t + int delay)) (f_sp cfg)
      (session_claims (env_at cfg (t + int delay)) attrs') = Inr tok'"
    using sign_hs256_Some [OF assms(1)] by blast
  let ?R1 = "Inr (Redirect [] url 302) :: response outcome"
  let ?R2 = "Inr (Redirect [session_cookie tok] u 302) :: response outcome"
  let ?s1 = "\<lparr>clock = t, jar = None, carried = [rs], responses = [(t, ?R1)]\<rparr>"
  let ?s2 = "\<lparr>clock = t, jar = Some tok, carried = [rs], responses = [(t, ?R1), (t, ?R2)]\<rparr>"
  let ?s3 = "\<lparr>clock = t + int delay, jar = Some tok, carried = [rs], responses = [(t, ?R1), (t, ?R2)]\<rparr>"
  have mac: "mac (env_at cfg t) = f_mac cfg" by (simp add: env_at_def)
  have s1: "flow_step cfg (browser_init t) (Visit p u []) = ?s1"
    by (rule flow_init_visit [OF rs url assms(5)])
  have s2: "flow_step cfg ?s1 (Callback saml rs) = ?s2"
    using flow_step_callback_accepted [OF rs mac assms(3,6), of ?s1 tok] tok by (simp add: session_cookie_sel)
  have s3: "flow_step cfg ?s2 (Wait delay) = ?s3" by simp
  have s4: "flow_step cfg ?s3 (Callback saml' rs)
      = ?s3\<lparr>jar := Some tok', responses := [(t, ?R1), (t, ?R2),
                                          (t + int delay, Inr (Redirect [session_cookie tok'] u 302))]\<rparr>"
    using flow_step_callback_accepted [OF rs mac assms(4,6), of ?s3 tok'] tok' by (simp add: session_cookie_sel)
  let ?s = "foldl (flow_step cfg) (browser_init t) [Visit p u [], Callback saml rs, Wait delay, Callback saml' rs]"
  have run: "?s = ?s3\<lparr>jar := Some tok', responses := [(t, ?R1), (t, ?R2),
                                          (t + int delay, Inr (Redirect [session_cookie tok'] u 302))]\<rparr>"
    by (simp only: foldl_Cons foldl_Nil s1 s2 s3 s4)
  have "reach cfg (browser_init t) ?s"
    by (rule reach_run [OF reach.reach_refl]) simp
  with run show ?thesis
    by (intro exI [of _ ?s] exI [of _ rs] exI [of _ url] exI [of _ tok] exI [of _ tok']) simp
qed

theorem flow_relay_state_reusable_witness:
  "\<exists>s rs url tok tok'.
    s = foldl (flow_step demo_cfg) (browser_init 0)
          [Visit ''/app'' ''/app'' [], Callback ''<Response/>'' rs, Wait 86400, Callback ''<Response2/>'' rs]
    \<and> reach demo_cfg (browser_init 0) s \<and> carried s = [rs]
    \<and> responses s = [(0, Inr (Redirect [] url 302)), (0, Inr (Redirect [session_cookie tok] ''/app'' 302)),
                     (86400, Inr (Redirect [session_cookie tok'] ''/app'' 302))]"
  using flow_relay_state_reusable [where t = 0 and delay = 86400 and u = "''/app''"
      and saml = "''<Response/>''" and saml' = "''<Response2/>''",
      OF demo_cfg_facts(1,2,3,3,4,5)]
  by simp

end
