(* ===== verification/Browser.thy ===== *)
theory Browser
  imports Flow
begin

text \<open>
  A browser that follows the middleware's redirects, as the login flow of spec
  section 2 expects: it asks for a URL; when redirected to the identity provider it
  hands the authentication request to the identity provider, whose answer (a
  response and the relay state) it posts to the ACS path; when the callback
  redirects it with a cookie it follows the redirect, and so on. Nothing bounds the
  number of rounds, so the loop is a \<open>partial_function (option)\<close>: \<open>None\<close> is a browser
  that never stops being redirected.
\<close>

text \<open>The path of a request target: the part before the query.\<close>

definition path_of :: "string \<Rightarrow> string" where
  "path_of u = takeWhile (\<lambda>c. c \<noteq> CHR ''?'') u"

definition last_response :: "browser \<Rightarrow> response outcome" where
  "last_response s = snd (last (responses s))"

text \<open>
  The identity provider \<open>idp\<close> answers an authentication request URL with a
  response and the relay state, or not at all.
\<close>

partial_function (option) browse ::
  "flow_cfg \<Rightarrow> (string \<Rightarrow> (string \<times> string) option) \<Rightarrow> browser \<Rightarrow> string \<Rightarrow> browser option" where
  "browse cfg idp s u =
     (let s1 = flow_step cfg s (Visit (path_of u) u [])
      in case last_response s1 of
           Inr (Redirect [] url _) \<Rightarrow>
             (case idp url of
                None \<Rightarrow> Some s1
              | Some (saml, rs) \<Rightarrow>
                  (let s2 = flow_step cfg s1 (Callback saml rs)
                   in case last_response s2 of
                        Inr (Redirect (_ # _) u' _) \<Rightarrow> browse cfg idp s2 u'
                      | _ \<Rightarrow> Some s2))
         | _ \<Rightarrow> Some s1)"

lemma last_response_snoc [simp]: "last_response (s\<lparr>responses := rs @ [(t, out)]\<rparr>) = out"
  by (simp add: last_response_def)

text \<open>A response the verifier rejects gets the bare 403 of line 62.\<close>

lemma flow_step_callback_rejected:
  assumes "\<forall>r. form_get (form r) ''SAMLResponse'' = saml \<longrightarrow> (\<exists>e. parse_response (f_sp cfg) r [] = Inl e)"
    and "acs_path (f_sp cfg) \<noteq> metadata_path (f_sp cfg)"
  shows "flow_step cfg s (Callback saml rs)
    = s\<lparr>responses := responses s @ [(clock s, Inr (HttpError 403 (status_text 403)))]\<rparr>"
proof -
  have "\<exists>e. parse_response (f_sp cfg) (callback_request cfg s saml rs) [] = Inl e"
    using assms(1) by (simp add: callback_request_def form_get_def)
  then obtain e where "parse_response (f_sp cfg) (callback_request cfg s saml rs) [] = Inl e" ..
  with assms(2) show ?thesis
    by (simp add: serve_http_def callback_request_def receive_def)
qed

text \<open>The first round of a fresh browser: the redirect to the identity provider, and its answer posted to the ACS path.\<close>

lemma browse_first_round:
  assumes "flow_step cfg (browser_init t) (Visit (path_of u) u []) = s1"
    and "last_response s1 = Inr (Redirect [] url c)" and "idp url = Some (saml, rs)"
  shows "browse cfg idp (browser_init t) u
    = (case last_response (flow_step cfg s1 (Callback saml rs)) of
         Inr (Redirect (_ # _) u' _) \<Rightarrow> browse cfg idp (flow_step cfg s1 (Callback saml rs)) u'
       | _ \<Rightarrow> Some (flow_step cfg s1 (Callback saml rs)))"
  using assms by (subst browse.simps) (simp add: Let_def del: flow_step.simps)

subsection \<open>An example identity provider\<close>

text \<open>It reads the relay state back from the query of the example service provider's URL.\<close>

definition demo_idp :: "string \<Rightarrow> (string \<times> string) option" where
  "demo_idp url =
     (if has_prefix url ''https://idp.example.com/sso?RelayState=''
      then Some (''<Response/>'', drop (length ''https://idp.example.com/sso?RelayState='') url)
      else None)"

text \<open>The example service provider with a verifier that rejects every response.\<close>

definition demo_reject_cfg :: flow_cfg where
  "demo_reject_cfg = demo_cfg\<lparr>f_sp := demo_sp\<lparr>parse_response := (\<lambda>r rid. Inl (OtherResponseError ''bad signature''))\<rparr>\<rparr>"

lemma demo_idp_answers:
  "make_redirect_authentication_request demo_sp rs = Inr url \<Longrightarrow> demo_idp url = Some (''<Response/>'', rs)"
  by (auto simp: demo_sp_def demo_idp_def has_prefix_def)

subsection \<open>Properties of the browser loop\<close>

text \<open>
  C28. The login converges (spec section 2): with a key, an identity provider that
  answers every authentication request with a response the verifier accepts and the
  relay state it was given, and a URL whose path is not the ACS path, the browser's
  loop ends after one round trip, with the URL served and the session's attributes
  as its \<open>X-Saml\<close> headers. The session cookie must reach the browser's jar under the
  name the authorizer reads, or the loop would redirect forever.
\<close>

theorem browse_login_terminates:
  assumes key: "sp_key (f_sp cfg) = Some k"
    and redirect: "\<forall>x. \<exists>url. make_redirect_authentication_request (f_sp cfg) x = Inr url"
    and answer: "\<forall>rs url. make_redirect_authentication_request (f_sp cfg) rs = Inr url \<longrightarrow> idp url = Some (saml, rs)"
    and pr: "\<forall>r. form_get (form r) ''SAMLResponse'' = saml \<longrightarrow> parse_response (f_sp cfg) r [] = Inr attrs"
    and paths: "path_of u \<noteq> acs_path (f_sp cfg)" "acs_path (f_sp cfg) \<noteq> metadata_path (f_sp cfg)"
  shows "\<exists>s tok. browse cfg idp (browser_init t) u = Some s \<and> jar s = Some tok
    \<and> last_response s = Inr (Served \<lparr>url_path = path_of u, url_string = u,
         header = set_saml_headers (session_claims (env_at cfg t) attrs) [],
         cookies = [(cookie_name, tok)], form = []\<rparr>)"
proof -
  obtain rs where rs: "sign_hs256 (env_at cfg t) (f_sp cfg) [(''uri'', CStr u)] = Inr rs"
    using sign_hs256_Some [OF key] by blast
  obtain url where url: "make_redirect_authentication_request (f_sp cfg) rs = Inr url"
    using redirect by blast
  obtain tok where tok: "sign_hs256 (env_at cfg t) (f_sp cfg) (session_claims (env_at cfg t) attrs) = Inr tok"
    using sign_hs256_Some [OF key] by blast
  let ?R1 = "Inr (Redirect [] url 302) :: response outcome"
  let ?R2 = "Inr (Redirect [session_cookie tok] u 302) :: response outcome"
  let ?s1 = "\<lparr>clock = t, jar = None, carried = [rs], responses = [(t, ?R1)]\<rparr>"
  let ?s2 = "\<lparr>clock = t, jar = Some tok, carried = [rs], responses = [(t, ?R1), (t, ?R2)]\<rparr>"
  let ?r = "\<lparr>url_path = path_of u, url_string = u,
      header = set_saml_headers (session_claims (env_at cfg t) attrs) [],
      cookies = [(cookie_name, tok)], form = []\<rparr>"
  have s1: "flow_step cfg (browser_init t) (Visit (path_of u) u []) = ?s1"
    by (rule flow_init_visit [OF rs url paths(1)])
  have stored: "store_cookies [session_cookie tok] None = Some tok"
    by (simp add: session_cookie_def)
  have s2: "flow_step cfg ?s1 (Callback saml rs) = ?s2"
    using flow_step_callback_accepted [OF rs _ pr paths(2), of ?s1 tok] tok stored
    by (simp add: env_at_def)
  have s3: "flow_step cfg ?s2 (Visit (path_of u) u [])
      = ?s2\<lparr>responses := responses ?s2 @ [(clock ?s2, Inr (Served ?r))]\<rparr>"
    by (intro flow_step_visit_token [OF _ tok])
       (simp_all add: env_at_def time_errors_session has_saml_header_def cookie_max_age_def)
  from answer url have ans: "idp url = Some (saml, rs)" by blast
  have "browse cfg idp (browser_init t) u = browse cfg idp ?s2 u"
    using browse_first_round [where idp = idp, OF s1 _ ans] s2
    by (simp add: last_response_def)
  also have "\<dots> = Some (?s2\<lparr>responses := responses ?s2 @ [(clock ?s2, Inr (Served ?r))]\<rparr>)"
    by (subst browse.simps) (simp add: s3 Let_def last_response_def del: flow_step.simps)
  finally show ?thesis
    by (simp add: last_response_def)
qed

theorem browse_login_terminates_witness:
  "\<exists>s tok. browse demo_cfg demo_idp (browser_init 0) ''/app'' = Some s \<and> jar s = Some tok
    \<and> last_response s = Inr (Served \<lparr>url_path = ''/app'', url_string = ''/app'',
         header = set_saml_headers (session_claims (env_at demo_cfg 0)
           [\<lparr>friendly_name = ''uid'', attr_name = ''urn:oid:0.9.2342.19200300.100.1.1'',
              attr_value = ''alice@example.com''\<rparr>]) [],
         cookies = [(cookie_name, tok)], form = []\<rparr>)"
proof -
  have ans: "\<forall>rs url. make_redirect_authentication_request (f_sp demo_cfg) rs = Inr url
      \<longrightarrow> demo_idp url = Some (''<Response/>'', rs)"
    by (simp add: demo_cfg_def demo_idp_answers)
  have pth: "path_of ''/app'' \<noteq> acs_path (f_sp demo_cfg)"
    by (simp add: path_of_def demo_cfg_def demo_sp_def)
  show ?thesis
    using browse_login_terminates [where t = 0 and u = "''/app''" and idp = demo_idp
        and saml = "''<Response/>''", OF demo_cfg_facts(1,2) ans demo_cfg_facts(3) pth demo_cfg_facts(5)]
    by (simp add: path_of_def)
qed

text \<open>
  C29. A rejected response ends the loop (spec section 7, \<open>InvalidAssertionResponse\<close>):
  when the verifier rejects the identity provider's response, the browser's loop
  stops at the callback with the generic 403 and no session cookie; the failure is
  terminal and not retried.
\<close>

theorem browse_rejected_stops:
  assumes key: "sp_key (f_sp cfg) = Some k"
    and redirect: "\<forall>x. \<exists>url. make_redirect_authentication_request (f_sp cfg) x = Inr url"
    and answer: "\<forall>rs url. make_redirect_authentication_request (f_sp cfg) rs = Inr url \<longrightarrow> idp url = Some (saml, rs)"
    and rejects: "\<forall>r. form_get (form r) ''SAMLResponse'' = saml \<longrightarrow> (\<exists>e. parse_response (f_sp cfg) r [] = Inl e)"
    and paths: "path_of u \<noteq> acs_path (f_sp cfg)" "acs_path (f_sp cfg) \<noteq> metadata_path (f_sp cfg)"
  shows "\<exists>s. browse cfg idp (browser_init t) u = Some s \<and> jar s = None
    \<and> last_response s = Inr (HttpError 403 ''Forbidden'')"
proof -
  obtain rs where rs: "sign_hs256 (env_at cfg t) (f_sp cfg) [(''uri'', CStr u)] = Inr rs"
    using sign_hs256_Some [OF key] by blast
  obtain url where url: "make_redirect_authentication_request (f_sp cfg) rs = Inr url"
    using redirect by blast
  let ?s1 = "\<lparr>clock = t, jar = None, carried = [rs], responses = [(t, Inr (Redirect [] url 302))]\<rparr>"
  have s1: "flow_step cfg (browser_init t) (Visit (path_of u) u []) = ?s1"
    by (rule flow_init_visit [OF rs url paths(1)])
  from answer url have ans: "idp url = Some (saml, rs)" by blast
  have s2: "flow_step cfg ?s1 (Callback saml rs)
      = ?s1\<lparr>responses := responses ?s1 @ [(t, Inr (HttpError 403 (status_text 403)))]\<rparr>"
    using flow_step_callback_rejected [OF rejects paths(2), of ?s1 rs] by simp
  show ?thesis
    using browse_first_round [where idp = idp, OF s1 _ ans] s2
    by (simp add: last_response_def status_text_def)
qed

theorem browse_rejected_stops_witness:
  "\<exists>s. browse demo_reject_cfg demo_idp (browser_init 0) ''/app'' = Some s \<and> jar s = None
    \<and> last_response s = Inr (HttpError 403 ''Forbidden'')"
proof -
  have "sp_key (f_sp demo_reject_cfg) = Some ''key''"
    and "\<forall>x. \<exists>url. make_redirect_authentication_request (f_sp demo_reject_cfg) x = Inr url"
    and "\<forall>r. form_get (form r) ''SAMLResponse'' = ''<Response/>''
           \<longrightarrow> (\<exists>e. parse_response (f_sp demo_reject_cfg) r [] = Inl e)"
    and "path_of ''/app'' \<noteq> acs_path (f_sp demo_reject_cfg)"
    and "acs_path (f_sp demo_reject_cfg) \<noteq> metadata_path (f_sp demo_reject_cfg)"
    by (simp_all add: demo_reject_cfg_def demo_cfg_def demo_sp_def path_of_def)
  moreover have "\<forall>rs url. make_redirect_authentication_request (f_sp demo_reject_cfg) rs = Inr url
      \<longrightarrow> demo_idp url = Some (''<Response/>'', rs)"
    by (simp add: demo_reject_cfg_def demo_cfg_def demo_idp_answers)
  ultimately show ?thesis
    using browse_rejected_stops [where t = 0 and u = "''/app''" and idp = demo_idp] by blast
qed

end
