(* ===== verification/Session_Spec.thy ===== *)
theory Session_Spec
  imports Flow
begin

text \<open>
  The abstract specification the login flow implements (spec sections 3 and 4): a
  session store that remembers, for the browser, the URL of each visit it sent to the
  identity provider and its current session, an attribute map with an expiry
  instant. Visiting a URL with a live session serves it with one \<open>X-Saml\<close> header
  per attribute (or aborts, when the request already carries such a header); without
  one, the store records the URL and the browser is sent to the identity provider (or
  the request aborts, on the ACS path); a callback whose response the verifier
  accepts opens a session lasting one session lifetime and redirects to the URL
  recorded for its relay state. The store holds attributes and URLs, not tokens:
  signatures, encodings and claim maps do not appear. The refinement theorem says
  that the code, which keeps the session in a signed cookie and the URL in a signed
  relay state, shows exactly the store's behaviour on every honest run, through an
  abstraction function that reads a token's payload.
\<close>

datatype obs =
    OServed string header
  | OToIdp
  | OSessionSet string
  | ODenied nat
  | OBody string
  | ONotFound
  | OAbort

text \<open>What the browser can tell of a response, without the token values and the identity provider's URL.\<close>

fun obs_of :: "response outcome \<Rightarrow> obs" where
  "obs_of (Inl _) = OAbort"
| "obs_of (Inr (Served r)) = OServed (url_string r) (header r)"
| "obs_of (Inr (Redirect [] url c)) = OToIdp"
| "obs_of (Inr (Redirect (ck # cks) u c)) = OSessionSet u"
| "obs_of (Inr (HttpError n msg)) = ODenied n"
| "obs_of (Inr (Body b)) = OBody b"
| "obs_of (Inr NotFound) = ONotFound"

text \<open>
  The abstract session (spec sections 3 and 4.4 step 3): the attribute map, friendly
  name to value with the last value winning and the reserved name \<open>exp\<close> left
  out, and the instant at which the session expires, one session lifetime after it
  was opened.
\<close>

definition session_lifetime :: int where
  "session_lifetime = 3600"

definition attr_map :: "assertion_attributes \<Rightarrow> (string \<times> string) list" where
  "attr_map attrs = AList.delete ''exp'' (assign_all [] (map (\<lambda>a. (friendly_name a, attr_value a)) attrs))"

text \<open>Spec section 4.2 step 4: one \<open>X-Saml-<name>\<close> header per attribute, in map order.\<close>

fun attr_headers :: "(string \<times> string) list \<Rightarrow> header \<Rightarrow> header" where
  "attr_headers [] h = h"
| "attr_headers ((n, v) # ps) h = attr_headers ps (header_set h (''X-Saml-'' @ n) v)"

record store =
  st_clock :: int
  st_session :: "((string \<times> string) list \<times> int) option"
  st_pending :: "string list"
  st_log :: "(int \<times> obs) list"

text \<open>
  A callback names the relay state it carries by its position among those handed out
  (\<open>None\<close> for an empty relay state); the store keeps the URI of each.
\<close>

datatype store_event =
    SVisit string string header
  | SCallback string "nat option"
  | SWait nat

definition store_init :: "int \<Rightarrow> store" where
  "store_init t = \<lparr>st_clock = t, st_session = None, st_pending = [], st_log = []\<rparr>"

definition store_log :: "store \<Rightarrow> obs \<Rightarrow> store" where
  "store_log a ob = a\<lparr>st_log := st_log a @ [(st_clock a, ob)]\<rparr>"

text \<open>
  The store's steps. \<open>V\<close> is the verifier's verdict on a \<open>SAMLResponse\<close>. A visit
  without a live session records the URI it asked for and goes to the identity
  provider (or aborts, on the ACS path); an accepted callback opens a session for the
  attributes and redirects to the recorded URI of its relay state, or to the root.
\<close>

fun store_step ::
  "flow_cfg \<Rightarrow> (string \<Rightarrow> parse_response_error + assertion_attributes) \<Rightarrow> store \<Rightarrow> store_event \<Rightarrow> store" where
  "store_step cfg V a (SVisit p u h) =
     (let login = (if p = acs_path (f_sp cfg) then store_log a OAbort
                   else (store_log a OToIdp)\<lparr>st_pending := st_pending a @ [u]\<rparr>)
      in case st_session a of
           Some (ps, e) \<Rightarrow>
             if st_clock a \<le> e
             then store_log a (if has_saml_header h then OAbort else OServed u (attr_headers ps h))
             else login
         | None \<Rightarrow> login)"
| "store_step cfg V a (SCallback saml ri) =
     (case V saml of
        Inl _ \<Rightarrow> store_log a (ODenied 403)
      | Inr attrs \<Rightarrow>
          (store_log a (OSessionSet (case ri of None \<Rightarrow> ''/'' | Some i \<Rightarrow> st_pending a ! i)))
            \<lparr>st_session := Some (attr_map attrs, st_clock a + session_lifetime)\<rparr>)"
| "store_step cfg V a (SWait n) = a\<lparr>st_clock := st_clock a + int n\<rparr>"

subsection \<open>The abstraction\<close>

text \<open>The claims a token carries, read from its payload segment without verifying it.\<close>

definition token_claims :: "string \<Rightarrow> claims option" where
  "token_claims v = (case split_dot v of [h, p, sig] \<Rightarrow> decode_obj p | _ \<Rightarrow> None)"

definition relay_uri :: "string \<Rightarrow> string option" where
  "relay_uri rs = (case token_claims rs of
                     Some c \<Rightarrow> (case map_of c ''uri'' of Some (CStr u) \<Rightarrow> Some u | _ \<Rightarrow> None)
                   | None \<Rightarrow> None)"

fun str_claims :: "claims \<Rightarrow> (string \<times> string) list" where
  "str_claims [] = []"
| "str_claims ((n, CStr s) # c) = (n, s) # str_claims c"
| "str_claims (_ # c) = str_claims c"

text \<open>A session token's claims read as an abstract session: its string claims and its \<open>exp\<close>.\<close>

definition session_view :: "claims \<Rightarrow> ((string \<times> string) list \<times> int) option" where
  "session_view c = (case map_of c ''exp'' of
                       Some (CNum e) \<Rightarrow> Some (str_claims (AList.delete ''exp'' c), e)
                     | _ \<Rightarrow> None)"

definition abs_store :: "browser \<Rightarrow> store" where
  "abs_store s =
     \<lparr>st_clock = clock s,
      st_session = (case jar s of None \<Rightarrow> None | Some v \<Rightarrow> Option.bind (token_claims v) session_view),
      st_pending = map (\<lambda>rs. case relay_uri rs of Some u \<Rightarrow> u | None \<Rightarrow> []) (carried s),
      st_log = map (\<lambda>(t, out). (t, obs_of out)) (responses s)\<rparr>"

fun relay_index :: "string list \<Rightarrow> string \<Rightarrow> nat" where
  "relay_index [] x = 0"
| "relay_index (y # ys) x = (if y = x then 0 else Suc (relay_index ys x))"

fun store_event_of :: "browser \<Rightarrow> flow_event \<Rightarrow> store_event" where
  "store_event_of s (Visit p u h) = SVisit p u h"
| "store_event_of s (Callback saml rs) =
     SCallback saml (if rs = [] then None else Some (relay_index (carried s) rs))"
| "store_event_of s (Wait n) = SWait n"
| "store_event_of s (Replay v) = SWait 0"

fun abs_run :: "flow_cfg \<Rightarrow> browser \<Rightarrow> flow_event list \<Rightarrow> store_event list" where
  "abs_run cfg s [] = []"
| "abs_run cfg s (e # es) = store_event_of s e # abs_run cfg (flow_step cfg s e) es"

text \<open>
  An honest run: the browser never replays a relay state, and each callback carries
  an empty relay state or one the browser was handed.
\<close>

fun honest_event :: "browser \<Rightarrow> flow_event \<Rightarrow> bool" where
  "honest_event s (Callback saml rs) = (rs = [] \<or> rs \<in> set (carried s))"
| "honest_event s (Replay v) = False"
| "honest_event s _ = True"

fun honest_run :: "flow_cfg \<Rightarrow> browser \<Rightarrow> flow_event list \<Rightarrow> bool" where
  "honest_run cfg s [] = True"
| "honest_run cfg s (e # es) = (honest_event s e \<and> honest_run cfg (flow_step cfg s e) es)"

text \<open>A token signed by the service provider's key and keyed hash, for well-formed claims.\<close>

definition genuine :: "flow_cfg \<Rightarrow> claims \<Rightarrow> string \<Rightarrow> bool" where
  "genuine cfg c v \<longleftrightarrow> go_map_wf c \<and> (\<exists>env0. mac env0 = f_mac cfg \<and> sign_hs256 env0 (f_sp cfg) c = Inr v)"

definition store_inv :: "flow_cfg \<Rightarrow> browser \<Rightarrow> bool" where
  "store_inv cfg s \<longleftrightarrow>
     (\<forall>v. jar s = Some v \<longrightarrow> (\<exists>t0 attrs. genuine cfg (session_claims (env_at cfg t0) attrs) v))
     \<and> (\<forall>rs \<in> set (carried s). \<exists>u. genuine cfg [(''uri'', CStr u)] rs)"

text \<open>
  What the callback needs of the relay-state recovery of \<open>DefaultAuthorizeFunc\<close>
  (lines 128--138): an empty relay state leads to the root, and a genuine relay state
  for \<open>u\<close> to \<open>u\<close>, at any time.
\<close>

definition relay_recovers :: "flow_cfg \<Rightarrow> bool" where
  "relay_recovers cfg \<longleftrightarrow>
     (\<forall>t rq. form_get (form rq) ''RelayState'' = []
        \<longrightarrow> relay_state_uri (env_at cfg t) (f_sp cfg) rq = Inr (Inr ''/''))
     \<and> (\<forall>t rq u. genuine cfg [(''uri'', CStr u)] (form_get (form rq) ''RelayState'')
        \<longrightarrow> relay_state_uri (env_at cfg t) (f_sp cfg) rq = Inr (Inr u))"

text \<open>
  What the simulation needs of the session claims of \<open>DefaultAuthorizeFunc\<close> (lines
  140--144): read as a session, they are the attribute map with an expiry one session
  lifetime after issue; the header bridge turns them into the attribute headers; and
  \<open>Parse\<close> rejects them exactly after that expiry.
\<close>

definition session_contract :: bool where
  "session_contract \<longleftrightarrow>
     (\<forall>env attrs. session_view (session_claims env attrs) = Some (attr_map attrs, now env + session_lifetime)
        \<and> (\<forall>h. set_saml_headers (session_claims env attrs) h = attr_headers (attr_map attrs) h)
        \<and> (\<forall>t. time_errors t (session_claims env attrs)
               = (if now env + session_lifetime < t then [Expired] else [])))"

subsection \<open>Genuine tokens\<close>

lemma token_claims_genuine: "genuine cfg c v \<Longrightarrow> token_claims v = Some c"
  by (auto simp: genuine_def token_claims_def sign_hs256_Inr split_dot_signed)

lemma genuine_parse:
  assumes "genuine cfg c v"
  shows "jwt_parse (env_at cfg t) (secret_bytes (f_sp cfg)) v
    = (if time_errors t c = [] then Inr (Inr c) else Inr (Inl (Invalid (time_errors t c))))"
proof -
  from assms obtain env0 where wf: "go_map_wf c" and m: "mac env0 = f_mac cfg"
    and sg: "sign_hs256 env0 (f_sp cfg) c = Inr v"
    unfolding genuine_def by blast
  have "mac (env_at cfg t) = mac env0" using m by (simp add: env_at_def)
  from jwt_parse_hs256 [OF sg wf this] show ?thesis
    by (simp add: env_at_def)
qed

lemma genuine_nonempty: "genuine cfg c v \<Longrightarrow> v \<noteq> []"
  unfolding genuine_def by (blast dest: token_nonempty)

lemma genuine_sign:
  "sign_hs256 (env_at cfg t) (f_sp cfg) c = Inr v \<Longrightarrow> go_map_wf c \<Longrightarrow> genuine cfg c v"
  unfolding genuine_def by (metis env_at_def jwt_env.select_convs(2))

lemma relay_uri_genuine: "genuine cfg [(''uri'', CStr u)] rs \<Longrightarrow> relay_uri rs = Some u"
  by (simp add: relay_uri_def token_claims_genuine)

lemma relay_index_nth: "x \<in> set xs \<Longrightarrow> relay_index xs x < length xs \<and> xs ! relay_index xs x = x"
  by (induction xs) auto

lemma st_clock_abs_store [simp]: "st_clock (abs_store s) = clock s"
  by (simp add: abs_store_def)

lemma abs_store_append:
  "abs_store (s\<lparr>responses := responses s @ [(clock s, out)]\<rparr>) = store_log (abs_store s) (obs_of out)"
  by (simp add: abs_store_def store_log_def)

lemma receive_no_cookie:
  "(\<And>cks u c. out \<noteq> Inr (Redirect cks u c)) \<Longrightarrow> receive s out = s\<lparr>responses := responses s @ [(clock s, out)]\<rparr>"
  by (cases out rule: sum.exhaust) (auto simp: receive_def split: response.splits)

subsection \<open>Claim maps of string values read as sessions\<close>

text \<open>A Go map of string values, \<open>map (apsnd CStr) ps\<close>, and its reading back.\<close>

lemma update_map_CStr: "AList.update k (CStr v) (map (apsnd CStr) m) = map (apsnd CStr) (AList.update k v m)"
  by (induction m) auto

lemma assign_all_map_CStr:
  "assign_all (map (apsnd CStr) m) (map (\<lambda>a. (f a, CStr (g a))) xs)
     = map (apsnd CStr) (assign_all m (map (\<lambda>a. (f a, g a)) xs))"
  by (induction xs arbitrary: m) (simp_all add: update_map_CStr)

lemma delete_map_CStr: "AList.delete k (map (apsnd CStr) ps) = map (apsnd CStr) (AList.delete k ps)"
  by (induction ps) auto

lemma map_of_map_CStr: "map_of (map (apsnd CStr) ps) k = map_option CStr (map_of ps k)"
  by (induction ps) auto

lemma str_claims_CStr [simp]: "str_claims (map (apsnd CStr) ps) = ps"
  by (induction ps) auto

lemma set_saml_headers_CStr: "set_saml_headers (map (apsnd CStr) ps) h = attr_headers ps h"
  by (induction ps arbitrary: h) auto

lemma set_saml_headers_update_num:
  "distinct (map fst c) \<Longrightarrow> set_saml_headers (AList.update k (CNum e) c) h = set_saml_headers (AList.delete k c) h"
proof (induction c arbitrary: h)
  case (Cons kv c)
  obtain k' v where kv: "kv = (k', v)" by fastforce
  show ?case
  proof (cases "k' = k")
    case True
    with Cons.prems kv have "AList.delete k c = c"
      by (simp add: delete_id image_iff)
    with True kv show ?thesis by simp
  next
    case False
    with Cons kv show ?thesis by simp
  qed
qed simp

lemma session_view_update:
  "session_view (AList.update ''exp'' (CNum e) (map (apsnd CStr) ps)) = Some (AList.delete ''exp'' ps, e)"
  by (simp add: session_view_def delete_update_same delete_map_CStr)

lemma time_errors_update:
  "time_errors t (AList.update ''exp'' (CNum e) (map (apsnd CStr) ps)) = (if e < t then [Expired] else [])"
  by (simp add: time_errors_def claim_num_def map_of_map_CStr split: option.splits)

subsection \<open>Simulation, event by event\<close>

text \<open>
  An unauthorized visit: the redirect to the identity provider, carrying a relay state
  for the URL asked for, or the loop guard's abort on the ACS path.
\<close>

lemma store_sim_login:
  assumes inv: "store_inv cfg s" and key: "sp_key (f_sp cfg) = Some k"
    and redirect: "\<forall>x. \<exists>url. make_redirect_authentication_request (f_sp cfg) x = Inr url"
    and issued: "\<forall>r. relay_state_claims r = [(''uri'', CStr (url_string r))]"
    and unauth: "default_is_authorized (env_at cfg (clock s)) (flow_mw cfg) (visit_request s p u h)
                   = Inr (False, visit_request s p u h)"
  shows "abs_store (flow_step cfg s (Visit p u h))
      = (if p = acs_path (f_sp cfg) then store_log (abs_store s) OAbort
         else (store_log (abs_store s) OToIdp)\<lparr>st_pending := st_pending (abs_store s) @ [u]\<rparr>)
    \<and> store_inv cfg (flow_step cfg s (Visit p u h))"
proof -
  let ?r = "visit_request s p u h"
  let ?env = "env_at cfg (clock s)"
  have claims: "relay_state_claims ?r = [(''uri'', CStr u)]"
    using issued by (simp add: visit_request_def)
  obtain rs where rs: "sign_hs256 ?env (f_sp cfg) [(''uri'', CStr u)] = Inr rs"
    using sign_hs256_Some [OF key] by blast
  obtain url where url: "make_redirect_authentication_request (f_sp cfg) rs = Inr url"
    using redirect by blast
  have gen: "genuine cfg [(''uri'', CStr u)] rs"
    by (rule genuine_sign [OF rs]) (simp add: go_map_wf_def)
  let ?out = "if p = acs_path (f_sp cfg)
      then Inl (Panic ''don't wrap ServiceProviderMiddleware with RequireAccountMiddleware'')
      else Inr (Redirect [] url 302)"
  have out: "require_account_middleware ?env (flow_mw cfg) app_echo ?r = ?out"
    using unauth rs url claims by (simp add: require_account_middleware_def is_authorized_def)
  show ?thesis
    using inv gen out rs claims relay_uri_genuine [OF gen]
    by (cases "p = acs_path (f_sp cfg)")
       (auto simp: Let_def receive_def relay_carried_def abs_store_def store_log_def store_inv_def)
qed

lemma store_sim_visit:
  assumes inv: "store_inv cfg s" and key: "sp_key (f_sp cfg) = Some k"
    and redirect: "\<forall>x. \<exists>url. make_redirect_authentication_request (f_sp cfg) x = Inr url"
    and issued: "\<forall>r. relay_state_claims r = [(''uri'', CStr (url_string r))]"
    and sess: "session_contract"
  shows "abs_store (flow_step cfg s (Visit p u h)) = store_step cfg V (abs_store s) (SVisit p u h)
    \<and> store_inv cfg (flow_step cfg s (Visit p u h))"
proof (cases "jar s")
  case None
  then have "default_is_authorized (env_at cfg (clock s)) (flow_mw cfg) (visit_request s p u h)
      = Inr (False, visit_request s p u h)"
    by (simp add: default_is_authorized_def)
  from store_sim_login [OF inv key redirect issued this] None show ?thesis
    by (simp add: abs_store_def Let_def)
next
  case (Some v)
  with inv obtain t0 attrs where gen: "genuine cfg (session_claims (env_at cfg t0) attrs) v"
    by (auto simp: store_inv_def)
  let ?c = "session_claims (env_at cfg t0) attrs"
  have view: "session_view ?c = Some (attr_map attrs, t0 + session_lifetime)"
    and hdrs: "set_saml_headers ?c h = attr_headers (attr_map attrs) h"
    and terr: "time_errors (clock s) ?c = (if t0 + session_lifetime < clock s then [Expired] else [])"
    using sess by (simp_all add: session_contract_def env_at_def)
  have st: "st_session (abs_store s) = Some (attr_map attrs, t0 + session_lifetime)"
    using Some token_claims_genuine [OF gen] view by (simp add: abs_store_def)
  let ?r = "visit_request s p u h"
  let ?env = "env_at cfg (clock s)"
  have parse: "jwt_parse ?env (secret_bytes (f_sp cfg)) v
      = (if time_errors (clock s) ?c = [] then Inr (Inr ?c) else Inr (Inl (Invalid (time_errors (clock s) ?c))))"
    by (rule genuine_parse [OF gen])
  show ?thesis
  proof (cases "clock s \<le> t0 + session_lifetime")
    case False
    with parse terr Some have "default_is_authorized ?env (flow_mw cfg) ?r = Inr (False, ?r)"
      by (simp add: default_is_authorized_def)
    from store_sim_login [OF inv key redirect issued this] False st show ?thesis
      by (simp add: Let_def)
  next
    case True
    let ?out = "if has_saml_header h
        then Inl (Panic ''X-Saml-* headers should not exist when this function is called'')
        else Inr (Served (?r\<lparr>header := attr_headers (attr_map attrs) h\<rparr>))"
    have out: "require_account_middleware ?env (flow_mw cfg) app_echo ?r = ?out"
      using True parse terr hdrs Some
      by (simp add: require_account_middleware_def is_authorized_def default_is_authorized_def
          app_echo_def)
    have step: "flow_step cfg s (Visit p u h) = s\<lparr>responses := responses s @ [(clock s, ?out)]\<rparr>"
      using out by (simp add: Let_def receive_no_cookie relay_carried_def)
    show ?thesis
      using inv True st unfolding step
      by (simp add: abs_store_append Let_def store_inv_def)
  qed
qed

text \<open>
  The relay state of an honest callback recovers the URI the store recorded for the
  relay state at that position.
\<close>

lemma store_relay_uri:
  assumes inv: "store_inv cfg s" and honest: "rs = [] \<or> rs \<in> set (carried s)"
    and rec: "relay_recovers cfg"
  shows "relay_state_uri (env_at cfg (clock s)) (f_sp cfg) (callback_request cfg s saml rs)
    = Inr (Inr (case (if rs = [] then None else Some (relay_index (carried s) rs)) of
                  None \<Rightarrow> ''/'' | Some i \<Rightarrow> st_pending (abs_store s) ! i))"
proof (cases "rs = []")
  case True
  with rec show ?thesis
    by (simp add: relay_recovers_def callback_request_def form_get_def)
next
  case False
  with honest have mem: "rs \<in> set (carried s)" by simp
  with inv obtain u where gen: "genuine cfg [(''uri'', CStr u)] rs"
    by (auto simp: store_inv_def)
  have "st_pending (abs_store s) ! relay_index (carried s) rs = u"
    using relay_index_nth [OF mem] relay_uri_genuine [OF gen] by (simp add: abs_store_def)
  with gen False rec show ?thesis
    by (simp add: relay_recovers_def callback_request_def form_get_def)
qed

lemma store_sim_callback:
  assumes inv: "store_inv cfg s" and key: "sp_key (f_sp cfg) = Some k"
    and verdict: "\<forall>r. parse_response (f_sp cfg) r [] = V (form_get (form r) ''SAMLResponse'')"
    and paths: "acs_path (f_sp cfg) \<noteq> metadata_path (f_sp cfg)"
    and honest: "rs = [] \<or> rs \<in> set (carried s)" and rec: "relay_recovers cfg"
    and sess: "session_contract"
  shows "abs_store (flow_step cfg s (Callback saml rs))
      = store_step cfg V (abs_store s) (store_event_of s (Callback saml rs))
    \<and> store_inv cfg (flow_step cfg s (Callback saml rs))"
proof -
  let ?rq = "callback_request cfg s saml rs"
  let ?env = "env_at cfg (clock s)"
  have pr: "parse_response (f_sp cfg) ?rq [] = V saml"
    using verdict by (simp add: callback_request_def form_get_def)
  show ?thesis
  proof (cases "V saml")
    case (Inl e)
    with pr paths have "serve_http ?env (flow_mw cfg) ?rq = Inr (HttpError 403 (status_text 403))"
      by (simp add: serve_http_def callback_request_def)
    with inv Inl show ?thesis
      by (simp add: receive_no_cookie abs_store_append store_inv_def)
  next
    case (Inr attrs)
    obtain tok where tok: "sign_hs256 ?env (f_sp cfg) (session_claims ?env attrs) = Inr tok"
      using sign_hs256_Some [OF key] by blast
    have gen: "genuine cfg (session_claims ?env attrs) tok"
      by (rule genuine_sign [OF tok session_claims_wf])
    have view: "session_view (session_claims ?env attrs) = Some (attr_map attrs, clock s + session_lifetime)"
      using sess by (simp add: session_contract_def env_at_def)
    let ?uri = "case (if rs = [] then None else Some (relay_index (carried s) rs)) of
                  None \<Rightarrow> ''/'' | Some i \<Rightarrow> st_pending (abs_store s) ! i"
    have "serve_http ?env (flow_mw cfg) ?rq = Inr (Redirect [session_cookie tok] ?uri 302)"
      using pr paths Inr tok store_relay_uri [OF inv honest rec, of saml]
      by (simp add: serve_http_def default_authorize_func_def callback_request_def)
    then have step: "flow_step cfg s (Callback saml rs)
        = s\<lparr>jar := Some tok, responses := responses s @ [(clock s, Inr (Redirect [session_cookie tok] ?uri 302))]\<rparr>"
      by (simp add: receive_def session_cookie_sel)
    show ?thesis
      using inv gen Inr token_claims_genuine [OF gen] view unfolding step
      by (auto simp: abs_store_def store_log_def store_inv_def)
  qed
qed

lemma store_sim_wait:
  "abs_store (flow_step cfg s (Wait n)) = store_step cfg V (abs_store s) (SWait n)
   \<and> (store_inv cfg s \<longrightarrow> store_inv cfg (flow_step cfg s (Wait n)))"
  by (simp add: abs_store_def store_inv_def)

lemma store_init_abs: "abs_store (browser_init t) = store_init t"
  by (simp add: abs_store_def browser_init_def store_init_def)

lemma store_inv_init: "store_inv cfg (browser_init t)"
  by (simp add: store_inv_def browser_init_def)

subsection \<open>The refinement\<close>

text \<open>
  C30. Refinement of the session store (spec sections 3 and 4): for a service
  provider with a key, an identity provider that accepts every relay state, and a
  verifier whose verdict depends on the \<open>SAMLResponse\<close> only, every honest run of
  the code, seen through the abstraction, is the run of the abstract session store on
  the corresponding events. The store records the URL of every unauthorized visit
  itself and sends an accepted callback back to the URL recorded for its relay state;
  its sessions are the attribute maps, served as \<open>X-Saml\<close> headers until one session
  lifetime (one hour) after the callback. So the signed relay state carries the full
  URL asked for, and the signed cookie the attributes and that expiry. The proof is by
  induction on the run, with the invariant that every token the browser holds is
  genuine; what it uses of the relay-state claims (lines 93--94), the relay-state
  recovery (lines 128--138) and the session claims (lines 140--144) is established
  here from the code.
\<close>

theorem flow_refines_session_store:
  assumes key: "sp_key (f_sp cfg) = Some k"
    and redirect: "\<forall>x. \<exists>url. make_redirect_authentication_request (f_sp cfg) x = Inr url"
    and verdict: "\<forall>r. parse_response (f_sp cfg) r [] = V (form_get (form r) ''SAMLResponse'')"
    and paths: "acs_path (f_sp cfg) \<noteq> metadata_path (f_sp cfg)"
    and honest: "honest_run cfg (browser_init t) evs"
  shows "abs_store (foldl (flow_step cfg) (browser_init t) evs)
    = foldl (store_step cfg V) (store_init t) (abs_run cfg (browser_init t) evs)"
proof -
  have issued: "\<forall>r. relay_state_claims r = [(''uri'', CStr (url_string r))]"
    by (simp add: relay_state_claims_def)
  have rec: "relay_recovers cfg"
    unfolding relay_recovers_def
  proof (intro conjI allI impI)
    fix t and rq :: request
    assume "form_get (form rq) ''RelayState'' = []"
    then show "relay_state_uri (env_at cfg t) (f_sp cfg) rq = Inr (Inr ''/'')"
      by (simp add: relay_state_uri_def)
  next
    fix t u and rq :: request
    assume gen: "genuine cfg [(''uri'', CStr u)] (form_get (form rq) ''RelayState'')"
    show "relay_state_uri (env_at cfg t) (f_sp cfg) rq = Inr (Inr u)"
      using genuine_parse [OF gen, of t] genuine_nonempty [OF gen]
      by (simp add: relay_state_uri_def time_errors_def claim_num_def)
  qed
  have sess: "session_contract"
    unfolding session_contract_def
  proof (intro allI)
    fix env and attrs :: assertion_attributes
    let ?ps = "assign_all [] (map (\<lambda>a. (friendly_name a, attr_value a)) attrs)"
    have eq: "session_claims env attrs
        = AList.update ''exp'' (CNum (now env + session_lifetime)) (map (apsnd CStr) ?ps)"
      using assign_all_map_CStr [of "[]" friendly_name attr_value attrs]
      by (simp add: session_claims_def cookie_max_age_def session_lifetime_def)
    have dist: "distinct (map fst (map (apsnd CStr) ?ps))"
      using assign_all_wf [OF go_map_wf_Nil, of "map (\<lambda>a. (friendly_name a, attr_value a)) attrs"]
      by (simp add: go_map_wf_def)
    show "session_view (session_claims env attrs) = Some (attr_map attrs, now env + session_lifetime)
        \<and> (\<forall>h. set_saml_headers (session_claims env attrs) h = attr_headers (attr_map attrs) h)
        \<and> (\<forall>t. time_errors t (session_claims env attrs)
               = (if now env + session_lifetime < t then [Expired] else []))"
      unfolding eq
      by (simp add: attr_map_def session_view_update time_errors_update
          set_saml_headers_update_num [OF dist] delete_map_CStr set_saml_headers_CStr)
  qed
  have "abs_store (foldl (flow_step cfg) s evs) = foldl (store_step cfg V) (abs_store s) (abs_run cfg s evs)"
    if "store_inv cfg s" and "honest_run cfg s evs" for s
    using that
  proof (induction evs arbitrary: s)
    case (Cons e evs)
    from Cons.prems(2) have he: "honest_event s e" and hr: "honest_run cfg (flow_step cfg s e) evs"
      by simp_all
    have "abs_store (flow_step cfg s e) = store_step cfg V (abs_store s) (store_event_of s e)
        \<and> store_inv cfg (flow_step cfg s e)"
    proof (cases e)
      case (Visit p u h)
      then show ?thesis
        using store_sim_visit [OF Cons.prems(1) key redirect issued sess] by simp
    next
      case (Callback saml rs)
      then show ?thesis
        using store_sim_callback [OF Cons.prems(1) key verdict paths _ rec sess] he by simp
    next
      case (Wait n)
      then show ?thesis
        using store_sim_wait Cons.prems(1) by simp
    next
      case (Replay v)
      with he show ?thesis by simp
    qed
    with Cons.IH hr show ?case
      by simp
  qed simp
  from this [OF store_inv_init honest] show ?thesis
    by (simp add: store_init_abs)
qed

theorem flow_refines_session_store_witness:
  "abs_store (foldl (flow_step demo_cfg) (browser_init 0)
       [Visit ''/app'' ''/app?tab=2'' [], Callback ''<Response/>'' (demo_token [(''uri'', CStr ''/app?tab=2'')]),
        Wait 60, Visit ''/app'' ''/app?tab=2'' []])
   = foldl (store_step demo_cfg (\<lambda>saml. Inr [\<lparr>friendly_name = ''uid'', attr_name = ''urn:oid:0.9.2342.19200300.100.1.1'',
                                              attr_value = ''alice@example.com''\<rparr>]))
       (store_init 0)
       (abs_run demo_cfg (browser_init 0)
          [Visit ''/app'' ''/app?tab=2'' [], Callback ''<Response/>'' (demo_token [(''uri'', CStr ''/app?tab=2'')]),
           Wait 60, Visit ''/app'' ''/app?tab=2'' []])"
proof (rule flow_refines_session_store [OF demo_cfg_facts(1,2)])
  show "\<forall>r. parse_response (f_sp demo_cfg) r []
      = (\<lambda>saml. Inr [\<lparr>friendly_name = ''uid'', attr_name = ''urn:oid:0.9.2342.19200300.100.1.1'',
                        attr_value = ''alice@example.com''\<rparr>]) (form_get (form r) ''SAMLResponse'')"
    by (simp add: demo_cfg_def demo_sp_def)
  let ?rs = "demo_token [(''uri'', CStr ''/app?tab=2'')]"
  have sg: "sign_hs256 (env_at demo_cfg 0) (f_sp demo_cfg) [(''uri'', CStr ''/app?tab=2'')] = Inr ?rs"
    using demo_sign [of 0] by (simp add: env_at_def demo_cfg_def demo_env_def demo_mw_def)
  have url: "make_redirect_authentication_request (f_sp demo_cfg) ?rs
      = Inr (''https://idp.example.com/sso?RelayState='' @ ?rs)"
    by (simp add: demo_cfg_def demo_sp_def)
  have s1: "flow_step demo_cfg (browser_init 0) (Visit ''/app'' ''/app?tab=2'' [])
      = \<lparr>clock = 0, jar = None, carried = [?rs],
         responses = [(0, Inr (Redirect [] (''https://idp.example.com/sso?RelayState='' @ ?rs) 302))]\<rparr>"
    by (rule flow_init_visit [OF sg url demo_cfg_facts(4)])
  show "honest_run demo_cfg (browser_init 0)
      [Visit ''/app'' ''/app?tab=2'' [], Callback ''<Response/>'' ?rs, Wait 60, Visit ''/app'' ''/app?tab=2'' []]"
    by (simp add: s1 del: flow_step.simps)
qed (rule demo_cfg_facts(5))

end
