(* ===== verification/Handler_Stack.thy ===== *)
theory Handler_Stack
  imports Flow
begin

text \<open>
  The handler stack of spec sections 2 and 4.5: \<open>RequireAccountMiddleware\<close> in front
  of \<open>RequireAttribute(name, value)\<close> in front of the application, all from
  \<open>src/middleware.go\<close> (lines 81--119, 173--201 and 213--228), composed the way
  the documentation of \<open>RequireAttribute\<close> prescribes. The application is the
  echoing handler \<open>app_echo\<close> of \<open>Flow\<close>, so that what it is given is visible in
  the response. The theory also records which \<open>token\<close> cookie the default
  authorizer reads when a request carries several (\<open>Request.Cookie\<close>, line 174).
\<close>

subsection \<open>Shared lemmas\<close>

lemma require_account_served:
  assumes "require_account_middleware env m h r = Inr (Served r')"
  obtains r1 where "is_authorized env m r = Inr (True, r1)" and "h r1 = Inr (Served r')"
  using assms
  by (auto simp: require_account_middleware_def split: sum.splits prod.splits bool.splits if_splits)

subsection \<open>The stack RequireAccountMiddleware, RequireAttribute, application\<close>

text \<open>
  C33. Composition of the authorizer and the attribute gate (spec sections 2, 4.2 and
  4.5): with the default authorizer, whatever the inbound headers, the application
  behind \<open>RequireAttribute(name, value)\<close> is only ever given a request that carried a
  \<open>token\<close> cookie verifying under the configured key, had no inbound \<open>X-Saml\<close>
  header, and whose \<open>X-Saml\<close> headers are exactly the verified token's string claims,
  one of which has a name with the canonical header name of \<open>name\<close> and the value
  \<open>value\<close>: the gate decides on verified claims only, never on raw request data.
\<close>

theorem require_attribute_stack_safe:
  assumes "is_authorized_func m = None"
    and "require_account_middleware env m (require_attribute n val app_echo) r = Inr (Served r')"
  shows "\<exists>v c n'. request_cookie r cookie_name = Some v
      \<and> jwt_parse env (secret_bytes (service_provider m)) v = Inr (Inr c)
      \<and> \<not> has_saml_header (header r)
      \<and> r' = r\<lparr>header := set_saml_headers c (header r)\<rparr>
      \<and> (n', CStr val) \<in> set c
      \<and> canonical_header_key (''X-Saml-'' @ n') = canonical_header_key (''X-Saml-'' @ n)"
proof -
  from assms(2) obtain r1 where auth: "is_authorized env m r = Inr (True, r1)"
    and gate: "require_attribute n val app_echo r1 = Inr (Served r')"
    by (rule require_account_served)
  from auth assms(1) have "default_is_authorized env m r = Inr (True, r1)"
    by (simp add: is_authorized_def)
  then obtain v c where ck: "request_cookie r cookie_name = Some v"
    and tok: "jwt_parse env (secret_bytes (service_provider m)) v = Inr (Inr c)"
    and clean: "\<not> has_saml_header (header r)" and r1: "r1 = r\<lparr>header := set_saml_headers c (header r)\<rparr>"
    by (rule default_is_authorized_True)
  from gate obtain vs where hv: "map_of (header r1) (canonical_header_key (''X-Saml-'' @ n)) = Some vs"
    and mem: "val \<in> set vs" and r': "r' = r1"
    by (auto simp: require_attribute_def app_echo_def list_ex_iff split: option.splits if_splits)
  from saml_header_value_origin [OF clean, of c n vs] hv r1 obtain n' s where
    "(n', CStr s) \<in> set c" and "canonical_header_key (''X-Saml-'' @ n') = canonical_header_key (''X-Saml-'' @ n)"
    and "vs = [s]"
    by auto
  with mem ck tok clean r' r1 show ?thesis
    by auto
qed

theorem require_attribute_stack_safe_witness:
  "\<exists>r'. require_account_middleware (demo_env 0) demo_mw (require_attribute ''uid'' ''alice'' app_echo)
          (demo_request ''/'' [] [(''token'', demo_token [(''uid'', CStr ''alice'')])] []) = Inr (Served r')
     \<and> (\<exists>v c n'. request_cookie (demo_request ''/'' [] [(''token'', demo_token [(''uid'', CStr ''alice'')])] []) cookie_name = Some v
        \<and> jwt_parse (demo_env 0) (secret_bytes (service_provider demo_mw)) v = Inr (Inr c)
        \<and> \<not> has_saml_header (header (demo_request ''/'' [] [(''token'', demo_token [(''uid'', CStr ''alice'')])] []))
        \<and> r' = (demo_request ''/'' [] [(''token'', demo_token [(''uid'', CStr ''alice'')])] [])
                 \<lparr>header := set_saml_headers c (header (demo_request ''/'' [] [(''token'', demo_token [(''uid'', CStr ''alice'')])] []))\<rparr>
        \<and> (n', CStr ''alice'') \<in> set c
        \<and> canonical_header_key (''X-Saml-'' @ n') = canonical_header_key (''X-Saml-'' @ ''uid''))"
proof -
  let ?c = "[(''uid'', CStr ''alice'')]"
  let ?r = "demo_request ''/'' [] [(''token'', demo_token ?c)] []"
  let ?r' = "?r\<lparr>header := set_saml_headers ?c (header ?r)\<rparr>"
  have wf: "go_map_wf ?c" by (simp add: go_map_wf_def)
  have ok: "default_is_authorized (demo_env 0) demo_mw ?r = Inr (True, ?r')"
    by (rule default_is_authorized_token [OF _ demo_sign wf])
       (simp_all add: demo_defs request_cookie_def cookie_name_def time_errors_def claim_num_def
         has_saml_header_def)
  have served: "require_account_middleware (demo_env 0) demo_mw (require_attribute ''uid'' ''alice'' app_echo) ?r
      = Inr (Served ?r')"
    using ok by (simp add: require_account_middleware_def is_authorized_def demo_mw_def
      require_attribute_def app_echo_def demo_request_def header_set_def)
  show ?thesis
    using served require_attribute_stack_safe [OF _ served] by (simp add: demo_mw_def)
qed

subsection \<open>Several token cookies\<close>

text \<open>
  C34. Cookie precedence (spec section 4.2 step 1): when a request carries several
  cookies named \<open>token\<close>, \<open>DefaultIsAuthorized\<close> decides on the first one alone.
  Its verdict, its panic and the headers it passes on are those of the request
  carrying that cookie only, whatever the later \<open>token\<close> cookies hold.
\<close>

theorem default_is_authorized_first_token_cookie:
  assumes "cookie_name \<notin> fst ` set pre"
  shows "map_sum id (\<lambda>(b, q). (b, header q))
           (default_is_authorized env m (r\<lparr>cookies := pre @ (cookie_name, v) # post\<rparr>))
       = map_sum id (\<lambda>(b, q). (b, header q))
           (default_is_authorized env m (r\<lparr>cookies := [(cookie_name, v)]\<rparr>))"
proof -
  from assms have "map_of pre cookie_name = None"
    by (simp add: map_of_eq_None_iff)
  then have "request_cookie (r\<lparr>cookies := pre @ (cookie_name, v) # post\<rparr>) cookie_name = Some v"
    by (simp add: request_cookie_def map_add_def)
  moreover have "request_cookie (r\<lparr>cookies := [(cookie_name, v)]\<rparr>) cookie_name = Some v"
    by (simp add: request_cookie_def)
  ultimately show ?thesis
    by (simp add: default_is_authorized_def split: sum.splits)
qed

theorem default_is_authorized_first_token_cookie_witness:
  "map_sum id (\<lambda>(b, q). (b, header q))
     (default_is_authorized (demo_env 0) demo_mw
        (demo_request ''/'' [] [(''lang'', ''en''), (''token'', ''forged''), (''token'', demo_token [(''uid'', CStr ''alice'')])] []))
   = map_sum id (\<lambda>(b, q). (b, header q))
       (default_is_authorized (demo_env 0) demo_mw (demo_request ''/'' [] [(''token'', ''forged'')] []))"
  using default_is_authorized_first_token_cookie
    [where pre = "[(''lang'', ''en'')]" and env = "demo_env 0" and m = demo_mw
       and r = "demo_request ''/'' [] [] []" and v = "''forged''"
       and post = "[(''token'', demo_token [(''uid'', CStr ''alice'')])]"]
  by (simp add: cookie_name_def demo_request_def)

end
