(* ===== verification/Spec2Isabelle.thy ===== *)
theory Spec2Isabelle
  imports Session_Token Header_Bridge Login_Redirect Callback Browser Session_Spec Handler_Stack
begin

text \<open>
  Verification development of the SAML service-provider middleware of the repository
  (\<open>src/middleware.go\<close>, package \<open>saml\<close>): the layer that decides per request whether
  the caller holds a valid session, starts the single-sign-on redirect when not, turns
  a verified identity assertion into a signed session cookie, and exposes the verified
  attributes as trusted \<open>X-Saml-*\<close> request headers.

  \<^bold>\<open>Parts and how they interact.\<close> A request reaches \<open>RequireAccountMiddleware\<close>,
  which asks the authorizer (\<open>IsAuthorizedFunc\<close>, by default \<open>DefaultIsAuthorized\<close>).
  The default authorizer reads the \<open>token\<close> cookie, verifies it with \<open>jwt.Parse\<close>
  under the HMAC key taken from the PEM block of \<open>ServiceProvider.Key\<close>, aborts on
  inbound \<open>X-Saml*\<close> headers, and copies every string claim into an \<open>X-Saml-<name>\<close>
  header. An unauthorized request gets a relay-state token (claim \<open>uri\<close>), signed with
  the same key and HS256, and is redirected to the identity provider, unless its path is
  the assertion consumer service (ACS) path, which panics. \<open>ServeHTTP\<close> serves the
  metadata and ACS paths; at the ACS path the verifier's attributes go to
  \<open>AuthorizeFunc\<close> (by default \<open>DefaultAuthorizeFunc\<close>), which recovers the original
  URI from the \<open>RelayState\<close> form field, signs a session token of the attributes plus
  \<open>exp\<close> = now + one hour, sets it as the \<open>token\<close> cookie and redirects.
  \<open>RequireAttribute\<close> guards a handler by one value of one \<open>X-Saml\<close> header.

  \<^bold>\<open>Theories.\<close>
  \<^item> \<open>Prelude\<close>: Go maps as association lists with distinct keys (\<open>go_map\<close>,
    \<open>assign_all\<close> for a loop of map assignments), \<open>strings.HasPrefix\<close>, the panic
    outcome \<open>fatal + 'a\<close>, and the shared lemma collections.
  \<^item> \<open>Codec\<close> (spec-modelled, library \<open>jwt-go\<close>): the token text layer. JSON plus
    base64url is modelled as an injective escaping into dot-free text (\<open>encode_obj\<close>,
    \<open>decode_obj\<close>, \<open>split_dot\<close>); its lemmas are the round trips (escape/unescape,
    decimal print/read, claim map encode/decode) and the termination of the field reader.
  \<^item> \<open>Jwt\<close> (spec-modelled): \<open>jwt.New\<close>/\<open>SignedString\<close> (\<open>signed_string\<close>) and
    \<open>jwt.Parse\<close> (\<open>jwt_parse\<close>) of jwt-go v2, with the keyed hash and the clock as
    fields of \<open>jwt_env\<close>. Its lemmas characterise \<open>Parse\<close> exactly
    (\<open>jwt_parse_valid\<close>) and on a freshly signed token (\<open>jwt_parse_signed\<close>),
    the sign/parse round trip and the rejection under a key with a different MAC.
  \<^item> \<open>Http\<close> (spec-modelled, Go standard library): request, response and cookie
    records, \<open>CanonicalMIMEHeaderKey\<close>, \<open>Header.Set\<close>, \<open>Request.Cookie\<close>,
    \<open>Values.Get\<close>.
  \<^item> \<open>Middleware\<close>: \<open>src/middleware.go\<close> itself, one definition per function:
    \<open>default_is_authorized\<close> (lines 173--201, with \<open>has_saml_header\<close> and
    \<open>set_saml_headers\<close> for its two loops), \<open>require_account_middleware\<close> (81--119),
    \<open>default_authorize_func\<close> (125--159, with \<open>relay_state_uri\<close> and
    \<open>session_claims\<close>), \<open>serve_http\<close> (42--75) with its operator log
    \<open>serve_http_log\<close> (57--60) and \<open>require_attribute\<close> (213--228),
    with the lemmas the components share and the example configuration of the
    witnesses. The SAML engine (\<open>ParseResponse\<close>, \<open>MakeRedirectAuthenticationRequest\<close>,
    \<open>Metadata\<close>) is a field of the \<open>service_provider\<close> record, so each theorem holds for
    every engine.
  \<^item> \<open>Session_Token\<close>: the session cookie's round trip, key, expiry and MAC checks
    (C2--C5, stated over \<open>sign_hs256\<close> and \<open>default_is_authorized\<close>) and the
    algorithm that is not fixed (C18).
  \<^item> \<open>Header_Bridge\<close>: the inbound \<open>X-Saml\<close> check and the claim-to-header loop
    (C6--C8, C21, C22), and the closed form of the loop: the last colliding claim
    in iteration order wins (C20).
  \<^item> \<open>Login_Redirect\<close>: the login redirect, its relay state, the loop guard and the
    missing key (C9--C11, C23).
  \<^item> \<open>Callback\<close>: the assertion callback at the ACS path (C12--C14, C17, C19) and
    the operator log of a rejected assertion, written only beside the generic 403 and
    only for an \<open>InvalidResponseError\<close> (C31).
  \<^item> \<open>Flow\<close>: the login flow of spec section 2 as a state machine. One browser (its
    \<open>token\<close> cookie, the relay states it carried, the responses it received) meets the
    middleware in its default configuration through four events: a visit to a
    protected URL (\<open>require_account_middleware\<close> around an application that echoes its
    request), the identity provider's POST to the ACS path (\<open>serve_http\<close>), the
    passing of time, and the replay of a carried relay state as the cookie. \<open>reach\<close>
    is the inductive reachability relation; the invariant \<open>flow_inv\<close> is proved by
    rule induction. Claims C24--C27: what the application is served in honest runs,
    the exact final state of a login run whose callback carries the relay state the
    first visit handed out, the relay-state replay and the relay state's reuse.
  \<^item> \<open>Browser\<close>: a browser that follows the redirects of the flow, with the identity
    provider as a function from authentication-request URLs to its answer. Nothing in
    the code bounds the number of rounds, so \<open>browse\<close> is a
    \<open>partial_function (option)\<close>, with \<open>None\<close> for a browser redirected forever.
    C28 proves that it returns, after one round trip, when the identity provider
    answers with an accepted response; C29 that a rejected response stops it with 403.
  \<^item> \<open>Session_Spec\<close>: the abstract specification of spec sections 3 and 4, a session
    store that records the full URL of each visit it sends to the identity provider
    and holds the session as an attribute map with an expiry one
    \<open>session_lifetime\<close> (one hour, the spec's default) after the callback; its steps
    \<open>store_step\<close>, where a callback names its relay state by position and is sent
    back to the URL recorded for it; the abstraction \<open>abs_store\<close> that reads token
    payloads; and the refinement theorem C30: every honest run of the code is,
    through the abstraction, the abstract store's run, proved by induction with the
    invariant that every token the browser holds is genuine. The step lemmas take
    what they need of the code as premises, the relay-state claims (lines 93--94),
    the contract \<open>relay_recovers\<close> on the relay-state recovery (an empty relay state
    gives \<open>/\<close>, a genuine one its \<open>uri\<close>) and \<open>session_contract\<close> on the session
    claims (attribute map, expiry, headers); C30 establishes all three from the code.
  \<^item> \<open>Handler_Stack\<close>: the composition of spec sections 2 and 4.5,
    \<open>RequireAccountMiddleware\<close> in front of \<open>RequireAttribute\<close> in front of the
    application: the application only sees requests whose gate decision rests on a
    verified token's claims (C33); and the precedence of the first \<open>token\<close> cookie
    when a request carries several (C34).
  \<^item> this theory: the properties that span the components, the login flow end to end:
    the relay state accepted as a session (C1), the session lifetime (C15), the
    attribute gate behind the authorizer (C16) and the bound of C32: the cookie's
    \<open>Max-Age\<close> is positive and equals the window in which its token verifies.

  \<^bold>\<open>Modelling choices.\<close> Panics (nil PEM block, failed type assertion, the two
  deliberate panics) are \<open>Inl (Panic msg)\<close>. Time is the Unix-seconds \<open>int\<close> of the
  injectable clock; no claim depends on the width of \<open>int64\<close>. Go map iteration order
  is the order of the association list, and theorems about the header bridge hold for
  every order or state when they depend on it. The loops of the code run over finite
  maps and lists and are structural recursions; the only unbounded loop is the
  browser's redirect loop of \<open>Browser\<close>, a \<open>partial_function (option)\<close> whose
  return C28 proves, so no fuel is needed. The only integers are the Unix-seconds
  clock (Go's \<open>time.Add\<close> saturates rather than wrapping, and the claims compare
  instants only) and the constant \<open>cookieMaxAge\<close>; the bounds that matter are the
  time windows, and C32 bounds the token's window by the cookie's \<open>Max-Age\<close>
  (lines 144 and 153). The keyed hash is a parameter: properties that need key separation
  take it as a hypothesis about the concrete signing input.

  \<^bold>\<open>Not modelled.\<close> The text rendering of a log entry (\<open>time.Time\<close> by \<open>%s\<close>), XML marshalling of
  the metadata (an opaque string), \<open>url.Parse\<close> failures of the configured URLs,
  and the wire format of base64url and JSON beyond their injectivity. A redirect is
  modelled with the target the code passes to \<open>http.Redirect\<close>: the library's
  rewriting of a host-less target (\<open>url.Parse\<close>, then \<open>path.Clean\<close>) differs
  between Go releases, in particular for scheme-relative \<open>//host\<close> targets, and the
  repository fixes no release, so no single model of it would be faithful.
  \<open>r.ParseForm\<close> is the \<open>form\<close> field of the request (the parsed values). \<open>pem.Decode\<close> of the configured key is library code
  outside the repository: the configuration is the decoded block (\<open>sp_key\<close>, \<open>None\<close>
  for a key without a PEM block), and modelling the PEM and base64 parsers would add
  library definitions without covering more of the repository's code. Every
  statement of \<open>src/middleware.go\<close> is translated by a definition of
  \<open>Middleware\<close>; the lines outside the map are the package clause, the imports and
  the doc comments, whose promises are claims here (C6, C13, C16, C33).
\<close>

section \<open>The login flow across components\<close>

text \<open>
  C1. Token-kind confusion: the relay-state token that RequireAccountMiddleware signs
  and hands to the identity provider for an unauthorized request is, presented later
  as the \<open>token\<close> cookie, accepted by DefaultIsAuthorized at every time: it is signed
  with the session key and HS256, carries no \<open>exp\<close> and no token type. The request is
  authorized without any assertion, with header \<open>X-Saml-Uri\<close> set to the URI.
\<close>

theorem relay_state_accepted_as_session:
  assumes "is_authorized env0 m r0 = Inr (False, r0)"
    and "url_path r0 \<noteq> acs_path (service_provider m)"
    and "sign_hs256 env0 (service_provider m) (relay_state_claims r0) = Inr rs"
    and "make_redirect_authentication_request (service_provider m) rs = Inr url"
    and "request_cookie r cookie_name = Some rs" and "\<not> has_saml_header (header r)"
    and "mac env = mac env0"
  shows "require_account_middleware env0 m h r0 = Inr (Redirect [] url 302)
    \<and> default_is_authorized env m r
        = Inr (True, r\<lparr>header := header_set (header r) ''X-Saml-uri'' (url_string r0)\<rparr>)"
proof
  show "require_account_middleware env0 m h r0 = Inr (Redirect [] url 302)"
    using assms(1-4) by (simp add: require_account_middleware_def)
  have "default_is_authorized env m r
      = Inr (True, r\<lparr>header := set_saml_headers (relay_state_claims r0) (header r)\<rparr>)"
    using assms(3,5-7) by (intro default_is_authorized_token) simp_all
  then show "default_is_authorized env m r
      = Inr (True, r\<lparr>header := header_set (header r) ''X-Saml-uri'' (url_string r0)\<rparr>)"
    by (simp add: relay_state_claims_def)
qed

theorem relay_state_accepted_as_session_witness:
  "require_account_middleware (demo_env 0) demo_mw (\<lambda>r. Inr (Served r)) (demo_request ''/protected'' [] [] [])
     = Inr (Redirect [] (''https://idp.example.com/sso?RelayState=''
                          @ demo_token (relay_state_claims (demo_request ''/protected'' [] [] []))) 302)
   \<and> default_is_authorized (demo_env 4000000000) demo_mw
       (demo_request ''/protected'' []
          [(''token'', demo_token (relay_state_claims (demo_request ''/protected'' [] [] [])))] [])
     = Inr (True, (demo_request ''/protected'' []
          [(''token'', demo_token (relay_state_claims (demo_request ''/protected'' [] [] [])))] [])
          \<lparr>header := header_set [] ''X-Saml-uri'' ''/protected''\<rparr>)"
proof -
  let ?start = "demo_request ''/protected'' [] [] []"
  let ?relay = "demo_token (relay_state_claims ?start)"
  let ?later = "demo_request ''/protected'' [] [(''token'', ?relay)] []"
  have unauth: "is_authorized (demo_env 0) demo_mw ?start = Inr (False, ?start)"
    by (simp add: is_authorized_def default_is_authorized_def request_cookie_def demo_defs)
  have path: "url_path ?start \<noteq> acs_path (service_provider demo_mw)"
    by (simp add: demo_defs)
  have idp: "make_redirect_authentication_request (service_provider demo_mw) ?relay
      = Inr (''https://idp.example.com/sso?RelayState='' @ ?relay)"
    by (simp add: demo_defs)
  have cookie: "request_cookie ?later cookie_name = Some ?relay"
    by (simp add: request_cookie_def cookie_name_def demo_request_def)
  have clean: "\<not> has_saml_header (header ?later)"
    by (simp add: has_saml_header_def demo_request_def)
  have "mac (demo_env 4000000000) = mac (demo_env 0)"
    by (simp add: demo_env_def)
  note flow = relay_state_accepted_as_session [OF unauth path demo_sign idp cookie clean this]
  have "header ?later = []" and "url_string ?start = ''/protected''"
    by (simp_all add: demo_request_def)
  with flow show ?thesis
    by (simp only:)
qed

text \<open>
  C15. Session lifetime (spec sections 3 and 4.4 step 3): the session cookie that the
  callback sets at time \<open>t0\<close>, presented later by a request without \<open>X-Saml\<close>
  headers, is accepted exactly while the clock is at most \<open>t0\<close> plus the cookie
  lifetime of one hour; afterwards the request is unauthenticated again.
\<close>

theorem session_cookie_lifetime:
  assumes "default_authorize_func env0 m r0 attrs = Inr (Redirect [ck] u 302)"
    and "request_cookie r cookie_name = Some (c_value ck)" and "\<not> has_saml_header (header r)"
    and "mac env = mac env0"
  shows "(\<exists>r'. default_is_authorized env m r = Inr (True, r')) \<longleftrightarrow> now env \<le> now env0 + cookie_max_age"
proof -
  from assms(1) obtain tok where sg: "sign_hs256 env0 (service_provider m) (session_claims env0 attrs) = Inr tok"
    and ck: "ck = session_cookie tok"
    by (rule default_authorize_func_Redirect) simp
  have "jwt_parse env (secret_bytes (service_provider m)) tok
      = (if now env0 + cookie_max_age < now env then Inr (Inl (Invalid [Expired]))
         else Inr (Inr (session_claims env0 attrs)))"
    using jwt_parse_hs256 [OF sg session_claims_wf assms(4)] by (simp add: time_errors_session)
  with assms(2,3) ck show ?thesis
    by (auto simp: default_is_authorized_def session_cookie_def)
qed

theorem session_cookie_lifetime_witness:
  "(\<exists>r'. default_is_authorized (demo_env 2000) demo_mw
          (demo_request ''/'' [] [(''token'', demo_token (session_claims (demo_env 1000)
              [\<lparr>friendly_name = ''uid'', attr_name = ''uid'', attr_value = ''alice''\<rparr>]))] []) = Inr (True, r'))
   \<and> \<not> (\<exists>r'. default_is_authorized (demo_env 5000) demo_mw
          (demo_request ''/'' [] [(''token'', demo_token (session_claims (demo_env 1000)
              [\<lparr>friendly_name = ''uid'', attr_name = ''uid'', attr_value = ''alice''\<rparr>]))] []) = Inr (True, r'))"
proof -
  let ?a = "[\<lparr>friendly_name = ''uid'', attr_name = ''uid'', attr_value = ''alice''\<rparr>]"
  let ?tok = "demo_token (session_claims (demo_env 1000) ?a)"
  let ?r = "demo_request ''/'' [] [(''token'', ?tok)] []"
  have cb: "default_authorize_func (demo_env 1000) demo_mw (demo_request ''/saml/acs'' [] [] []) ?a
      = Inr (Redirect [session_cookie ?tok] ''/'' 302)"
    by (simp add: default_authorize_func_def relay_state_uri_def form_get_def demo_request_def)
  have ck: "request_cookie ?r cookie_name = Some (c_value (session_cookie ?tok))"
    by (simp add: request_cookie_def cookie_name_def demo_request_def session_cookie_def)
  have cl: "\<not> has_saml_header (header ?r)"
    by (simp add: has_saml_header_def demo_request_def)
  have "mac (demo_env t) = mac (demo_env 1000)" for t
    by (simp add: demo_env_def)
  with session_cookie_lifetime [OF cb ck cl] show ?thesis
    by (simp add: demo_env_def cookie_max_age_def)
qed

text \<open>
  C16. Attribute gate behind the authorizer (spec sections 4.5 and 8): on a request
  the default authorizer accepted, \<open>RequireAttribute(name, value)\<close> passes the request
  on exactly when the verified token has a string claim equal to \<open>value\<close> under a
  name with the same canonical header name as \<open>name\<close> (header names are
  case-insensitive), and answers 403 otherwise; inbound headers play no part.
\<close>

theorem require_attribute_after_auth:
  assumes "default_is_authorized env m r = Inr (True, r')"
    and "request_cookie r cookie_name = Some v"
    and "jwt_parse env (secret_bytes (service_provider m)) v = Inr (Inr c)"
    and "inj_on (\<lambda>n. canonical_header_key (''X-Saml-'' @ n)) (fst ` set c)"
  shows "require_attribute n val h r'
    = (if \<exists>n'. canonical_header_key (''X-Saml-'' @ n') = canonical_header_key (''X-Saml-'' @ n)
              \<and> map_of c n' = Some (CStr val)
       then h r' else Inr (HttpError 403 (status_text 403)))"
proof -
  let ?K = "\<lambda>n. canonical_header_key (''X-Saml-'' @ n)"
  from assms(1) obtain v' c' where "request_cookie r cookie_name = Some v'"
    and "jwt_parse env (secret_bytes (service_provider m)) v' = Inr (Inr c')"
    and clean: "\<not> has_saml_header (header r)" and r': "r' = r\<lparr>header := set_saml_headers c' (header r)\<rparr>"
    by (rule default_is_authorized_True)
  with assms(2,3) have hr': "header r' = set_saml_headers c (header r)" by simp
  have dist: "distinct (map fst c)"
    using jwt_parse_wf [OF assms(3)] by (simp add: go_map_wf_def)
  show ?thesis
  proof (cases "\<exists>n'. ?K n' = ?K n \<and> map_of c n' = Some (CStr val)")
    case True
    then obtain n' where k: "?K n' = ?K n" and mem: "(n', CStr val) \<in> set c"
      by (blast dest: map_of_SomeD)
    from set_saml_headers_lookup [OF dist assms(4) mem] k hr' True show ?thesis
      by (simp add: require_attribute_def)
  next
    case False
    have "\<not> list_ex (\<lambda>x. x = val) vs" if "map_of (header r') (?K n) = Some vs" for vs
      using saml_header_value_origin [OF clean, of c n vs] that hr' dist False
      by (auto simp: map_of_eq_Some_iff)
    with False show ?thesis
      by (auto simp: require_attribute_def split: option.splits)
  qed
qed

theorem require_attribute_after_auth_witness:
  "\<exists>r'. default_is_authorized (demo_env 0) demo_mw
          (demo_request ''/'' [] [(''token'', demo_token [(''eduPersonAffiliation'', CStr ''Staff'')])] []) = Inr (True, r')
     \<and> require_attribute ''eduPersonAffiliation'' ''Staff'' (\<lambda>q. Inr (Served q)) r' = Inr (Served r')
     \<and> require_attribute ''eduPersonAffiliation'' ''Student'' (\<lambda>q. Inr (Served q)) r' = Inr (HttpError 403 ''Forbidden'')"
proof -
  let ?c = "[(''eduPersonAffiliation'', CStr ''Staff'')]"
  let ?r = "demo_request ''/'' [] [(''token'', demo_token ?c)] []"
  let ?r' = "?r\<lparr>header := set_saml_headers ?c (header ?r)\<rparr>"
  have wf: "go_map_wf ?c" by (simp add: go_map_wf_def)
  have ok: "default_is_authorized (demo_env 0) demo_mw ?r = Inr (True, ?r')"
    by (rule default_is_authorized_token [OF _ demo_sign wf])
       (simp_all add: demo_defs request_cookie_def cookie_name_def time_errors_def claim_num_def
         has_saml_header_def)
  have ck: "request_cookie ?r cookie_name = Some (demo_token ?c)"
    by (simp add: request_cookie_def cookie_name_def demo_request_def)
  have pr: "jwt_parse (demo_env 0) (secret_bytes (service_provider demo_mw)) (demo_token ?c) = Inr (Inr ?c)"
    using jwt_parse_hs256 [OF demo_sign wf, of "demo_env 0"]
    by (simp add: demo_env_def time_errors_def claim_num_def)
  have inj: "inj_on (\<lambda>n. canonical_header_key (''X-Saml-'' @ n)) (fst ` set ?c)"
    by simp
  note gate = require_attribute_after_auth [OF ok ck pr inj]
  have "require_attribute ''eduPersonAffiliation'' ''Staff'' (\<lambda>q. Inr (Served q)) ?r' = Inr (Served ?r')"
    using gate [of "''eduPersonAffiliation''" "''Staff''"] by auto
  moreover have "require_attribute ''eduPersonAffiliation'' ''Student'' (\<lambda>q. Inr (Served q)) ?r'
      = Inr (HttpError 403 ''Forbidden'')"
    using gate [of "''eduPersonAffiliation''" "''Student''"] by (auto simp: status_text_def)
  ultimately show ?thesis
    using ok by blast
qed

text \<open>
  C32. Cookie and token lifetimes agree (spec sections 3 and 4.4 step 3): the session
  cookie the callback sets at time \<open>t0\<close> carries a positive \<open>Max-Age\<close> (Go writes
  the attribute only for a positive \<open>MaxAge\<close>, line 153), and its token verifies
  under the service provider's key at a time \<open>t\<close> exactly when \<open>t\<close> is at most
  \<open>t0\<close> plus that \<open>Max-Age\<close> (the \<open>exp\<close> of line 144): the browser keeps the
  cookie for exactly the window in which the server accepts it.
\<close>

theorem session_cookie_max_age_bounds:
  assumes "default_authorize_func env0 m r0 attrs = Inr (Redirect [ck] u 302)"
  shows "0 < c_max_age ck
    \<and> (\<forall>t. (\<exists>cl. jwt_parse (env0\<lparr>now := t\<rparr>) (secret_bytes (service_provider m)) (c_value ck) = Inr (Inr cl))
           \<longleftrightarrow> t \<le> now env0 + c_max_age ck)"
proof -
  from assms obtain tok where sg: "sign_hs256 env0 (service_provider m) (session_claims env0 attrs) = Inr tok"
    and ck: "ck = session_cookie tok"
    by (rule default_authorize_func_Redirect) simp
  have "jwt_parse (env0\<lparr>now := t\<rparr>) (secret_bytes (service_provider m)) tok
      = (if now env0 + cookie_max_age < t then Inr (Inl (Invalid [Expired]))
         else Inr (Inr (session_claims env0 attrs)))" for t
    using jwt_parse_hs256 [OF sg session_claims_wf, of "env0\<lparr>now := t\<rparr>"]
    by (simp add: time_errors_session)
  with ck show ?thesis
    by (auto simp: session_cookie_def cookie_max_age_def)
qed

theorem session_cookie_max_age_bounds_witness:
  "0 < c_max_age (session_cookie (demo_token (session_claims (demo_env 1000)
          [\<lparr>friendly_name = ''uid'', attr_name = ''uid'', attr_value = ''alice''\<rparr>])))
   \<and> (\<exists>cl. jwt_parse (demo_env 4600) (secret_bytes demo_sp)
          (c_value (session_cookie (demo_token (session_claims (demo_env 1000)
             [\<lparr>friendly_name = ''uid'', attr_name = ''uid'', attr_value = ''alice''\<rparr>])))) = Inr (Inr cl))
   \<and> \<not> (\<exists>cl. jwt_parse (demo_env 4601) (secret_bytes demo_sp)
          (c_value (session_cookie (demo_token (session_claims (demo_env 1000)
             [\<lparr>friendly_name = ''uid'', attr_name = ''uid'', attr_value = ''alice''\<rparr>])))) = Inr (Inr cl))"
proof -
  let ?a = "[\<lparr>friendly_name = ''uid'', attr_name = ''uid'', attr_value = ''alice''\<rparr>]"
  let ?tok = "demo_token (session_claims (demo_env 1000) ?a)"
  have cb: "default_authorize_func (demo_env 1000) demo_mw (demo_request ''/saml/acs'' [] [] []) ?a
      = Inr (Redirect [session_cookie ?tok] ''/'' 302)"
    by (simp add: default_authorize_func_def relay_state_uri_def form_get_def demo_request_def)
  have env: "demo_env 1000\<lparr>now := t\<rparr> = demo_env t" for t
    by (simp add: demo_env_def)
  have key: "service_provider demo_mw = demo_sp"
    by (simp add: demo_mw_def)
  from session_cookie_max_age_bounds [OF cb] show ?thesis
    unfolding env key by (simp add: demo_env_def session_cookie_def cookie_max_age_def)
qed

end
